(* ===== verification/Prelude.thy ===== *)
theory Prelude
  imports Complex_Main "HOL-Library.Word"
begin

text \<open>
  Shared vocabulary of the development: the grid type that models a 2-D numpy array
  (a list of rows, row index = latitude axis 0, column index = longitude axis 1),
  the 8-bit pixel type of \<open>np.uint8\<close>, the error values that the pipeline's library
  calls raise, the error monad that threads them, and the generic lemmas on grids
  and words that the component theories share.
\<close>

section \<open>Types of the model\<close>

type_synonym 'a grid = "'a list list"
type_synonym u8 = "8 word"

text \<open>A float cell: \<open>None\<close> is NaN, the no-data value of every raster of the program.\<close>

type_synonym cell = "real option"

text \<open>
  The exceptions the core can raise, one constructor per library error:
  \<open>cv2.error\<close> on an empty image, \<open>AttributeError\<close> for a raster without a
  \<open>time\<close> coordinate, xarray's \<open>ValueError\<close> on conflicting sizes, rioxarray's
  \<open>MissingCRS\<close> and \<open>NoDataInBounds\<close>, rasterio's \<open>ValueError\<close> for an empty
  geometry list, and \<open>IndexError\<close> for a dataset without a time slice.
\<close>

datatype error =
    EmptyImage
  | MissingTime
  | ShapeMismatch
  | MissingCRS
  | EmptyGeometries
  | NoDataInBounds
  | IndexError
  | NotImplementedError
  | TypeError

type_synonym 'a result = "error + 'a"

definition rbind :: "'a result \<Rightarrow> ('a \<Rightarrow> 'b result) \<Rightarrow> 'b result" where
  "rbind m f = (case m of Inl e \<Rightarrow> Inl e | Inr x \<Rightarrow> f x)"

section \<open>Grids\<close>

definition grid_rows :: "'a grid \<Rightarrow> nat" where
  "grid_rows g = length g"

definition grid_cols :: "'a grid \<Rightarrow> nat" where
  "grid_cols g = (case g of [] \<Rightarrow> 0 | r # _ \<Rightarrow> length r)"

text \<open>A rectangular grid of \<open>m\<close> rows of \<open>n\<close> cells: the shape of a numpy array.\<close>

definition grid_shape :: "nat \<Rightarrow> nat \<Rightarrow> 'a grid \<Rightarrow> bool" where
  "grid_shape m n g \<longleftrightarrow> length g = m \<and> list_all (\<lambda>r. length r = n) g"

text \<open>The array whose cell \<open>(i, j)\<close> is \<open>f i j\<close>: how the element-wise filters build their output.\<close>

definition gen_grid :: "nat \<Rightarrow> nat \<Rightarrow> (nat \<Rightarrow> nat \<Rightarrow> 'a) \<Rightarrow> 'a grid" where
  "gen_grid m n f = map (\<lambda>i. map (f i) [0..<n]) [0..<m]"

definition gmap :: "('a \<Rightarrow> 'b) \<Rightarrow> 'a grid \<Rightarrow> 'b grid" where
  "gmap f g = map (map f) g"

definition gzip :: "('a \<Rightarrow> 'b \<Rightarrow> 'c) \<Rightarrow> 'a grid \<Rightarrow> 'b grid \<Rightarrow> 'c grid" where
  "gzip f a b = map2 (map2 f) a b"

text \<open>The cells of a grid, row after row (numpy's C order).\<close>

definition cells :: "'a grid \<Rightarrow> 'a list" where
  "cells g = concat g"

named_theorems grid_simps "characteristic equations of the grid combinators"

section \<open>Lemmas on the error monad\<close>

lemma rbind_Inl [simp]: "rbind (Inl e) f = Inl e"
  by (simp add: rbind_def)

lemma rbind_Inr [simp]: "rbind (Inr x) f = f x"
  by (simp add: rbind_def)

lemma rbind_map_sum: "rbind (map_sum id f m) g = rbind m (g \<circ> f)"
  by (cases m) simp_all

lemma rbind_assoc: "rbind (rbind m f) g = rbind m (\<lambda>x. rbind (f x) g)"
  by (cases m) simp_all

lemma rbind_eq_Inr:
  "rbind m f = Inr y \<longleftrightarrow> (\<exists>x. m = Inr x \<and> f x = Inr y)"
  by (cases m) auto

section \<open>Lemmas on lists\<close>

lemma set_map_filter: "set (List.map_filter f xs) = {y. \<exists>x\<in>set xs. f x = Some y}"
  by (induction xs) (auto split: option.splits)

section \<open>Lemmas on grids\<close>

lemma length_gen_grid [simp, grid_simps]: "length (gen_grid m n f) = m"
  by (simp add: gen_grid_def)

lemma nth_gen_grid [simp, grid_simps]:
  "i < m \<Longrightarrow> gen_grid m n f ! i = map (f i) [0..<n]"
  by (simp add: gen_grid_def)

lemma cell_gen_grid [simp, grid_simps]:
  "i < m \<Longrightarrow> j < n \<Longrightarrow> gen_grid m n f ! i ! j = f i j"
  by simp

lemma gen_grid_shape [simp, grid_simps]: "grid_shape m n (gen_grid m n f)"
  by (simp add: grid_shape_def gen_grid_def list_all_iff)

lemma gen_grid_0 [simp]: "gen_grid 0 n f = []"
  by (simp add: gen_grid_def)

lemma grid_rows_gen_grid [simp, grid_simps]: "grid_rows (gen_grid m n f) = m"
  by (simp add: grid_rows_def)

lemma grid_cols_gen_grid [simp, grid_simps]: "0 < m \<Longrightarrow> grid_cols (gen_grid m n f) = n"
  by (simp add: grid_cols_def gen_grid_def upt_conv_Cons del: upt_Suc)

lemma gen_grid_cong:
  "(\<And>i j. i < m \<Longrightarrow> j < n \<Longrightarrow> f i j = g i j) \<Longrightarrow> gen_grid m n f = gen_grid m n g"
  by (simp add: gen_grid_def)

lemma grid_shape_rows [grid_simps]: "grid_shape m n g \<Longrightarrow> grid_rows g = m"
  by (simp add: grid_shape_def grid_rows_def)

lemma grid_shape_cols [grid_simps]: "grid_shape m n g \<Longrightarrow> 0 < m \<Longrightarrow> grid_cols g = n"
  by (cases g) (auto simp: grid_shape_def grid_cols_def)

lemma grid_shape_row_length [grid_simps]:
  "grid_shape m n g \<Longrightarrow> i < m \<Longrightarrow> length (g ! i) = n"
  by (auto simp: grid_shape_def list_all_length)

lemma grid_shape_gmap [simp, grid_simps]: "grid_shape m n (gmap f g) = grid_shape m n g"
  by (simp add: grid_shape_def gmap_def list_all_iff)

lemma gmap_cell [grid_simps]:
  "i < length g \<Longrightarrow> j < length (g ! i) \<Longrightarrow> gmap f g ! i ! j = f (g ! i ! j)"
  by (simp add: gmap_def)

lemma length_gmap [simp, grid_simps]: "length (gmap f g) = length g"
  by (simp add: gmap_def)

lemma gmap_gmap [simp]: "gmap f (gmap g x) = gmap (f \<circ> g) x"
  by (simp add: gmap_def)

lemma gmap_gen_grid [simp, grid_simps]: "gmap h (gen_grid m n f) = gen_grid m n (\<lambda>i j. h (f i j))"
  by (simp add: gmap_def gen_grid_def)

lemma grid_eqI:
  assumes "grid_shape m n a" "grid_shape m n b"
    and "\<And>i j. i < m \<Longrightarrow> j < n \<Longrightarrow> a ! i ! j = b ! i ! j"
  shows "a = b"
proof (rule nth_equalityI)
  show "length a = length b" using assms(1,2) by (simp add: grid_shape_def)
next
  fix i assume "i < length a"
  then have i: "i < m" using assms(1) by (simp add: grid_shape_def)
  then have "length (a ! i) = n" "length (b ! i) = n"
    using assms(1,2) grid_shape_row_length by blast+
  then show "a ! i = b ! i"
    using assms(3) i by (simp add: nth_equalityI)
qed

lemma grid_eq_gen_grid:
  "grid_shape m n g \<Longrightarrow> g = gen_grid m n (\<lambda>i j. g ! i ! j)"
  by (rule grid_eqI [where m = m and n = n]) simp_all

lemma gzip_gen_grid [simp, grid_simps]:
  "gzip h (gen_grid m n f) (gen_grid m n g) = gen_grid m n (\<lambda>i j. h (f i j) (g i j))"
  by (rule grid_eqI [where m = m and n = n]) (auto simp: gzip_def grid_shape_def list_all_length)

lemma gzip_shape:
  "grid_shape m n a \<Longrightarrow> grid_shape m n b \<Longrightarrow> grid_shape m n (gzip f a b)"
  by (auto simp: grid_shape_def gzip_def list_all_length)

lemma gzip_cell:
  "grid_shape m n a \<Longrightarrow> grid_shape m n b \<Longrightarrow> i < m \<Longrightarrow> j < n \<Longrightarrow>
   gzip f a b ! i ! j = f (a ! i ! j) (b ! i ! j)"
proof -
  assume a: "grid_shape m n a" and b: "grid_shape m n b" and i: "i < m" and j: "j < n"
  have "length a = m" "length b = m" using a b by (simp_all add: grid_shape_def)
  moreover have "length (a ! i) = n" "length (b ! i) = n"
    using a b i by (simp_all add: grid_shape_row_length)
  ultimately show ?thesis using i j by (simp add: gzip_def)
qed

lemma gzip_gmap_right:
  assumes "\<And>x y. h x (g y) = k (h' x y)"
  shows "gzip h a (gmap g b) = gmap k (gzip h' a b)"
  unfolding gzip_def gmap_def
proof (induction a arbitrary: b)
  case Nil
  then show ?case by simp
next
  case (Cons x a)
  then show ?case
  proof (cases b)
    case Nil
    then show ?thesis by simp
  next
    case (Cons y b')
    have "map2 h x (map g y) = map k (map2 h' x y)"
    proof (induction x arbitrary: y)
      case Nil
      then show ?case by simp
    next
      case (Cons u x)
      then show ?case by (cases y) (simp_all add: assms)
    qed
    with Cons.IH Cons show ?thesis by simp
  qed
qed

lemma gmap_gzip: "gmap k (gzip h a b) = gzip (\<lambda>x y. k (h x y)) a b"
  by (simp add: gzip_def gmap_def zip_map2 map_zip_map2 case_prod_beta)

lemma grid_rows_gmap [simp]: "grid_rows (gmap f g) = grid_rows g"
  by (simp add: grid_rows_def)

lemma grid_cols_gmap [simp]: "grid_cols (gmap f g) = grid_cols g"
  by (simp add: grid_cols_def gmap_def split: list.split)

lemma set_cells_gen_grid [grid_simps]:
  "set (cells (gen_grid m n f)) = {f i j | i j. i < m \<and> j < n}"
  by (auto simp: cells_def gen_grid_def) blast

lemma finite_cell_set:
  fixes f :: "nat \<Rightarrow> nat \<Rightarrow> 'a"
  shows "finite {f i j | i j. i < m \<and> j < n}"
proof (rule finite_subset)
  show "{f i j | i j. i < m \<and> j < n} \<subseteq> (\<lambda>(i, j). f i j) ` ({..<m} \<times> {..<n})" by auto
  show "finite ((\<lambda>(i, j). f i j) ` ({..<m} \<times> {..<n}))"
    by (intro finite_imageI finite_cartesian_product) simp_all
qed

section \<open>Lemmas on bytes\<close>

text \<open>
  A sum with integer weights of bytes read as unsigned integers, cast back to a byte:
  the cast forgets the earlier reads' wrap-around, since \<open>word_of_int\<close> is a ring
  homomorphism and \<open>word_of_int (uint x) = x\<close>.
\<close>

lemma word_of_int_weighted3:
  "(word_of_int (a * uint (word_of_int x :: u8) + b * uint (word_of_int y :: u8)
      + c * uint (word_of_int z :: u8)) :: u8)
   = word_of_int (a * x + b * y + c * z)"
  by (simp only: wi_hom_add [symmetric] wi_hom_mult [symmetric] word_of_int_uint)

lemma unat_u8_bound [simp]: "unat (x :: u8) < 256"
  using unsigned_less [of x] by simp

lemma unat_u8_le [simp]: "unat (x :: u8) \<le> 255"
  using unat_u8_bound [of x] by linarith

lemma real_unat_u8_bounds [simp]:
  "0 \<le> (unsigned (x :: u8) :: real)" "(unsigned (x :: u8) :: real) \<le> 255"
proof -
  have "0 \<le> real (unat x)" by (rule of_nat_0_le_iff)
  then show "0 \<le> (unsigned x :: real)" by (simp only: of_nat_unat)
  have "real (unat x) \<le> real (255 :: nat)" by (rule of_nat_mono) (rule unat_u8_le)
  then show "(unsigned x :: real) \<le> 255" by (simp only: of_nat_unat of_nat_numeral)
qed

lemma uint_u8_bounds [simp]: "0 \<le> uint (x :: u8)" "uint (x :: u8) < 256"
  using uint_lt2p [of x] by simp_all

lemma unat_add_of_nat_u8:
  fixes x :: u8
  shows "unat x + c < 256 \<Longrightarrow> unat (x + of_nat c) = unat x + c"
proof -
  assume a: "unat x + c < 256"
  then have c: "unat (of_nat c :: u8) = c" by (simp add: unat_of_nat)
  show ?thesis using a unat_add_lem [of x "of_nat c"] by (simp add: c)
qed

lemma gmap_Some_cell:
  "grid_shape m n g \<Longrightarrow> i < m \<Longrightarrow> j < n \<Longrightarrow> gmap Some g ! i ! j = Some (g ! i ! j)"
  using grid_shape_row_length [of m n g i] by (simp add: gmap_cell grid_shape_def)

lemma set_cells_gmap: "set (cells (gmap f g)) = f ` set (cells g)"
  by (simp add: cells_def gmap_def image_UN)

end
