(* ===== verification/Raster.thy ===== *)
theory Raster
  imports Prelude
begin

text \<open>
  The xarray \<open>DataArray\<close> the pipeline passes between its stages: a value grid
  indexed by the \<open>lat\<close> axis (rows) and the \<open>lon\<close> axis (columns), the scalar
  \<open>time\<close> coordinate of the selected slice, and the CRS that rioxarray attaches with
  \<open>rio.write_crs\<close>. The array \<open>.values\<close> is the field \<open>data\<close>. The spatial dimension binding of \<open>rio.set_spatial_dims\<close> is
  fixed to \<open>x = lon, y = lat\<close> throughout the program and is not a field.
\<close>

datatype crs = WGS84 | EPSG3035

record 'v raster =
  lat :: "real list"
  lon :: "real list"
  time :: "int option"
  crs :: "crs option"
  data :: "'v grid"

text \<open>The shape invariant of a \<open>DataArray\<close>: the value array is \<open>len(lat) \<times> len(lon)\<close>.\<close>

definition raster_wf :: "('v, 'm) raster_scheme \<Rightarrow> bool" where
  "raster_wf r \<longleftrightarrow> grid_shape (length (lat r)) (length (lon r)) (data r)"

text \<open>A stage that only transforms the cell values, the other fields untouched.\<close>

definition map_cells :: "(real \<Rightarrow> real) \<Rightarrow> cell raster \<Rightarrow> cell raster" where
  "map_cells f r = r\<lparr>data := gmap (map_option f) (data r)\<rparr>"

lemma raster_wf_row_length [grid_simps]:
  "raster_wf r \<Longrightarrow> i < length (lat r) \<Longrightarrow> length (data r ! i) = length (lon r)"
  by (simp add: raster_wf_def grid_shape_row_length)

lemma raster_wf_rows [grid_simps]: "raster_wf r \<Longrightarrow> length (data r) = length (lat r)"
  by (simp add: raster_wf_def grid_shape_def)

lemma map_cells_fields [simp]:
  "lat (map_cells f r) = lat r" "lon (map_cells f r) = lon r" "time (map_cells f r) = time r"
  "crs (map_cells f r) = crs r" "data (map_cells f r) = gmap (map_option f) (data r)"
  by (simp_all add: map_cells_def)

lemma map_cells_wf [simp]: "raster_wf (map_cells f r) = raster_wf r"
  by (simp add: raster_wf_def)

end
