(* ===== verification/Quantize.thy ===== *)
theory Quantize
  imports Raster
begin

text \<open>
  The Grid Quantizer: \<open>img = data_array.astype(np.uint8)\<close> in \<open>sobel_gradient\<close>
  (src/fronts_module/compute_fronts_functions.py, line 74). numpy casts each float64
  with the C conversion, which on x86-64 is \<open>cvttsd2si\<close> to a 32-bit integer
  (truncation toward zero) followed by keeping the low byte. A NaN cell, or a value
  outside the 32-bit range, converts to the "integer indefinite" \<open>0x80000000\<close>, whose
  low byte is 0.
\<close>

definition trunc_real :: "real \<Rightarrow> int" where
  "trunc_real x = (if 0 \<le> x then \<lfloor>x\<rfloor> else \<lceil>x\<rceil>)"

definition quantize :: "cell \<Rightarrow> u8" where
  "quantize v = (case v of
      None \<Rightarrow> 0
    | Some x \<Rightarrow> (let t = trunc_real x in
                 if - (2 ^ 31) \<le> t \<and> t < 2 ^ 31 then word_of_int t else 0))"

definition astype_uint8 :: "cell grid \<Rightarrow> u8 grid" where
  "astype_uint8 g = gmap quantize g"

section \<open>Lemmas\<close>

lemma trunc_real_nonneg [simp]: "0 \<le> x \<Longrightarrow> trunc_real x = \<lfloor>x\<rfloor>"
  by (simp add: trunc_real_def)

lemma trunc_real_neg [simp]: "x < 0 \<Longrightarrow> trunc_real x = \<lceil>x\<rceil>"
  by (simp add: trunc_real_def)

lemma trunc_real_of_int [simp]: "trunc_real (of_int k) = k"
  by (simp add: trunc_real_def)

lemma trunc_real_add_int:
  "0 \<le> x \<Longrightarrow> 0 \<le> k \<Longrightarrow> trunc_real (x + of_int k) = trunc_real x + k"
  by simp

lemma quantize_Some_in_int32:
  "- (2 ^ 31) \<le> trunc_real x \<Longrightarrow> trunc_real x < 2 ^ 31 \<Longrightarrow>
   quantize (Some x) = word_of_int (trunc_real x)"
  by (simp add: quantize_def)

lemma uint_quantize_Some:
  "- (2 ^ 31) \<le> trunc_real x \<Longrightarrow> trunc_real x < 2 ^ 31 \<Longrightarrow>
   uint (quantize (Some x)) = trunc_real x mod 256"
  by (simp add: quantize_Some_in_int32 uint_word_of_int)

lemma astype_uint8_shape [simp]:
  "grid_shape m n (astype_uint8 g) = grid_shape m n g"
  by (simp add: astype_uint8_def)

lemma astype_uint8_cell:
  "i < length g \<Longrightarrow> j < length (g ! i) \<Longrightarrow> astype_uint8 g ! i ! j = quantize (g ! i ! j)"
  by (simp add: astype_uint8_def gmap_cell)

section \<open>Adding a whole number of degrees\<close>

lemma quantize_shift:
  assumes "0 \<le> x" "x + real c < 256"
  shows "quantize (Some (x + real c)) = quantize (Some x) + of_nat c
         \<and> unat (quantize (Some x)) + c < 256"
proof -
  have t: "trunc_real (x + real c) = \<lfloor>x\<rfloor> + int c"
    using assms(1) floor_add_int [of x "int c"] by simp
  have f: "0 \<le> \<lfloor>x\<rfloor>" "\<lfloor>x\<rfloor> + int c < 256"
    using assms by linarith+
  have "x < 2 ^ 31" using assms by simp
  have q: "quantize (Some x) = word_of_int \<lfloor>x\<rfloor>"
    using f assms \<open>x < 2 ^ 31\<close> by (simp add: quantize_def)
  have q2: "quantize (Some (x + real c)) = word_of_int (\<lfloor>x\<rfloor> + int c)"
  proof -
    have "- (2 ^ 31) \<le> \<lfloor>x\<rfloor> + int c" "\<lfloor>x\<rfloor> + int c < 2 ^ 31"
      using f (1,2) by (simp_all add: add_nonneg_nonneg del: zero_le_floor)
    then show ?thesis by (simp only: quantize_def option.case t Let_def if_True simp_thms)
  qed
  have "(word_of_int (\<lfloor>x\<rfloor> + int c) :: u8) = word_of_int \<lfloor>x\<rfloor> + of_nat c" by simp
  moreover have "uint (quantize (Some x)) = \<lfloor>x\<rfloor>"
  proof -
    have "\<lfloor>x\<rfloor> < 256" using f(2) by linarith
    then show ?thesis using f(1) by (simp add: q uint_word_of_int del: zero_le_floor)
  qed
  moreover have "nat \<lfloor>x\<rfloor> + c < 256" using f by arith
  ultimately show ?thesis using q q2 by (simp add: unat_eq_nat_uint)
qed

lemma astype_uint8_shift:
  assumes shp: "grid_shape m n g"
    and vals: "\<forall>i<m. \<forall>j<n. \<exists>x. g ! i ! j = Some x \<and> 0 \<le> x \<and> x + real c < 256"
  shows "astype_uint8 (gmap (map_option (\<lambda>x. x + real c)) g) = gmap (\<lambda>w. w + of_nat c) (astype_uint8 g)
         \<and> (\<forall>i<m. \<forall>j<n. unat (astype_uint8 g ! i ! j) + c < 256)"
proof -
  have l: "length g = m" "\<And>i. i < m \<Longrightarrow> length (g ! i) = n"
    using shp by (simp_all add: grid_shape_def grid_shape_row_length)
  have e: "astype_uint8 (gmap (map_option (\<lambda>x. x + real c)) g) = gmap (\<lambda>w. w + of_nat c) (astype_uint8 g)"
  proof (rule grid_eqI [of m n])
    show "grid_shape m n (astype_uint8 (gmap (map_option (\<lambda>x. x + real c)) g))"
         "grid_shape m n (gmap (\<lambda>w. w + of_nat c) (astype_uint8 g))"
      using shp by (simp_all add: grid_shape_gmap)
    fix i j assume ij: "i < m" "j < n"
    then obtain x where "g ! i ! j = Some x" "0 \<le> x" "x + real c < 256" using vals by blast
    then show "astype_uint8 (gmap (map_option (\<lambda>x. x + real c)) g) ! i ! j
               = gmap (\<lambda>w. w + of_nat c) (astype_uint8 g) ! i ! j"
      using ij l quantize_shift [of x c] by (simp add: astype_uint8_def gmap_cell)
  qed
  have "unat (astype_uint8 g ! i ! j) + c < 256" if ij: "i < m" "j < n" for i j
  proof -
    obtain x where "g ! i ! j = Some x" "0 \<le> x" "x + real c < 256" using vals ij by blast
    then show ?thesis using ij l quantize_shift [of x c] by (simp add: astype_uint8_cell)
  qed
  with e show ?thesis by blast
qed

section \<open>Adding an offset without a fractional carry\<close>

text \<open>
  A real offset \<open>c\<close> truncates like its whole part \<open>\<lfloor>c\<rfloor>\<close> on every non-negative
  value whose fractional part does not carry when \<open>c\<close>'s is added.
\<close>

lemma quantize_no_carry:
  assumes "0 \<le> x" "0 \<le> c" "frac x + frac c < 1"
  shows "quantize (Some (x + c)) = quantize (Some (x + real (nat \<lfloor>c\<rfloor>)))"
proof -
  have "\<lfloor>x + c\<rfloor> = \<lfloor>x\<rfloor> + \<lfloor>c\<rfloor>" using assms(3) floor_add [of x c] by simp
  moreover have "\<lfloor>x + real (nat \<lfloor>c\<rfloor>)\<rfloor> = \<lfloor>x\<rfloor> + \<lfloor>c\<rfloor>" using assms(2) by simp
  ultimately have "trunc_real (x + c) = trunc_real (x + real (nat \<lfloor>c\<rfloor>))" using assms(1,2) by simp
  then show ?thesis by (simp add: quantize_def)
qed

lemma astype_uint8_no_carry:
  assumes shp: "grid_shape m n g" and c: "0 \<le> c"
    and vals: "\<forall>i<m. \<forall>j<n. \<exists>x. g ! i ! j = Some x \<and> 0 \<le> x \<and> frac x + frac c < 1"
  shows "astype_uint8 (gmap (map_option (\<lambda>x. x + c)) g)
         = astype_uint8 (gmap (map_option (\<lambda>x. x + real (nat \<lfloor>c\<rfloor>))) g)"
proof (rule grid_eqI [of m n])
  show "grid_shape m n (astype_uint8 (gmap (map_option (\<lambda>x. x + c)) g))"
       "grid_shape m n (astype_uint8 (gmap (map_option (\<lambda>x. x + real (nat \<lfloor>c\<rfloor>))) g))"
    using shp by simp_all
  have l: "length g = m" "\<And>i. i < m \<Longrightarrow> length (g ! i) = n"
    using shp by (simp_all add: grid_shape_def grid_shape_row_length)
  fix i j assume ij: "i < m" "j < n"
  then obtain x where "g ! i ! j = Some x" "0 \<le> x" "frac x + frac c < 1" using vals by blast
  then show "astype_uint8 (gmap (map_option (\<lambda>x. x + c)) g) ! i ! j
             = astype_uint8 (gmap (map_option (\<lambda>x. x + real (nat \<lfloor>c\<rfloor>))) g) ! i ! j"
    using ij l quantize_no_carry [OF _ c] by (simp add: astype_uint8_def gmap_cell)
qed

end
