(* ===== verification/Blur.thy ===== *)
theory Blur
  imports Prelude
begin

text \<open>
  The Smoothing Filter: \<open>img_blur = cv.GaussianBlur(img, (3,3), 0)\<close> in
  \<open>sobel_gradient\<close> (src/fronts_module/compute_fronts_functions.py, line 75).
  With \<open>sigma = 0\<close> and an odd kernel size up to 7, OpenCV takes the fixed kernel
  \<open>[1/4, 1/2, 1/4]\<close> and applies it separably: a row pass, then a column pass, with the
  default border \<open>BORDER_REFLECT_101\<close> (\<open>gfedcb|abcdefgh|gfedcba\<close>). On 8-bit images
  the filter runs in fixed point: the row pass is exact (a weighted sum \<open>h\<close> scaled by 4),
  the column pass gives a sum scaled by 16, and the conversion back to \<open>uint8\<close> rounds
  half up, \<open>(S + 8) div 16\<close>. An empty image raises \<open>cv2.error\<close>; that guard is in
  \<open>sobel_gradient\<close> (theory Gradient).
\<close>

text \<open>OpenCV's \<open>borderInterpolate\<close> for \<open>BORDER_REFLECT_101\<close>, for indices one step outside.\<close>

definition reflect101 :: "nat \<Rightarrow> int \<Rightarrow> nat" where
  "reflect101 n p =
     (if n = 1 then 0
      else if p < 0 then nat (- p)
      else if int n \<le> p then nat (2 * int n - 2 - p)
      else nat p)"

text \<open>The row pass: the \<open>[1, 2, 1]\<close> sum along a row, kept exactly (fixed point, scaled by 4).\<close>

definition blur_row :: "u8 grid \<Rightarrow> nat \<Rightarrow> nat \<Rightarrow> nat \<Rightarrow> nat" where
  "blur_row img n i j =
     unat (img ! i ! reflect101 n (int j - 1)) + 2 * unat (img ! i ! j)
     + unat (img ! i ! reflect101 n (int j + 1))"

definition gaussian_blur :: "u8 grid \<Rightarrow> u8 grid" where
  "gaussian_blur img =
     (let m = grid_rows img; n = grid_cols img;
          h = gen_grid m n (blur_row img n)
      in gen_grid m n (\<lambda>i j.
           of_nat ((h ! reflect101 m (int i - 1) ! j + 2 * h ! i ! j
                    + h ! reflect101 m (int i + 1) ! j + 8) div 16)))"

text \<open>The reference: the 2-D Gaussian kernel \<open>[1 2 1; 2 4 2; 1 2 1] / 16\<close> on the reflected image.\<close>

definition gauss_weight :: "nat \<Rightarrow> nat" where
  "gauss_weight a = [1, 2, 1] ! a"

definition blur_kernel_sum :: "u8 grid \<Rightarrow> nat \<Rightarrow> nat \<Rightarrow> nat \<Rightarrow> nat \<Rightarrow> nat" where
  "blur_kernel_sum img m n i j =
     (\<Sum>a<3. \<Sum>b<3. gauss_weight a * gauss_weight b
        * unat (img ! reflect101 m (int i + int a - 1) ! reflect101 n (int j + int b - 1)))"

section \<open>Border handling\<close>

lemma reflect101_bound [simp]:
  "0 < n \<Longrightarrow> - 1 \<le> p \<Longrightarrow> p \<le> int n \<Longrightarrow> reflect101 n p < n"
  by (auto simp: reflect101_def)

lemma reflect101_inside [simp]: "0 \<le> p \<Longrightarrow> p < int n \<Longrightarrow> reflect101 n p = nat p"
  by (auto simp: reflect101_def)

lemma reflect101_neighbours [simp]:
  "i < n \<Longrightarrow> reflect101 n (int i - 1) < n"
  "i < n \<Longrightarrow> reflect101 n (int i + 1) < n"
  by simp_all

section \<open>The separable fixed-point filter is the 2-D kernel\<close>

lemma blur_kernel_sum_expand:
  "i < m \<Longrightarrow> j < n \<Longrightarrow> blur_kernel_sum img m n i j =
     blur_row img n (reflect101 m (int i - 1)) j + 2 * blur_row img n i j
     + blur_row img n (reflect101 m (int i + 1)) j"
  by (simp add: blur_kernel_sum_def blur_row_def gauss_weight_def numeral_3_eq_3
                algebra_simps)

lemma gaussian_blur_cell:
  assumes "grid_shape m n img" "i < m" "j < n"
  shows "gaussian_blur img ! i ! j = of_nat ((blur_kernel_sum img m n i j + 8) div 16)"
proof -
  have m: "grid_rows img = m" and n: "grid_cols img = n"
    using assms by (auto simp: grid_shape_rows grid_shape_cols)
  show ?thesis
    using assms(2,3) by (simp add: gaussian_blur_def m n Let_def blur_kernel_sum_expand [OF assms(2,3)])
qed

lemma gaussian_blur_shape:
  "grid_shape m n img \<Longrightarrow> 0 < m \<Longrightarrow> grid_shape m n (gaussian_blur img)"
  by (simp add: gaussian_blur_def Let_def grid_shape_rows grid_shape_cols)

lemma gaussian_blur_shape_any:
  "grid_shape (grid_rows img) (grid_cols img) (gaussian_blur img)"
  by (simp add: gaussian_blur_def Let_def)

section \<open>No overflow\<close>

lemma blur_row_bound: "blur_row img n i j \<le> 4 * 255"
  using unat_u8_le [of "img ! i ! reflect101 n (int j - 1)"] unat_u8_le [of "img ! i ! j"]
        unat_u8_le [of "img ! i ! reflect101 n (int j + 1)"]
  unfolding blur_row_def by linarith

lemma blur_kernel_sum_bound:
  "i < m \<Longrightarrow> j < n \<Longrightarrow> blur_kernel_sum img m n i j \<le> 16 * 255"
proof -
  assume "i < m" "j < n"
  then show ?thesis
    using blur_row_bound [of img n "reflect101 m (int i - 1)" j] blur_row_bound [of img n i j]
          blur_row_bound [of img n "reflect101 m (int i + 1)" j]
    unfolding blur_kernel_sum_expand [OF \<open>i < m\<close> \<open>j < n\<close>] by linarith
qed

lemma blur_rounded_bound:
  "i < m \<Longrightarrow> j < n \<Longrightarrow> (blur_kernel_sum img m n i j + 8) div 16 < 256"
  using blur_kernel_sum_bound [of i m j n img] by simp

section \<open>Adding a constant that does not overflow commutes with the blur\<close>

lemma blur_row_shift:
  assumes shp: "grid_shape m n img" and i: "i < m" and j: "j < n"
    and nov: "\<forall>i<m. \<forall>j<n. unat (img ! i ! j) + c < 256"
  shows "blur_row (gmap (\<lambda>x. x + of_nat c) img) n i j = blur_row img n i j + 4 * c"
proof -
  have l: "length img = m" "length (img ! i) = n" using shp i by (simp_all add: grid_shape_def grid_shape_row_length)
  have u: "unat (gmap (\<lambda>x. x + of_nat c) img ! i ! k) = unat (img ! i ! k) + c" if "k < n" for k
    using that l i nov by (simp add: gmap_cell unat_add_of_nat_u8)
  show ?thesis using j by (simp add: blur_row_def u)
qed

lemma gaussian_blur_shift:
  assumes shp: "grid_shape m n img" and nov: "\<forall>i<m. \<forall>j<n. unat (img ! i ! j) + c < 256"
  shows "gaussian_blur (gmap (\<lambda>x. x + of_nat c) img) = gmap (\<lambda>x. x + of_nat c) (gaussian_blur img)"
proof (cases "m = 0")
  case True
  with shp show ?thesis by (simp add: grid_shape_def gaussian_blur_def gmap_def grid_rows_def)
next
  case False
  let ?img' = "gmap (\<lambda>x. x + of_nat c) img"
  have shp': "grid_shape m n ?img'" using shp by (simp add: grid_shape_gmap)
  show ?thesis
  proof (rule grid_eqI [of m n])
    show "grid_shape m n (gaussian_blur ?img')" using shp' False by (simp add: gaussian_blur_shape)
    show "grid_shape m n (gmap (\<lambda>x. x + of_nat c) (gaussian_blur img))"
      using shp False by (simp add: gaussian_blur_shape grid_shape_gmap)
    fix i j assume ij: "i < m" "j < n"
    have "blur_kernel_sum ?img' m n i j = blur_kernel_sum img m n i j + 16 * c"
      using ij shp nov by (simp add: blur_kernel_sum_expand blur_row_shift)
    moreover have "(S + 16 * c + 8) div 16 = (S + 8) div 16 + c" for S :: nat by simp
    moreover have "length (gaussian_blur img) = m" "length (gaussian_blur img ! i) = n"
      using gaussian_blur_shape [OF shp] False ij grid_shape_row_length [OF gaussian_blur_shape [OF shp]]
      by (auto simp: grid_shape_def)
    ultimately show "gaussian_blur ?img' ! i ! j = gmap (\<lambda>x. x + of_nat c) (gaussian_blur img) ! i ! j"
      using ij by (simp add: gaussian_blur_cell [OF shp'] gaussian_blur_cell [OF shp] gmap_cell)
  qed
qed

section \<open>Claims\<close>

text \<open>
  C14: OpenCV's separable fixed-point blur of line 75 is the 2-D Gaussian kernel
  \<open>[1 2 1; 2 4 2; 1 2 1] / 16\<close> on the \<open>BORDER_REFLECT_101\<close> extension, rounded half
  up, and the result never overflows a byte (it is the exact value, not a residue).
\<close>

theorem gaussian_blur_kernel:
  assumes "grid_shape m n img" "i < m" "j < n"
  shows "unat (gaussian_blur img ! i ! j) = (blur_kernel_sum img m n i j + 8) div 16"
  using gaussian_blur_cell [OF assms] blur_rounded_bound [OF assms(2,3), of img]
  by (simp add: unat_of_nat)

theorem gaussian_blur_kernel_witness:
  "grid_shape 1 3 [[10, 20, 30 :: u8]] \<and> (0::nat) < 1 \<and> (2::nat) < 3
   \<and> blur_kernel_sum [[10, 20, 30]] 1 3 0 2 = 400
   \<and> unat (gaussian_blur [[10, 20, 30 :: u8]] ! 0 ! 2) = 25"
proof -
  have shp: "grid_shape 1 3 [[10, 20, 30 :: u8]]" by (simp add: grid_shape_def)
  have k: "blur_kernel_sum [[10, 20, 30]] 1 3 0 2 = 400"
    by (simp add: blur_kernel_sum_def gauss_weight_def reflect101_def numeral_3_eq_3)
  show ?thesis using gaussian_blur_kernel [OF shp, of 0 2] shp k by simp
qed

end
