(* ===== verification/Sobel.thy ===== *)
theory Sobel
  imports Prelude
begin

text \<open>
  The derivative filters of the Gradient Operator: \<open>dx = ndimage.sobel(img_blur, 0)\<close>
  and \<open>dy = ndimage.sobel(img_blur, 1)\<close> in \<open>sobel_gradient\<close>
  (src/fronts_module/compute_fronts_functions.py, lines 76-77). scipy's \<open>sobel\<close>
  allocates its output with the input's dtype, here \<open>uint8\<close>, then runs
  \<open>correlate1d(input, [-1, 0, 1], axis, output)\<close> and
  \<open>correlate1d(output, [1, 2, 1], other_axis, output)\<close> with the default mode
  \<open>'reflect'\<close> (\<open>dcba|abcd|dcba\<close>). Each pass computes its weighted sum exactly
  and stores it with a C cast to \<open>uint8\<close>, which keeps the low byte: a negative
  derivative wraps around to a large value. The second pass reads the wrapped bytes.
  Only the two axes of a 2-D array occur in the program (\<open>axis\<close> 0 or 1).
\<close>

text \<open>scipy's \<open>'reflect'\<close> extension, for indices one step outside the line.\<close>

definition reflect :: "nat \<Rightarrow> int \<Rightarrow> nat" where
  "reflect n p =
     (if p < 0 then nat (- p - 1)
      else if int n \<le> p then nat (2 * int n - 1 - p)
      else nat p)"

text \<open>
  \<open>correlate1d\<close> with a 3-tap weight list along \<open>axis\<close> (0: along a column, across rows;
  1: along a row), origin 0, output cast to \<open>uint8\<close>.
\<close>

definition correlate1d :: "int list \<Rightarrow> nat \<Rightarrow> u8 grid \<Rightarrow> u8 grid" where
  "correlate1d w axis img =
     (let m = grid_rows img; n = grid_cols img
      in gen_grid m n (\<lambda>i j.
           if axis = 0 then
             word_of_int (w ! 0 * uint (img ! reflect m (int i - 1) ! j)
                          + w ! 1 * uint (img ! i ! j)
                          + w ! 2 * uint (img ! reflect m (int i + 1) ! j))
           else
             word_of_int (w ! 0 * uint (img ! i ! reflect n (int j - 1))
                          + w ! 1 * uint (img ! i ! j)
                          + w ! 2 * uint (img ! i ! reflect n (int j + 1)))))"

definition sobel :: "u8 grid \<Rightarrow> nat \<Rightarrow> u8 grid" where
  "sobel img axis = correlate1d [1, 2, 1] (1 - axis) (correlate1d [-1, 0, 1] axis img)"

text \<open>
  The reference: the exact integer response of the 3x3 Sobel kernel (derivative
  \<open>[-1, 0, 1]\<close> along \<open>axis\<close>, smoothing \<open>[1, 2, 1]\<close> across it) on the reflected image.
\<close>

definition sobel_weight :: "nat \<Rightarrow> int" where
  "sobel_weight b = [1, 2, 1] ! b"

definition sobel_response :: "u8 grid \<Rightarrow> nat \<Rightarrow> nat \<Rightarrow> nat \<Rightarrow> nat \<Rightarrow> nat \<Rightarrow> int" where
  "sobel_response img m n axis i j =
     (\<Sum>b<3. sobel_weight b *
        (if axis = 0 then
           uint (img ! reflect m (int i + 1) ! reflect n (int j + int b - 1))
           - uint (img ! reflect m (int i - 1) ! reflect n (int j + int b - 1))
         else
           uint (img ! reflect m (int i + int b - 1) ! reflect n (int j + 1))
           - uint (img ! reflect m (int i + int b - 1) ! reflect n (int j - 1))))"

section \<open>Border handling\<close>

lemma reflect_bound [simp]:
  "0 < n \<Longrightarrow> - 1 \<le> p \<Longrightarrow> p \<le> int n \<Longrightarrow> reflect n p < n"
  by (auto simp: reflect_def)

lemma reflect_inside [simp]: "0 \<le> p \<Longrightarrow> p < int n \<Longrightarrow> reflect n p = nat p"
  by (auto simp: reflect_def)

lemma reflect_neighbours [simp]:
  "i < n \<Longrightarrow> reflect n (int i - 1) < n"
  "i < n \<Longrightarrow> reflect n (int i + 1) < n"
  by simp_all

section \<open>Shape\<close>

lemma correlate1d_shape:
  "grid_shape m n img \<Longrightarrow> 0 < m \<Longrightarrow> grid_shape m n (correlate1d w axis img)"
  by (simp add: correlate1d_def Let_def grid_shape_rows grid_shape_cols)

lemma correlate1d_cell:
  assumes "grid_shape m n img" "i < m" "j < n"
  shows "correlate1d w axis img ! i ! j =
           (if axis = 0 then
              word_of_int (w ! 0 * uint (img ! reflect m (int i - 1) ! j)
                           + w ! 1 * uint (img ! i ! j)
                           + w ! 2 * uint (img ! reflect m (int i + 1) ! j))
            else
              word_of_int (w ! 0 * uint (img ! i ! reflect n (int j - 1))
                           + w ! 1 * uint (img ! i ! j)
                           + w ! 2 * uint (img ! i ! reflect n (int j + 1))))"
proof -
  have "grid_rows img = m" "grid_cols img = n"
    using assms by (auto simp: grid_shape_rows grid_shape_cols)
  then show ?thesis using assms(2,3) by (simp add: correlate1d_def)
qed

lemma sobel_shape:
  "grid_shape m n img \<Longrightarrow> 0 < m \<Longrightarrow> grid_shape m n (sobel img axis)"
  by (simp add: sobel_def correlate1d_shape)

section \<open>The two uint8 passes compute the Sobel response modulo 256\<close>

lemma sobel_cell:
  assumes shp: "grid_shape m n img" and i: "i < m" and j: "j < n" and ax: "axis \<le> 1"
  shows "sobel img axis ! i ! j = word_of_int (sobel_response img m n axis i j)"
proof -
  have d: "grid_shape m n (correlate1d [-1, 0, 1] axis img)"
    using shp i by (simp add: correlate1d_shape)
  have "axis = 0 \<or> axis = 1" using ax by arith
  then show ?thesis
    using shp i j d
    by (auto simp: sobel_def correlate1d_cell sobel_response_def sobel_weight_def
                   numeral_3_eq_3 algebra_simps)
qed

section \<open>Constant images and constant offsets\<close>

lemma correlate1d_const:
  "correlate1d w axis (gen_grid m n (\<lambda>_ _. c))
   = gen_grid m n (\<lambda>_ _. word_of_int ((w ! 0 + w ! 1 + w ! 2) * uint c))"
proof (cases "m = 0")
  case True
  then show ?thesis by (simp add: correlate1d_def Let_def grid_rows_def gen_grid_def)
next
  case False
  then show ?thesis
    by (auto simp: correlate1d_def Let_def algebra_simps intro!: gen_grid_cong)
qed

lemma sobel_const: "sobel (gen_grid m n (\<lambda>_ _. c)) axis = gen_grid m n (\<lambda>_ _. 0)"
  by (simp add: sobel_def correlate1d_const)

lemma correlate1d_shift:
  assumes "grid_shape m n img" and "w ! 0 + w ! 1 + w ! 2 = 0"
  shows "correlate1d w axis (gmap (\<lambda>x. x + k) img) = correlate1d w axis img"
proof (cases "m = 0")
  case True
  with assms(1) show ?thesis by (simp add: grid_shape_def gmap_def)
next
  case False
  have sh: "grid_shape m n (gmap (\<lambda>x. x + k) img)" using assms(1) by simp
  have rc: "grid_rows (gmap (\<lambda>x. x + k) img) = m" "grid_cols (gmap (\<lambda>x. x + k) img) = n"
           "grid_rows img = m" "grid_cols img = n"
    using sh assms(1) False by (simp_all add: grid_shape_rows grid_shape_cols)
  have cell: "\<And>i j. i < m \<Longrightarrow> j < n \<Longrightarrow> gmap (\<lambda>x. x + k) img ! i ! j = img ! i ! j + k"
  proof -
    fix i j assume "i < m" "j < n"
    moreover have "length img = m" using assms(1) by (simp add: grid_shape_def)
    ultimately show "gmap (\<lambda>x. x + k) img ! i ! j = img ! i ! j + k"
      by (simp add: gmap_cell grid_shape_row_length [OF assms(1)])
  qed
  have w2: "w ! 2 = - w ! 0 - w ! 1" using assms(2) by simp
  show ?thesis
    unfolding correlate1d_def Let_def rc
    by (rule gen_grid_cong) (simp add: cell w2 algebra_simps)
qed

lemma sobel_shift: "grid_shape m n img \<Longrightarrow> sobel (gmap (\<lambda>x. x + k) img) axis = sobel img axis"
  by (simp add: sobel_def correlate1d_shift)

section \<open>Claims\<close>

text \<open>
  C1: \<open>ndimage.sobel\<close> on the \<open>uint8\<close> blurred image, with its two passes each
  cast back to \<open>uint8\<close>, returns in every cell the exact response of the 3x3 Sobel
  kernel reduced modulo 256: a negative derivative comes out as \<open>256 - |d|\<close>.
\<close>

theorem sobel_wraps_response:
  assumes "grid_shape m n img" "i < m" "j < n" "axis \<le> 1"
  shows "uint (sobel img axis ! i ! j) = sobel_response img m n axis i j mod 256"
  using sobel_cell [OF assms] by (simp add: uint_word_of_int)

theorem sobel_wraps_response_witness:
  "grid_shape 1 3 [[20, 18, 13 :: u8]] \<and> (0::nat) < 1 \<and> (1::nat) < 3 \<and> (1::nat) \<le> 1
   \<and> sobel_response [[20, 18, 13]] 1 3 1 0 1 = -28
   \<and> uint (sobel [[20, 18, 13 :: u8]] 1 ! 0 ! 1) = sobel_response [[20, 18, 13]] 1 3 1 0 1 mod 256"
proof -
  have shp: "grid_shape 1 3 [[20, 18, 13 :: u8]]" by (simp add: grid_shape_def)
  have resp: "sobel_response [[20, 18, 13]] 1 3 1 0 1 = -28"
    by (simp add: sobel_response_def sobel_weight_def reflect_def numeral_3_eq_3)
  show ?thesis using sobel_wraps_response [OF shp, of 0 1 1] shp resp by simp
qed

end
