(* ===== verification/Gradient.thy ===== *)
theory Gradient
  imports Raster Quantize Blur Sobel
begin

text \<open>
  The Gradient Operator, \<open>sobel_gradient(data_xarray)\<close>
  (src/fronts_module/compute_fronts_functions.py, lines 55-93): quantize to \<open>uint8\<close>,
  blur, take the two Sobel derivatives, rescale each by \<open>/255\<close> and then by its own
  \<open>np.nanmax\<close> (lines 78-81), combine them with \<open>np.hypot\<close>, and wrap the magnitude
  in a new \<open>DataArray\<close> with the input's \<open>lat\<close>, \<open>lon\<close> and \<open>time\<close> coordinates,
  spatial dims \<open>lon\<close>/\<open>lat\<close> and CRS WGS84. Floating-point rounding of the rescaling
  and of \<open>hypot\<close> is not modelled: those values are reals here.
\<close>

text \<open>
  \<open>np.nanmax\<close> of a float array. numpy raises on an empty array; that case never
  arises, because \<open>cv.GaussianBlur\<close> has already rejected the empty image.
\<close>

definition nanmax :: "real grid \<Rightarrow> real" where
  "nanmax g = (case cells g of [] \<Rightarrow> 0 | x # xs \<Rightarrow> fold max xs x)"

text \<open>Lines 78-81: \<open>d = d / 255\<close>, then \<open>d = d * np.nanmax(d)\<close>.\<close>

definition rescale :: "u8 grid \<Rightarrow> real grid" where
  "rescale d =
     (let d1 = gmap (\<lambda>v. real (unat v) / 255) d in gmap (\<lambda>x. x * nanmax d1) d1)"

definition hypot :: "real \<Rightarrow> real \<Rightarrow> real" where
  "hypot a b = sqrt (a\<^sup>2 + b\<^sup>2)"

text \<open>Lines 75-83: blur, the two rescaled derivatives, and their \<open>np.hypot\<close>.\<close>

definition gradient_magnitude :: "u8 grid \<Rightarrow> real grid" where
  "gradient_magnitude img =
     (let img_blur = gaussian_blur img;
          dx = rescale (sobel img_blur 0);
          dy = rescale (sobel img_blur 1)
      in gzip hypot dx dy)"

text \<open>
  The whole function. \<open>cv.GaussianBlur\<close> raises on an empty image; evaluating
  \<open>data_xarray.time\<close> raises \<open>AttributeError\<close> when the raster has no \<open>time\<close>
  coordinate; the \<open>DataArray\<close> constructor raises when the coordinate lengths
  disagree with the array's shape.
\<close>

definition sobel_gradient :: "cell raster \<Rightarrow> cell raster result" where
  "sobel_gradient r =
     (let img = astype_uint8 (data r) in
      if grid_rows img = 0 \<or> grid_cols img = 0 then Inl EmptyImage
      else
        let mag = gradient_magnitude img
        in if time r = None then Inl MissingTime
           else if length (lat r) \<noteq> grid_rows mag \<or> length (lon r) \<noteq> grid_cols mag
           then Inl ShapeMismatch
           else Inr \<lparr>lat = lat r, lon = lon r, time = time r, crs = Some WGS84,
                     data = gmap Some mag\<rparr>)"

section \<open>An executable refinement without square roots\<close>

text \<open>
  \<open>sqrt\<close> has no code equation, so the pipeline is run on concrete inputs through
  this variant, which keeps the squared magnitude \<open>dx\<^sup>2 + dy\<^sup>2\<close> in every cell;
  \<open>sobel_gradient_sq_refines\<close> shows that \<open>sobel_gradient\<close> is it followed by a
  cell-wise square root.
\<close>

definition sq_norm :: "real \<Rightarrow> real \<Rightarrow> real" where
  "sq_norm a b = a\<^sup>2 + b\<^sup>2"

definition gradient_sq_magnitude :: "u8 grid \<Rightarrow> real grid" where
  "gradient_sq_magnitude img =
     (let img_blur = gaussian_blur img;
          dx = rescale (sobel img_blur 0);
          dy = rescale (sobel img_blur 1)
      in gzip sq_norm dx dy)"

definition sobel_gradient_sq :: "cell raster \<Rightarrow> cell raster result" where
  "sobel_gradient_sq r =
     (let img = astype_uint8 (data r) in
      if grid_rows img = 0 \<or> grid_cols img = 0 then Inl EmptyImage
      else
        let mag = gradient_sq_magnitude img
        in if time r = None then Inl MissingTime
           else if length (lat r) \<noteq> grid_rows mag \<or> length (lon r) \<noteq> grid_cols mag
           then Inl ShapeMismatch
           else Inr \<lparr>lat = lat r, lon = lon r, time = time r, crs = Some WGS84,
                     data = gmap Some mag\<rparr>)"

section \<open>The specification's gradient magnitude\<close>

text \<open>
  Section 4.3 of the specification: each derivative is the signed response of the 3x3
  Sobel kernel, normalised by \<open>/255\<close> and then multiplied by its own maximum, and the
  magnitude is \<open>sqrt(dx\<^sup>2 + dy\<^sup>2)\<close>. Nothing here is cast to \<open>uint8\<close>.
\<close>

definition spec_normalise :: "real grid \<Rightarrow> real grid" where
  "spec_normalise d = (let d1 = gmap (\<lambda>x. x / 255) d in gmap (\<lambda>x. x * nanmax d1) d1)"

definition spec_derivative :: "u8 grid \<Rightarrow> nat \<Rightarrow> real grid" where
  "spec_derivative img axis =
     gen_grid (grid_rows img) (grid_cols img)
       (\<lambda>i j. real_of_int (sobel_response img (grid_rows img) (grid_cols img) axis i j))"

definition spec_gradient_magnitude :: "u8 grid \<Rightarrow> real grid" where
  "spec_gradient_magnitude img =
     (let b = gaussian_blur img
      in gzip hypot (spec_normalise (spec_derivative b 0)) (spec_normalise (spec_derivative b 1)))"

section \<open>nanmax\<close>

lemma nanmax_gen_grid:
  assumes "0 < m" "0 < n"
  shows "nanmax (gen_grid m n f) = Max {f i j | i j. i < m \<and> j < n}"
proof -
  have "f 0 0 \<in> set (cells (gen_grid m n f))"
    using assms by (auto simp: set_cells_gen_grid)
  then obtain x xs where c: "cells (gen_grid m n f) = x # xs"
    by (cases "cells (gen_grid m n f)") auto
  have "nanmax (gen_grid m n f) = Max (set (x # xs))"
    unfolding nanmax_def c by (simp only: list.case Max.set_eq_fold)
  also have "set (x # xs) = {f i j | i j. i < m \<and> j < n}"
    by (metis c set_cells_gen_grid)
  finally show ?thesis .
qed

lemma Max_cells_bounds:
  fixes f :: "nat \<Rightarrow> nat \<Rightarrow> real"
  assumes "0 < m" "0 < n" "\<And>i j. i < m \<Longrightarrow> j < n \<Longrightarrow> lo \<le> f i j \<and> f i j \<le> hi"
  shows "lo \<le> Max {f i j | i j. i < m \<and> j < n} \<and> Max {f i j | i j. i < m \<and> j < n} \<le> hi"
proof -
  let ?S = "{f i j | i j. i < m \<and> j < n}"
  have fin: "finite ?S" by (rule finite_cell_set)
  have ne: "f 0 0 \<in> ?S" using assms(1,2) by blast
  then have "f 0 0 \<le> Max ?S" using fin by simp
  moreover have "lo \<le> f 0 0" using assms by simp
  moreover have "Max ?S \<le> hi" using fin ne assms(3) by (subst Max_le_iff) auto
  ultimately show ?thesis by simp
qed

lemma le_Max_cells:
  fixes f :: "nat \<Rightarrow> nat \<Rightarrow> real"
  assumes "i < m" "j < n"
  shows "f i j \<le> Max {f i j | i j. i < m \<and> j < n}"
  using finite_cell_set [of f m n] assms by (intro Max_ge) auto

section \<open>Rescaling\<close>

lemma rescale_shape [simp]: "grid_shape m n (rescale d) = grid_shape m n d"
  by (simp add: rescale_def Let_def)

lemma rescale_cell:
  assumes "grid_shape m n d" "i < m" "j < n"
  shows "rescale d ! i ! j
           = real (unat (d ! i ! j)) / 255 * nanmax (gmap (\<lambda>v. real (unat v) / 255) d)"
proof -
  have "length d = m" "length (d ! i) = n"
    using assms by (simp_all add: grid_shape_def grid_shape_row_length)
  then show ?thesis using assms(2,3) by (simp add: rescale_def Let_def gmap_cell)
qed

lemma nanmax_scaled_bounds:
  fixes d :: "u8 grid"
  assumes "grid_shape m n d" "0 < m" "0 < n"
  shows "0 \<le> nanmax (gmap (\<lambda>v. real (unat v) / 255) d)
         \<and> nanmax (gmap (\<lambda>v. real (unat v) / 255) d) \<le> 1"
proof -
  have "gmap (\<lambda>v. real (unat v) / 255) d
        = gmap (\<lambda>v. real (unat v) / 255) (gen_grid m n (\<lambda>i j. d ! i ! j))"
    using grid_eq_gen_grid [OF assms(1)] by (rule arg_cong)
  then have g: "gmap (\<lambda>v. real (unat v) / 255) d
                = gen_grid m n (\<lambda>i j. real (unat (d ! i ! j)) / 255)"
    by simp
  show ?thesis
    unfolding g nanmax_gen_grid [OF assms(2,3)] by (rule Max_cells_bounds [OF assms(2,3)]) simp
qed

lemma rescale_bounds:
  assumes "grid_shape m n d" "i < m" "j < n"
  shows "0 \<le> rescale d ! i ! j \<and> rescale d ! i ! j \<le> 1"
proof -
  let ?u = "real (unat (d ! i ! j)) / 255" and ?M = "nanmax (gmap (\<lambda>v. real (unat v) / 255) d)"
  have u: "0 \<le> ?u" "?u \<le> 1" by simp_all
  have "0 < m" "0 < n" using assms(2,3) by simp_all
  then have M: "0 \<le> ?M" "?M \<le> 1" using nanmax_scaled_bounds [OF assms(1)] by simp_all
  have "0 \<le> ?u * ?M" using u(1) M(1) by (rule mult_nonneg_nonneg)
  moreover have "?u * ?M \<le> 1" using u(2) M(1) M(2) by (rule mult_le_one)
  ultimately show ?thesis unfolding rescale_cell [OF assms] by simp
qed

lemma rescale_zero: "rescale (gen_grid m n (\<lambda>_ _. 0)) = gen_grid m n (\<lambda>_ _. 0)"
  by (simp add: rescale_def Let_def)

lemma nanmax_scaled_le:
  fixes d :: "u8 grid"
  assumes shp: "grid_shape m n d" and mn: "0 < m" "0 < n"
    and le: "\<forall>i<m. \<forall>j<n. unat (d ! i ! j) \<le> V"
  shows "nanmax (gmap (\<lambda>v. real (unat v) / 255) d) \<le> real V / 255"
proof -
  have "gmap (\<lambda>v. real (unat v) / 255) d
        = gmap (\<lambda>v. real (unat v) / 255) (gen_grid m n (\<lambda>i j. d ! i ! j))"
    using grid_eq_gen_grid [OF shp] by (rule arg_cong)
  then have g: "gmap (\<lambda>v. real (unat v) / 255) d = gen_grid m n (\<lambda>i j. real (unat (d ! i ! j)) / 255)"
    by simp
  have b: "0 \<le> real (unat (d ! i ! j)) / 255 \<and> real (unat (d ! i ! j)) / 255 \<le> real V / 255"
    if "i < m" "j < n" for i j
  proof -
    have "unat (d ! i ! j) \<le> V" using le that by blast
    then have "real (unat (d ! i ! j)) \<le> real V" by (rule of_nat_mono)
    then show ?thesis by (simp add: divide_right_mono)
  qed
  have "0 \<le> Max {real (unat (d ! i ! j)) / 255 | i j. i < m \<and> j < n}
        \<and> Max {real (unat (d ! i ! j)) / 255 | i j. i < m \<and> j < n} \<le> real V / 255"
    by (rule Max_cells_bounds [OF mn]) (rule b)
  then show ?thesis unfolding g nanmax_gen_grid [OF mn] by simp
qed

lemma rescale_le:
  assumes shp: "grid_shape m n d" and ij: "i < m" "j < n"
    and le: "\<forall>i<m. \<forall>j<n. unat (d ! i ! j) \<le> V"
  shows "rescale d ! i ! j \<le> (real V / 255)\<^sup>2"
proof -
  have mn: "0 < m" "0 < n" using ij by simp_all
  let ?u = "real (unat (d ! i ! j)) / 255" and ?M = "nanmax (gmap (\<lambda>v. real (unat v) / 255) d)"
  have "unat (d ! i ! j) \<le> V" using le ij by blast
  then have "real (unat (d ! i ! j)) \<le> real V" by (rule of_nat_mono)
  then have u: "0 \<le> ?u" "?u \<le> real V / 255" by (simp_all add: divide_right_mono)
  have M: "0 \<le> ?M" "?M \<le> real V / 255"
    using nanmax_scaled_bounds [OF shp mn] nanmax_scaled_le [OF shp mn le] by simp_all
  have "?u * ?M \<le> (real V / 255) * (real V / 255)" using u M by (intro mult_mono) simp_all
  then show ?thesis unfolding rescale_cell [OF shp ij] by (simp add: power2_eq_square)
qed

lemma hypot_le_sqrt2:
  assumes "0 \<le> a" "a \<le> c" "0 \<le> b" "b \<le> c"
  shows "hypot a b \<le> sqrt 2 * c"
proof -
  have "a\<^sup>2 \<le> c\<^sup>2" "b\<^sup>2 \<le> c\<^sup>2" using assms by (simp_all add: power_mono)
  then have "a\<^sup>2 + b\<^sup>2 \<le> 2 * c\<^sup>2" by simp
  then have "sqrt (a\<^sup>2 + b\<^sup>2) \<le> sqrt (2 * c\<^sup>2)" by (rule real_sqrt_le_mono)
  then show ?thesis using assms by (simp add: hypot_def real_sqrt_mult)
qed

section \<open>Magnitude\<close>

lemma hypot_bounds:
  assumes "0 \<le> a" "a \<le> 1" "0 \<le> b" "b \<le> 1"
  shows "0 \<le> hypot a b \<and> hypot a b \<le> sqrt 2"
proof -
  have "a\<^sup>2 \<le> 1" "b\<^sup>2 \<le> 1" using assms by (simp_all add: power_le_one)
  then show ?thesis by (simp add: hypot_def)
qed

lemma hypot_gt_iff: "0 \<le> t \<Longrightarrow> t < hypot a b \<longleftrightarrow> t\<^sup>2 < a\<^sup>2 + b\<^sup>2"
  by (simp add: hypot_def real_less_rsqrt real_sqrt_less_iff less_le_trans
           flip: real_sqrt_less_iff [of "t\<^sup>2"])

lemma gradient_magnitude_shape:
  "grid_shape m n img \<Longrightarrow> 0 < m \<Longrightarrow> grid_shape m n (gradient_magnitude img)"
  by (simp add: gradient_magnitude_def Let_def gzip_shape sobel_shape gaussian_blur_shape)

lemma gradient_magnitude_cell:
  assumes "grid_shape m n img" "i < m" "j < n"
  shows "gradient_magnitude img ! i ! j
           = hypot (rescale (sobel (gaussian_blur img) 0) ! i ! j)
                   (rescale (sobel (gaussian_blur img) 1) ! i ! j)"
proof -
  have "grid_shape m n (sobel (gaussian_blur img) a)" for a
    using assms by (simp add: sobel_shape gaussian_blur_shape)
  then show ?thesis
    using assms(2,3) by (simp add: gradient_magnitude_def Let_def gzip_cell [of m n])
qed

lemma gradient_magnitude_bounds:
  assumes "grid_shape m n img" "i < m" "j < n"
  shows "0 \<le> gradient_magnitude img ! i ! j \<and> gradient_magnitude img ! i ! j \<le> sqrt 2"
proof -
  have "grid_shape m n (sobel (gaussian_blur img) a)" for a
    using assms by (simp add: sobel_shape gaussian_blur_shape)
  then show ?thesis
    using assms(2,3) by (simp add: gradient_magnitude_cell [OF assms] hypot_bounds rescale_bounds [of m n])
qed

section \<open>Constant images\<close>

lemma gaussian_blur_const: "gaussian_blur (gen_grid m n (\<lambda>_ _. c)) = gen_grid m n (\<lambda>_ _. c)"
proof (cases "m = 0")
  case True
  then show ?thesis by (simp add: gaussian_blur_def Let_def grid_rows_def)
next
  case False
  then show ?thesis
    by (auto simp: gaussian_blur_def Let_def blur_row_def intro!: gen_grid_cong)
qed

lemma gradient_magnitude_const:
  "gradient_magnitude (gen_grid m n (\<lambda>_ _. c)) = gen_grid m n (\<lambda>_ _. 0)"
  by (simp add: gradient_magnitude_def gaussian_blur_const sobel_const rescale_zero hypot_def)

section \<open>The refinement\<close>

lemma gradient_magnitude_sq: "gradient_magnitude img = gmap sqrt (gradient_sq_magnitude img)"
proof -
  have "hypot = (\<lambda>a b. sqrt (sq_norm a b))" by (simp add: fun_eq_iff hypot_def sq_norm_def)
  then show ?thesis
    by (simp add: gradient_magnitude_def gradient_sq_magnitude_def Let_def gmap_gzip)
qed

lemma sobel_gradient_sq_refines:
  "sobel_gradient r = map_sum id (map_cells sqrt) (sobel_gradient_sq r)"
proof -
  have "gmap (map_option sqrt) (gmap Some m) = gmap Some (gmap sqrt m)" for m :: "real grid"
    by (simp add: comp_def)
  then show ?thesis
    by (simp add: sobel_gradient_def sobel_gradient_sq_def Let_def gradient_magnitude_sq
                  map_cells_def)
qed

section \<open>Agreement with the specification when no derivative wraps\<close>

lemma rescale_normalise: "rescale d = spec_normalise (gmap (\<lambda>v. real (unat v)) d)"
  by (simp add: rescale_def spec_normalise_def Let_def comp_def)

lemma sobel_no_wrap:
  assumes shp: "grid_shape m n img" and m: "0 < m" and ax: "axis \<le> 1"
    and nw: "\<forall>i<m. \<forall>j<n. 0 \<le> sobel_response img m n axis i j \<and> sobel_response img m n axis i j < 256"
  shows "gmap (\<lambda>v. real (unat v)) (sobel img axis) = spec_derivative img axis"
proof (rule grid_eqI [of m n])
  have r: "grid_rows img = m" "grid_cols img = n" using shp m by (simp_all add: grid_shape_rows grid_shape_cols)
  show "grid_shape m n (gmap (\<lambda>v. real (unat v)) (sobel img axis))"
    using shp m by (simp add: grid_shape_gmap sobel_shape)
  show "grid_shape m n (spec_derivative img axis)" by (simp add: spec_derivative_def r)
  fix i j assume ij: "i < m" "j < n"
  have l: "length (sobel img axis) = m" "length (sobel img axis ! i) = n"
    using sobel_shape [OF shp m] ij by (simp_all add: grid_shape_def grid_shape_row_length)
  have u: "uint (sobel img axis ! i ! j) = sobel_response img m n axis i j"
    using sobel_cell [OF shp ij ax] nw ij by (simp add: uint_word_of_int)
  have "real (unat (sobel img axis ! i ! j)) = real_of_int (sobel_response img m n axis i j)"
    unfolding unat_eq_nat_uint u using nw ij by simp
  then show "gmap (\<lambda>v. real (unat v)) (sobel img axis) ! i ! j = spec_derivative img axis ! i ! j"
    using nw ij l by (simp add: gmap_cell spec_derivative_def r)
qed

section \<open>The three exits\<close>

lemma sobel_gradient_wf:
  assumes wf: "raster_wf r"
  shows "sobel_gradient r =
           (if lat r = [] \<or> lon r = [] then Inl EmptyImage
            else if time r = None then Inl MissingTime
            else Inr \<lparr>lat = lat r, lon = lon r, time = time r, crs = Some WGS84,
                      data = gmap Some (gradient_magnitude (astype_uint8 (data r)))\<rparr>)"
proof -
  let ?m = "length (lat r)" and ?n = "length (lon r)" and ?img = "astype_uint8 (data r)"
  have shp: "grid_shape ?m ?n ?img" using wf by (simp add: raster_wf_def)
  have rows: "grid_rows ?img = ?m" using shp by (rule grid_shape_rows)
  show ?thesis
  proof (cases "lat r = []")
    case True
    then show ?thesis by (simp add: sobel_gradient_def rows)
  next
    case False
    then have m: "0 < ?m" by simp
    have cols: "grid_cols ?img = ?n" using shp m by (rule grid_shape_cols)
    have mag: "grid_rows (gradient_magnitude ?img) = ?m \<and> grid_cols (gradient_magnitude ?img) = ?n"
      using gradient_magnitude_shape [OF shp m] m by (simp add: grid_shape_rows grid_shape_cols)
    show ?thesis using False by (simp add: sobel_gradient_def Let_def rows cols mag)
  qed
qed

lemma sobel_gradient_Inr_wf:
  assumes "sobel_gradient r = Inr g"
  shows "raster_wf g \<and> crs g = Some WGS84"
proof -
  let ?img = "astype_uint8 (data r)"
  let ?m = "grid_rows ?img" and ?n = "grid_cols ?img"
  have m: "0 < ?m" using assms by (auto simp: sobel_gradient_def Let_def split: if_splits)
  have "grid_shape ?m ?n (gradient_magnitude ?img)"
    using gaussian_blur_shape_any [of ?img] m
    by (simp add: gradient_magnitude_def Let_def gzip_shape sobel_shape)
  then show ?thesis
    using assms m by (auto simp: sobel_gradient_def Let_def raster_wf_def grid_shape_rows grid_shape_cols
                           grid_shape_gmap split: if_splits)
qed

lemma gradient_magnitude_uniform:
  assumes wf: "raster_wf s" and c: "\<forall>i<length (lat s). \<forall>j<length (lon s). data s ! i ! j = Some c"
  shows "gradient_magnitude (astype_uint8 (data s)) = gen_grid (length (lat s)) (length (lon s)) (\<lambda>_ _. 0)"
proof -
  have "astype_uint8 (data s) = gen_grid (length (lat s)) (length (lon s)) (\<lambda>_ _. quantize (Some c))"
  proof (rule grid_eqI [of "length (lat s)" "length (lon s)"])
    show "grid_shape (length (lat s)) (length (lon s)) (astype_uint8 (data s))"
      using wf by (simp add: raster_wf_def)
    fix i j assume "i < length (lat s)" "j < length (lon s)"
    then show "astype_uint8 (data s) ! i ! j = gen_grid (length (lat s)) (length (lon s)) (\<lambda>_ _. quantize (Some c)) ! i ! j"
      using wf c by (simp add: astype_uint8_cell raster_wf_rows raster_wf_row_length)
  qed simp
  then show ?thesis by (simp add: gradient_magnitude_const)
qed

section \<open>Offsets\<close>

lemma gradient_magnitude_shift:
  assumes shp: "grid_shape m n img" and m: "0 < m"
    and nov: "\<forall>i<m. \<forall>j<n. unat (img ! i ! j) + c < 256"
  shows "gradient_magnitude (gmap (\<lambda>x. x + of_nat c) img) = gradient_magnitude img"
  using gaussian_blur_shape [OF shp m]
  by (simp add: gradient_magnitude_def Let_def gaussian_blur_shift [OF shp nov] sobel_shift)

section \<open>Claims\<close>

text \<open>
  C9: adding an offset \<open>c \<ge> 0\<close> degrees to a raster whose cells are all numbers
  \<open>x \<ge> 0\<close> with \<open>x + c < 256\<close> does not change \<open>sobel_gradient\<close>'s result
  provided no cell's fractional part carries (\<open>frac x + frac c < 1\<close>; always so when
  \<open>c\<close> is a whole number): the cast then shifts every byte by \<open>\<lfloor>c\<rfloor>\<close>, the
  blur keeps the shift exactly and the Sobel kernel cancels it.
\<close>

theorem sobel_gradient_offset_invariant:
  assumes wf: "raster_wf r" and c: "0 \<le> c"
    and vals: "\<forall>i<length (lat r). \<forall>j<length (lon r).
                 \<exists>x. data r ! i ! j = Some x \<and> 0 \<le> x \<and> x + c < 256 \<and> frac x + frac c < 1"
  shows "sobel_gradient (map_cells (\<lambda>x. x + c) r) = sobel_gradient r"
proof -
  let ?k = "nat \<lfloor>c\<rfloor>" and ?img = "astype_uint8 (data r)"
  have shp: "grid_shape (length (lat r)) (length (lon r)) (data r)" using wf by (simp add: raster_wf_def)
  have kc: "real ?k \<le> c" using c by linarith
  have vals': "\<forall>i<length (lat r). \<forall>j<length (lon r).
                 \<exists>x. data r ! i ! j = Some x \<and> 0 \<le> x \<and> x + real ?k < 256"
    using vals kc by (meson add_left_mono le_less_trans)
  note A = astype_uint8_shift [OF shp vals']
  have N: "astype_uint8 (gmap (map_option (\<lambda>x. x + c)) (data r)) = gmap (\<lambda>w. w + of_nat ?k) ?img"
    using astype_uint8_no_carry [OF shp c] vals conjunct1 [OF A] by (metis (no_types, lifting))
  have ashp: "grid_shape (length (lat r)) (length (lon r)) ?img" using shp by simp
  have G: "grid_rows ?img \<noteq> 0 \<Longrightarrow>
           gradient_magnitude (gmap (\<lambda>w. w + of_nat ?k) ?img) = gradient_magnitude ?img"
    using gradient_magnitude_shift [OF ashp _ conjunct2 [OF A]] grid_shape_rows [OF ashp] by simp
  show ?thesis
    by (simp add: sobel_gradient_def Let_def N grid_rows_gmap grid_cols_gmap G cong: if_cong)
qed


theorem sobel_gradient_offset_invariant_witness:
  "raster_wf \<lparr>lat = [0], lon = [0, 1], time = Some 0, crs = Some WGS84, data = [[Some (10::real), Some 20]]\<rparr>
   \<and> sobel_gradient (map_cells (\<lambda>x. x + 7 / 2)
        \<lparr>lat = [0], lon = [0, 1], time = Some 0, crs = Some WGS84, data = [[Some 10, Some 20]]\<rparr>)
     = sobel_gradient \<lparr>lat = [0], lon = [0, 1], time = Some 0, crs = Some WGS84, data = [[Some 10, Some 20]]\<rparr>"
proof -
  let ?r = "\<lparr>lat = [0], lon = [0, 1], time = Some 0, crs = Some WGS84, data = [[Some (10::real), Some 20]]\<rparr>"
  have wf: "raster_wf ?r" by (simp add: raster_wf_def grid_shape_def)
  have "\<lfloor>7 / 2 :: real\<rfloor> = 3" by (simp add: floor_eq_iff)
  then have f: "frac (7 / 2 :: real) = 1 / 2" "frac (10 :: real) = 0" "frac (20 :: real) = 0" by (simp_all add: frac_def)
  have "\<forall>i<length (lat ?r). \<forall>j<length (lon ?r).
          \<exists>x. data ?r ! i ! j = Some x \<and> 0 \<le> x \<and> x + 7 / 2 < 256 \<and> frac x + frac (7 / 2) < 1"
    by (simp add: less_Suc_eq f)
  then show ?thesis using sobel_gradient_offset_invariant [OF wf] wf by simp
qed

text \<open>
  An example of a carry: a fractional offset is not harmless: adding 0.5 degrees to a raster whose values
  differ by 0.2 turns a zero gradient into a magnitude of about 0.98 in two cells,
  because the cast truncates before any derivative is taken.
\<close>

theorem sobel_gradient_fractional_offset:
  "sobel_gradient \<lparr>lat = [0], lon = [0, 1, 2], time = Some 0, crs = Some WGS84,
                   data = [[Some (106 / 10), Some (104 / 10), Some (104 / 10)]]\<rparr>
   = Inr \<lparr>lat = [0], lon = [0, 1, 2], time = Some 0, crs = Some WGS84,
          data = [[Some 0, Some 0, Some 0]]\<rparr>
   \<and> sobel_gradient (map_cells (\<lambda>x. x + 1 / 2)
       \<lparr>lat = [0], lon = [0, 1, 2], time = Some 0, crs = Some WGS84,
          data = [[Some (106 / 10), Some (104 / 10), Some (104 / 10)]]\<rparr>)
   = Inr \<lparr>lat = [0], lon = [0, 1, 2], time = Some 0, crs = Some WGS84,
          data = [[Some (7056 / 7225), Some (7056 / 7225), Some 0]]\<rparr>"
proof -
  let ?r = "\<lparr>lat = [0::real], lon = [0, 1, 2], time = Some 0, crs = Some WGS84,
             data = [[Some (106 / 10 :: real), Some (104 / 10), Some (104 / 10)]]\<rparr>"
  have a: "sobel_gradient_sq ?r = Inr \<lparr>lat = [0], lon = [0, 1, 2], time = Some 0, crs = Some WGS84,
                                    data = [[Some 0, Some 0, Some 0]]\<rparr>"
    by code_simp
  have b: "sobel_gradient_sq (map_cells (\<lambda>x. x + 1 / 2) ?r)
           = Inr \<lparr>lat = [0], lon = [0, 1, 2], time = Some 0, crs = Some WGS84,
                  data = [[Some (49787136 / 52200625), Some (49787136 / 52200625), Some 0]]\<rparr>"
    by code_simp
  have s: "sqrt (49787136 / 52200625) = 7056 / 7225" by (rule real_sqrt_unique) (simp_all add: power_divide)
  show ?thesis unfolding sobel_gradient_sq_refines a b by (simp add: s gmap_def)
qed

text \<open>
  C4: when every Sobel response of the blurred image lies in \<open>[0, 255]\<close>, the \<open>uint8\<close>
  computation of lines 75-83 gives exactly the magnitude the specification describes
  (signed derivatives, normalised, \<open>sqrt(dx\<^sup>2 + dy\<^sup>2)\<close>).
\<close>

theorem gradient_magnitude_refines_spec:
  assumes shp: "grid_shape m n img" and m: "0 < m"
    and nw: "\<forall>axis\<le>1. \<forall>i<m. \<forall>j<n. 0 \<le> sobel_response (gaussian_blur img) m n axis i j
                                  \<and> sobel_response (gaussian_blur img) m n axis i j < 256"
  shows "gradient_magnitude img = spec_gradient_magnitude img"
proof -
  have b: "grid_shape m n (gaussian_blur img)" using shp m by (rule gaussian_blur_shape)
  have "rescale (sobel (gaussian_blur img) axis) = spec_normalise (spec_derivative (gaussian_blur img) axis)"
    if "axis \<le> 1" for axis
    using sobel_no_wrap [OF b m that] nw that by (simp add: rescale_normalise)
  then show ?thesis by (simp add: gradient_magnitude_def spec_gradient_magnitude_def Let_def)
qed

theorem gradient_magnitude_refines_spec_witness:
  "grid_shape 1 3 [[10, 20, 30 :: u8]] \<and> (0::nat) < 1
   \<and> gaussian_blur [[10, 20, 30 :: u8]] = [[15, 20, 25]]
   \<and> gradient_magnitude [[10, 20, 30]] = spec_gradient_magnitude [[10, 20, 30]]"
proof -
  have shp: "grid_shape 1 3 [[10, 20, 30 :: u8]]" by (simp add: grid_shape_def)
  have b: "gaussian_blur [[10, 20, 30 :: u8]] = [[15, 20, 25]]" by code_simp
  have nw: "\<forall>axis\<le>1. \<forall>i<1. \<forall>j<3. 0 \<le> sobel_response (gaussian_blur [[10, 20, 30 :: u8]]) 1 3 axis i j
                            \<and> sobel_response (gaussian_blur [[10, 20, 30 :: u8]]) 1 3 axis i j < 256"
    unfolding b by (simp add: sobel_response_def sobel_weight_def reflect_def numeral_3_eq_3
                              less_Suc_eq le_Suc_eq)
  show ?thesis using gradient_magnitude_refines_spec [OF shp _ nw] shp b by simp
qed

text \<open>
  C12: on a well-formed raster \<open>sobel_gradient\<close> fails only with \<open>EmptyImage\<close> (an
  axis is empty) or \<open>MissingTime\<close> (no time coordinate); the shape check of the
  \<open>DataArray\<close> constructor never fires.
\<close>

theorem sobel_gradient_errors:
  assumes "raster_wf r"
  shows "(sobel_gradient r = Inl EmptyImage \<longleftrightarrow> lat r = [] \<or> lon r = [])
         \<and> (sobel_gradient r = Inl MissingTime \<longleftrightarrow> lat r \<noteq> [] \<and> lon r \<noteq> [] \<and> time r = None)
         \<and> sobel_gradient r \<noteq> Inl ShapeMismatch"
  by (simp add: sobel_gradient_wf [OF assms])

theorem sobel_gradient_errors_witness:
  "raster_wf \<lparr>lat = [0], lon = [], time = Some 0, crs = None, data = [[]]\<rparr>
   \<and> sobel_gradient \<lparr>lat = [0], lon = [], time = Some 0, crs = None, data = [[]]\<rparr> = Inl EmptyImage"
proof -
  have wf: "raster_wf \<lparr>lat = [0], lon = [], time = Some 0, crs = None, data = [[]]\<rparr>"
    by (simp add: raster_wf_def grid_shape_def)
  show ?thesis using sobel_gradient_errors [OF wf] wf by simp
qed

text \<open>
  C13: a successful \<open>sobel_gradient\<close> returns a well-formed raster on the input's axes
  and time, in WGS84, with a number in \<open>[0, sqrt 2]\<close> in every cell: NaN input cells
  become numbers (the cast maps them to 0), so the output has no missing values.
\<close>

theorem sobel_gradient_range:
  assumes ok: "sobel_gradient r = Inr r'" and wf: "raster_wf r"
  shows "raster_wf r' \<and> lat r' = lat r \<and> lon r' = lon r \<and> time r' = time r \<and> crs r' = Some WGS84
         \<and> (\<forall>i<length (lat r'). \<forall>j<length (lon r').
               \<exists>x. data r' ! i ! j = Some x \<and> 0 \<le> x \<and> x \<le> sqrt 2)"
proof -
  let ?m = "length (lat r)" and ?n = "length (lon r)" and ?img = "astype_uint8 (data r)"
  have ne: "lat r \<noteq> []" "lon r \<noteq> []" "time r \<noteq> None"
    using ok by (auto simp: sobel_gradient_wf [OF wf] split: if_splits)
  then have r': "r' = \<lparr>lat = lat r, lon = lon r, time = time r, crs = Some WGS84,
                         data = gmap Some (gradient_magnitude ?img)\<rparr>"
    using ok by (simp add: sobel_gradient_wf [OF wf] split: if_splits)
  have shp: "grid_shape ?m ?n ?img" using wf by (simp add: raster_wf_def)
  have m: "0 < ?m" using ne by simp
  have g: "grid_shape ?m ?n (gradient_magnitude ?img)" using shp m by (rule gradient_magnitude_shape)
  show ?thesis
    using g gradient_magnitude_bounds [OF shp] by (simp add: r' raster_wf_def grid_shape_gmap gmap_Some_cell)
qed

theorem sobel_gradient_range_witness:
  "sobel_gradient \<lparr>lat = [0], lon = [0, 1, 2], time = Some 0, crs = Some WGS84,
                   data = [[Some (106 / 10), Some (104 / 10), Some (104 / 10)]]\<rparr>
   = Inr \<lparr>lat = [0], lon = [0, 1, 2], time = Some 0, crs = Some WGS84, data = [[Some 0, Some 0, Some 0]]\<rparr>
   \<and> raster_wf \<lparr>lat = [0::real], lon = [0, 1, 2], time = Some 0, crs = Some WGS84,
                   data = [[Some (106 / 10 :: real), Some (104 / 10), Some (104 / 10)]]\<rparr>
   \<and> raster_wf \<lparr>lat = [0::real], lon = [0, 1, 2], time = Some 0, crs = Some WGS84,
                   data = [[Some (0::real), Some 0, Some 0]]\<rparr>"
proof -
  let ?r = "\<lparr>lat = [0::real], lon = [0, 1, 2], time = Some 0, crs = Some WGS84,
             data = [[Some (106 / 10 :: real), Some (104 / 10), Some (104 / 10)]]\<rparr>"
  let ?r' = "\<lparr>lat = [0::real], lon = [0, 1, 2], time = Some 0, crs = Some WGS84,
             data = [[Some (0::real), Some 0, Some 0]]\<rparr>"
  have a: "sobel_gradient_sq ?r = Inr ?r'" by code_simp
  have ok: "sobel_gradient ?r = Inr ?r'" unfolding sobel_gradient_sq_refines a by (simp add: gmap_def)
  have wf: "raster_wf ?r" by (simp add: raster_wf_def grid_shape_def)
  show ?thesis using sobel_gradient_range [OF ok wf] ok wf by simp
qed

text \<open>
  C11: a cell is a front only if some \<open>uint8\<close> Sobel value of the blurred image, in
  either direction, is at least 96: each rescaled derivative is at most the square of
  the largest value over 255, and \<open>sqrt 2 * (95/255)\<^sup>2 < 0.2\<close>.
\<close>

theorem front_needs_strong_derivative:
  assumes shp: "grid_shape m n img" and ij: "i < m" "j < n"
    and front: "1 / 5 < gradient_magnitude img ! i ! j"
  shows "\<exists>axis\<le>1. \<exists>i'<m. \<exists>j'<n. 96 \<le> unat (sobel (gaussian_blur img) axis ! i' ! j')"
proof (rule ccontr)
  assume no: "\<not> ?thesis"
  have le: "\<forall>i<m. \<forall>j<n. unat (sobel (gaussian_blur img) axis ! i ! j) \<le> 95" if "axis \<le> 1" for axis
  proof (intro allI impI)
    fix i' j' assume "i' < m" "j' < n"
    then have "\<not> 96 \<le> unat (sobel (gaussian_blur img) axis ! i' ! j')" using no that by blast
    then show "unat (sobel (gaussian_blur img) axis ! i' ! j') \<le> 95" by simp
  qed
  have m: "0 < m" using ij by simp
  have s: "grid_shape m n (sobel (gaussian_blur img) axis)" for axis
    using shp m by (simp add: sobel_shape gaussian_blur_shape)
  let ?c = "(real 95 / 255)\<^sup>2"
  have r: "0 \<le> rescale (sobel (gaussian_blur img) axis) ! i ! j \<and> rescale (sobel (gaussian_blur img) axis) ! i ! j \<le> ?c"
    if "axis \<le> 1" for axis
    using rescale_bounds [OF s ij] rescale_le [OF s ij le [OF that]] by simp
  have "gradient_magnitude img ! i ! j \<le> sqrt 2 * ?c"
    unfolding gradient_magnitude_cell [OF shp ij] using r [of 0] r [of 1] by (intro hypot_le_sqrt2) simp_all
  moreover have "sqrt 2 * ?c < 1 / 5"
  proof -
    have "sqrt 2 < 1415 / 1000" by (rule real_less_lsqrt) (simp_all add: power2_eq_square)
    then show ?thesis by (simp add: power2_eq_square)
  qed
  ultimately show False using front by simp
qed

theorem front_needs_strong_derivative_witness:
  "grid_shape 1 3 [[11, 10, 10 :: u8]] \<and> 1 / 5 < gradient_magnitude [[11, 10, 10]] ! 0 ! 0
   \<and> (\<exists>axis\<le>1. \<exists>i'<1. \<exists>j'<3. 96 \<le> unat (sobel (gaussian_blur [[11, 10, 10 :: u8]]) axis ! i' ! j'))"
proof -
  have shp: "grid_shape 1 3 [[11, 10, 10 :: u8]]" by (simp add: grid_shape_def)
  have sq: "gradient_sq_magnitude [[11, 10, 10]] = [[49787136 / 52200625, 49787136 / 52200625, 0]]"
    by code_simp
  have s: "sqrt (49787136 / 52200625) = 7056 / 7225" by (rule real_sqrt_unique) (simp_all add: power_divide)
  have f: "1 / 5 < gradient_magnitude [[11, 10, 10]] ! 0 ! 0"
    unfolding gradient_magnitude_sq sq by (simp add: gmap_def s)
  show ?thesis using front_needs_strong_derivative [OF shp _ _ f] shp f by simp
qed

end
