(* ===== verification/Clip.thy ===== *)
theory Clip
  imports Raster
begin

text \<open>
  The Spatial Masker: the three \<open>rio.clip(geometries, crs, drop=True[, invert=True])\<close>
  calls of the program (src/fronts_module/compute_fronts_functions.py, lines 34 and 39,
  inverted; src/fronts_module/input_data_functions.py, line 149, not inverted), modelled
  on rioxarray's \<open>clip\<close>: raise \<open>MissingCRS\<close> when the raster has no CRS; reproject
  the geometries from the given CRS when it differs from the raster's; build the mask
  of rasterio's \<open>geometry_mask(..., invert=not invert, all_touched=False)\<close>, which
  tests each cell centre (rasterio raises \<open>ValueError\<close> for an empty geometry list);
  set the cells outside the mask to NaN (\<open>where\<close>); crop to
  \<open>get_data_window\<close> of the mask, the bounding box of the kept cells
  (\<open>isel_window\<close>); and raise \<open>NoDataInBounds\<close> when the crop is empty.

  The geometry library is an interface: \<open>covers g x y\<close> says whether the point
  \<open>(x, y) = (lon, lat)\<close> lies in geometry \<open>g\<close>, \<open>reproject src dst g\<close> is
  \<open>transform_geom\<close>. The lemmas below hold for any implementation of it.
\<close>

record 'g geo_ops =
  covers :: "'g \<Rightarrow> real \<Rightarrow> real \<Rightarrow> bool"
  reproject :: "crs \<Rightarrow> crs \<Rightarrow> 'g \<Rightarrow> 'g"

text \<open>A GeoDataFrame's geometry column with its CRS.\<close>

record 'g mask_set =
  geoms :: "'g list"
  mcrs :: crs

text \<open>A cell centre is kept when it is inside some geometry, or outside all of them when inverted.\<close>

definition kept :: "'g geo_ops \<Rightarrow> 'g list \<Rightarrow> bool \<Rightarrow> real \<Rightarrow> real \<Rightarrow> bool" where
  "kept ops gs invert x y \<longleftrightarrow> list_ex (\<lambda>g. covers ops g x y) gs \<noteq> invert"

definition clip_mask :: "'g geo_ops \<Rightarrow> 'g list \<Rightarrow> bool \<Rightarrow> cell raster \<Rightarrow> bool grid" where
  "clip_mask ops gs invert r =
     gen_grid (length (lat r)) (length (lon r)) (\<lambda>i j. kept ops gs invert (lon r ! j) (lat r ! i))"

definition py_slice :: "nat \<Rightarrow> nat \<Rightarrow> 'a list \<Rightarrow> 'a list" where
  "py_slice lo hi xs = take (hi - lo) (drop lo xs)"

text \<open>\<open>(nz.min(), nz.max() + 1)\<close> of the nonzero indices along one axis, \<open>(0, 0)\<close> if none.\<close>

definition span :: "nat list \<Rightarrow> nat \<times> nat" where
  "span ks = (if ks = [] then (0, 0) else (hd ks, last ks + 1))"

definition get_data_window :: "bool grid \<Rightarrow> nat \<Rightarrow> (nat \<times> nat) \<times> (nat \<times> nat)" where
  "get_data_window keep n =
     (span (filter (\<lambda>i. list_ex id (keep ! i)) [0..<length keep]),
      span (filter (\<lambda>j. list_ex (\<lambda>row. row ! j) keep) [0..<n]))"

definition isel_window :: "(nat \<times> nat) \<times> (nat \<times> nat) \<Rightarrow> cell raster \<Rightarrow> cell raster" where
  "isel_window w r =
     (case w of ((r0, r1), (c0, c1)) \<Rightarrow>
        r\<lparr>lat := py_slice r0 r1 (lat r), lon := py_slice c0 c1 (lon r),
          data := map (py_slice c0 c1) (py_slice r0 r1 (data r))\<rparr>)"

text \<open>The geometries a clip tests against, in the raster's CRS.\<close>

definition clip_geoms :: "'g geo_ops \<Rightarrow> 'g list \<Rightarrow> crs \<Rightarrow> crs \<Rightarrow> 'g list" where
  "clip_geoms ops geometries gcrs rc =
     (if gcrs = rc then geometries else map (reproject ops gcrs rc) geometries)"

definition rio_clip :: "'g geo_ops \<Rightarrow> 'g list \<Rightarrow> crs \<Rightarrow> bool \<Rightarrow> cell raster \<Rightarrow> cell raster result" where
  "rio_clip ops geometries gcrs invert r =
     (case crs r of
        None \<Rightarrow> Inl MissingCRS
      | Some rc \<Rightarrow>
          if geometries = [] then Inl EmptyGeometries
          else
            let gs = clip_geoms ops geometries gcrs rc;
                keep = clip_mask ops gs invert r;
                masked = r\<lparr>data := gzip (\<lambda>k v. if k then v else None) keep (data r)\<rparr>;
                cropped = isel_window (get_data_window keep (length (lon r))) masked
            in if length (lon cropped) < 1 \<or> length (lat cropped) < 1 then Inl NoDataInBounds
               else Inr cropped)"

text \<open>A geometry interface whose geometries are single longitudes, for small examples.\<close>

definition point_ops :: "real geo_ops" where
  "point_ops = \<lparr>covers = (\<lambda>g x y. x = g), reproject = (\<lambda>_ _ g. g)\<rparr>"

section \<open>Slices and spans\<close>

lemma length_slice [simp]: "hi \<le> length xs \<Longrightarrow> length (py_slice lo hi xs) = hi - lo"
  by (simp add: py_slice_def)

lemma nth_slice [simp]: "i < hi - lo \<Longrightarrow> hi \<le> length xs \<Longrightarrow> py_slice lo hi xs ! i = xs ! (lo + i)"
  by (simp add: py_slice_def)

lemma slice_full [simp]: "py_slice 0 (length xs) xs = xs"
  by (simp add: py_slice_def)

lemma sorted_filter_upt: "sorted (filter P [0..<m])"
  using sorted_wrt_filter [of "(\<le>)" "[0..<m]" P] by simp

lemma set_filter_upt: "set (filter P [0..<m]) = {i. i < m \<and> P i}"
  by auto

lemma span_filter_upt:
  assumes "span (filter P [0..<m]) = (a, b)" and "P k" and "k < m"
  shows "a < b \<and> b \<le> m \<and> P a \<and> P (b - 1) \<and> (\<forall>i<m. P i \<longrightarrow> a \<le> i \<and> i < b)"
proof -
  let ?ks = "filter P [0..<m]"
  have ne: "?ks \<noteq> []" using assms(2,3) by (auto simp: filter_empty_conv)
  obtain x xs where x: "?ks = x # xs" using ne by (cases ?ks) auto
  obtain ys z where z: "?ks = ys @ [z]" using ne by (cases ?ks rule: rev_cases) auto
  have "hd ?ks = x" "last ?ks = z" by (simp only: x list.sel(1)) (simp only: z last_snoc)
  then have ab: "a = x" "b = z + 1" using assms(1) ne by (simp_all add: span_def)
  have srt: "sorted ?ks" by (rule sorted_filter_upt)
  have lo: "\<forall>y\<in>set ?ks. x \<le> y"
  proof -
    have "sorted (x # xs)" using srt by (simp only: x)
    then show ?thesis by (simp add: x)
  qed
  have hi: "\<forall>y\<in>set ?ks. y \<le> z"
  proof -
    have "sorted (ys @ [z])" using srt by (simp only: z)
    then show ?thesis by (auto simp: z sorted_append)
  qed
  have xin: "x \<in> set ?ks" and zin: "z \<in> set ?ks" by (simp only: x list.set_intros(1)) (simp add: z)
  show ?thesis using lo hi xin zin ab by (auto simp: set_filter_upt)
qed

lemma span_filter_upt_bounds:
  assumes "span (filter P [0..<m]) = (a, b)"
  shows "a \<le> b \<and> b \<le> m"
proof (cases "\<exists>k<m. P k")
  case True
  then obtain k where "P k" "k < m" by blast
  then have "a < b \<and> b \<le> m" using span_filter_upt [OF assms] by blast
  then show ?thesis by simp
next
  case False
  then have "filter P [0..<m] = []" by (auto simp: filter_empty_conv)
  with assms show ?thesis by (simp add: span_def)
qed

lemma span_filter_upt_empty:
  "(\<forall>i<m. \<not> P i) \<Longrightarrow> span (filter P [0..<m]) = (0, 0)"
  by (simp add: span_def filter_empty_conv)

lemma span_filter_upt_full:
  assumes "0 < k" "P 0" "P (k - 1)"
  shows "span (filter P [0..<k]) = (0, k)"
proof -
  have "[0..<k] = 0 # [1..<k]" using assms(1) by (simp add: upt_rec)
  then have h: "hd (filter P [0..<k]) = 0" using assms(2) by simp
  have "[0..<k] = [0..<k - 1] @ [k - 1]" using assms(1) upt_Suc [of 0 "k - 1"] by simp
  then have l: "last (filter P [0..<k]) = k - 1" using assms(3) by simp
  have "filter P [0..<k] \<noteq> []" using assms(1,2) by (auto simp: filter_empty_conv)
  then show ?thesis using h l assms(1) by (simp add: span_def)
qed

section \<open>The window and the crop\<close>

lemma get_data_window_gen_grid:
  "get_data_window (gen_grid m n f) n =
     (span (filter (\<lambda>i. \<exists>j<n. f i j) [0..<m]), span (filter (\<lambda>j. \<exists>i<m. f i j) [0..<n]))"
proof -
  have "filter (\<lambda>i. list_ex id (gen_grid m n f ! i)) [0..<m] = filter (\<lambda>i. \<exists>j<n. f i j) [0..<m]"
    by (rule filter_cong) (auto simp: list_ex_iff)
  moreover have "filter (\<lambda>j. list_ex (\<lambda>row. row ! j) (gen_grid m n f)) [0..<n]
                 = filter (\<lambda>j. \<exists>i<m. f i j) [0..<n]"
    by (rule filter_cong) (auto simp: list_ex_iff gen_grid_def)
  ultimately show ?thesis by (simp add: get_data_window_def)
qed

lemma isel_window_fields:
  "lat (isel_window ((r0, r1), (c0, c1)) r) = py_slice r0 r1 (lat r)"
  "lon (isel_window ((r0, r1), (c0, c1)) r) = py_slice c0 c1 (lon r)"
  "data (isel_window ((r0, r1), (c0, c1)) r) = map (py_slice c0 c1) (py_slice r0 r1 (data r))"
  "time (isel_window ((r0, r1), (c0, c1)) r) = time r"
  "crs (isel_window ((r0, r1), (c0, c1)) r) = crs r"
  by (simp_all add: isel_window_def)

lemma isel_window_wf:
  assumes "raster_wf r" "r1 \<le> length (lat r)" "c1 \<le> length (lon r)"
  shows "raster_wf (isel_window ((r0, r1), (c0, c1)) r)"
proof -
  have "length (data r) = length (lat r)" using assms(1) by (rule raster_wf_rows)
  moreover have "\<And>i. i < r1 - r0 \<Longrightarrow> length (data r ! (r0 + i)) = length (lon r)"
    using assms by (simp add: raster_wf_row_length)
  ultimately show ?thesis using assms(2,3)
    by (auto simp: raster_wf_def grid_shape_def isel_window_fields list_all_length)
qed

lemma isel_window_cell:
  assumes "raster_wf r" "r1 \<le> length (lat r)" "c1 \<le> length (lon r)"
    and "i < r1 - r0" "j < c1 - c0"
  shows "data (isel_window ((r0, r1), (c0, c1)) r) ! i ! j = data r ! (r0 + i) ! (c0 + j)"
proof -
  have "length (data r) = length (lat r)" using assms(1) by (rule raster_wf_rows)
  moreover have "length (data r ! (r0 + i)) = length (lon r)"
    using assms by (simp add: raster_wf_row_length)
  ultimately show ?thesis using assms(2-5) by (simp add: isel_window_fields)
qed

lemma clip_mask_shape: "grid_shape (length (lat r)) (length (lon r)) (clip_mask ops gs iv r)"
  by (simp add: clip_mask_def)

lemma clip_masked_wf:
  "raster_wf r \<Longrightarrow>
   raster_wf (r\<lparr>data := gzip (\<lambda>k v. if k then v else None) (clip_mask ops gs iv r) (data r)\<rparr>)"
  by (simp add: raster_wf_def gzip_shape clip_mask_shape)

lemma clip_masked_cell:
  "raster_wf r \<Longrightarrow> i < length (lat r) \<Longrightarrow> j < length (lon r) \<Longrightarrow>
   gzip (\<lambda>k v. if k then v else None) (clip_mask ops gs iv r) (data r) ! i ! j
     = (if kept ops gs iv (lon r ! j) (lat r ! i) then data r ! i ! j else None)"
proof -
  assume wf: "raster_wf r" and i: "i < length (lat r)" and j: "j < length (lon r)"
  have d: "grid_shape (length (lat r)) (length (lon r)) (data r)"
    using wf by (simp add: raster_wf_def)
  show ?thesis
    by (simp only: gzip_cell [OF clip_mask_shape d i j])
       (simp add: clip_mask_def i j)
qed

section \<open>What a successful clip returns\<close>

lemma clip_window_bounds:
  assumes "get_data_window (clip_mask ops gs iv r) (length (lon r)) = ((r0, r1), (c0, c1))"
  shows "r0 \<le> r1 \<and> r1 \<le> length (lat r) \<and> c0 \<le> c1 \<and> c1 \<le> length (lon r)"
  using assms span_filter_upt_bounds
  by (simp add: clip_mask_def get_data_window_gen_grid) blast

lemma rio_clip_InrE:
  assumes ok: "rio_clip ops geometries gcrs iv r = Inr r'"
  obtains rc r0 r1 c0 c1 where
    "crs r = Some rc" "geometries \<noteq> []"
    "get_data_window (clip_mask ops (clip_geoms ops geometries gcrs rc) iv r) (length (lon r))
       = ((r0, r1), (c0, c1))"
    "r' = isel_window ((r0, r1), (c0, c1))
            (r\<lparr>data := gzip (\<lambda>k v. if k then v else None)
                           (clip_mask ops (clip_geoms ops geometries gcrs rc) iv r) (data r)\<rparr>)"
    "r0 < r1" "r1 \<le> length (lat r)" "c0 < c1" "c1 \<le> length (lon r)"
proof -
  obtain rc where rc: "crs r = Some rc" using ok by (cases "crs r") (auto simp: rio_clip_def)
  have ne: "geometries \<noteq> []" using ok rc by (auto simp: rio_clip_def)
  let ?K = "clip_mask ops (clip_geoms ops geometries gcrs rc) iv r"
  obtain r0 r1 c0 c1 where w: "get_data_window ?K (length (lon r)) = ((r0, r1), (c0, c1))"
    by (metis surj_pair)
  have b: "r0 \<le> r1" "r1 \<le> length (lat r)" "c0 \<le> c1" "c1 \<le> length (lon r)"
    using clip_window_bounds [OF w] by simp_all
  let ?masked = "r\<lparr>data := gzip (\<lambda>k v. if k then v else None) ?K (data r)\<rparr>"
  let ?C = "isel_window ((r0, r1), (c0, c1)) ?masked"
  have eq: "rio_clip ops geometries gcrs iv r
            = (if length (lon ?C) < 1 \<or> length (lat ?C) < 1 then Inl NoDataInBounds else Inr ?C)"
    unfolding rio_clip_def Let_def by (simp only: rc ne option.case w prod.case if_False simp_thms)
  moreover have "length (lon ?C) = c1 - c0" "length (lat ?C) = r1 - r0"
    using b by (simp_all add: isel_window_fields)
  ultimately have "r' = ?C" "r0 < r1" "c0 < c1"
    using ok by (auto split: if_splits)
  with that rc ne w b show ?thesis by blast
qed

lemma clip_crop_facts:
  fixes ops :: "'g geo_ops" and gs :: "'g list" and iv :: bool
  assumes wf: "raster_wf r" and b: "r0 \<le> r1" "r1 \<le> length (lat r)" "c0 \<le> c1" "c1 \<le> length (lon r)"
  defines "R \<equiv> isel_window ((r0, r1), (c0, c1))
                 (r\<lparr>data := gzip (\<lambda>k v. if k then v else None) (clip_mask ops gs iv r) (data r)\<rparr>)"
  shows "length (lat R) = r1 - r0 \<and> length (lon R) = c1 - c0
         \<and> (\<forall>i < r1 - r0. lat R ! i = lat r ! (r0 + i)) \<and> (\<forall>j < c1 - c0. lon R ! j = lon r ! (c0 + j))
         \<and> crs R = crs r \<and> time R = time r \<and> raster_wf R
         \<and> (\<forall>i < r1 - r0. \<forall>j < c1 - c0. data R ! i ! j =
              (if kept ops gs iv (lon r ! (c0 + j)) (lat r ! (r0 + i))
               then data r ! (r0 + i) ! (c0 + j) else None))"
proof -
  let ?masked = "r\<lparr>data := gzip (\<lambda>k v. if k then v else None) (clip_mask ops gs iv r) (data r)\<rparr>"
  have mwf: "raster_wf ?masked" using wf by (rule clip_masked_wf)
  have cell: "data R ! i ! j = (if kept ops gs iv (lon r ! (c0 + j)) (lat r ! (r0 + i))
                                then data r ! (r0 + i) ! (c0 + j) else None)"
    if "i < r1 - r0" "j < c1 - c0" for i j
  proof -
    have "data R ! i ! j = data ?masked ! (r0 + i) ! (c0 + j)"
      unfolding R_def using mwf b that by (intro isel_window_cell) simp_all
    also have "\<dots> = (if kept ops gs iv (lon r ! (c0 + j)) (lat r ! (r0 + i))
                     then data r ! (r0 + i) ! (c0 + j) else None)"
      using wf b that by (simp add: clip_masked_cell)
    finally show ?thesis .
  qed
  have "raster_wf R" unfolding R_def using mwf b by (intro isel_window_wf) simp_all
  then show ?thesis using b cell by (simp add: R_def isel_window_fields)
qed

lemma rio_clip_Inr:
  assumes ok: "rio_clip ops geometries gcrs iv r = Inr r'" and wf: "raster_wf r"
  obtains rc r0 c0 where
    "crs r = Some rc" "geometries \<noteq> []" "crs r' = Some rc" "time r' = time r" "raster_wf r'"
    "0 < length (lat r')" "0 < length (lon r')"
    "r0 + length (lat r') \<le> length (lat r)" "c0 + length (lon r') \<le> length (lon r)"
    "\<And>i. i < length (lat r') \<Longrightarrow> lat r' ! i = lat r ! (r0 + i)"
    "\<And>j. j < length (lon r') \<Longrightarrow> lon r' ! j = lon r ! (c0 + j)"
    "\<And>i j. i < length (lat r') \<Longrightarrow> j < length (lon r') \<Longrightarrow>
       data r' ! i ! j = (if kept ops (clip_geoms ops geometries gcrs rc) iv (lon r' ! j) (lat r' ! i)
                          then data r ! (r0 + i) ! (c0 + j) else None)"
proof -
  obtain rc r0 r1 c0 c1 where rc: "crs r = Some rc" and ne: "geometries \<noteq> []"
    and r': "r' = isel_window ((r0, r1), (c0, c1))
              (r\<lparr>data := gzip (\<lambda>k v. if k then v else None)
                             (clip_mask ops (clip_geoms ops geometries gcrs rc) iv r) (data r)\<rparr>)"
    and b: "r0 < r1" "r1 \<le> length (lat r)" "c0 < c1" "c1 \<le> length (lon r)"
    using ok by (rule rio_clip_InrE)
  note F = clip_crop_facts [OF wf less_imp_le [OF b(1)] b(2) less_imp_le [OF b(3)] b(4),
                            of ops "clip_geoms ops geometries gcrs rc" iv, folded r']
  show ?thesis
    using rc ne b F by (intro that [of rc r0 c0]) simp_all
qed

section \<open>A clip only moves and masks values\<close>

lemma py_slice_map: "py_slice lo hi (map f xs) = map f (py_slice lo hi xs)"
  by (simp add: py_slice_def take_map drop_map)

lemma clip_mask_map_cells [simp]: "clip_mask ops gs iv (map_cells f r) = clip_mask ops gs iv r"
  by (simp add: clip_mask_def)

lemma isel_window_map_cells:
  "isel_window w (map_cells f r) = map_cells f (isel_window w r)"
  by (cases w) (auto simp: isel_window_def map_cells_def gmap_def py_slice_map)

lemma rio_clip_map_cells:
  "rio_clip ops geometries gcrs iv (map_cells f r)
   = map_sum id (map_cells f) (rio_clip ops geometries gcrs iv r)"
proof -
  have z: "gzip (\<lambda>k v. if k then v else None) K (gmap (map_option f) D)
           = gmap (map_option f) (gzip (\<lambda>k v. if k then v else None) K D)" for K D
    by (rule gzip_gmap_right) simp
  have m: "(map_cells f r)\<lparr>data := gzip (\<lambda>k v. if k then v else None) K (gmap (map_option f) (data r))\<rparr>
           = map_cells f (r\<lparr>data := gzip (\<lambda>k v. if k then v else None) K (data r)\<rparr>)" for K
    by (simp add: map_cells_def z)
  show ?thesis
    by (simp add: rio_clip_def Let_def m isel_window_map_cells split: option.split)
qed

lemma rio_clip_cells:
  assumes ok: "rio_clip ops geometries gcrs iv r = Inr r'" and wf: "raster_wf r"
    and all: "\<forall>i<length (lat r). \<forall>j<length (lon r). P (data r ! i ! j)" and none: "P None"
  shows "\<forall>i<length (lat r'). \<forall>j<length (lon r'). P (data r' ! i ! j)"
proof (intro allI impI)
  fix i j assume ij: "i < length (lat r')" "j < length (lon r')"
  obtain rc r0 c0 where b: "r0 + length (lat r') \<le> length (lat r)" "c0 + length (lon r') \<le> length (lon r)"
    and cell: "\<And>i j. i < length (lat r') \<Longrightarrow> j < length (lon r') \<Longrightarrow>
       data r' ! i ! j = (if kept ops (clip_geoms ops geometries gcrs rc) iv (lon r' ! j) (lat r' ! i)
                          then data r ! (r0 + i) ! (c0 + j) else None)"
    using rio_clip_Inr [OF ok wf] by metis
  have "r0 + i < length (lat r)" "c0 + j < length (lon r)" using ij b by simp_all
  then show "P (data r' ! i ! j)" using cell [OF ij] all none by simp
qed

lemma rio_clip_nothing_kept:
  assumes rc: "crs r = Some rc" and ne: "geometries \<noteq> []"
    and none: "\<forall>i<length (lat r). \<forall>j<length (lon r). \<not> kept ops (clip_geoms ops geometries gcrs rc) iv (lon r ! j) (lat r ! i)"
  shows "rio_clip ops geometries gcrs iv r = Inl NoDataInBounds"
proof -
  have K: "clip_mask ops (clip_geoms ops geometries gcrs rc) iv r
           = gen_grid (length (lat r)) (length (lon r)) (\<lambda>_ _. False)"
    unfolding clip_mask_def using none by (intro gen_grid_cong) simp_all
  show ?thesis
    by (simp add: rio_clip_def rc ne Let_def K get_data_window_gen_grid span_def isel_window_def py_slice_def)
qed

lemma rio_clip_first_errors:
  "crs r = None \<Longrightarrow> rio_clip ops geometries gcrs iv r = Inl MissingCRS"
  "crs r \<noteq> None \<Longrightarrow> rio_clip ops [] gcrs iv r = Inl EmptyGeometries"
  by (auto simp: rio_clip_def split: option.split)

section \<open>The crop is the bounding box of the kept cells\<close>

lemma rio_clip_window:
  assumes ok: "rio_clip ops geometries gcrs iv r = Inr r'"
  obtains rc r0 r1 c0 c1 where
    "crs r = Some rc" "geometries \<noteq> []"
    "r' = isel_window ((r0, r1), (c0, c1))
            (r\<lparr>data := gzip (\<lambda>k v. if k then v else None)
                           (clip_mask ops (clip_geoms ops geometries gcrs rc) iv r) (data r)\<rparr>)"
    "r0 < r1" "r1 \<le> length (lat r)" "c0 < c1" "c1 \<le> length (lon r)"
    "\<exists>j<length (lon r). kept ops (clip_geoms ops geometries gcrs rc) iv (lon r ! j) (lat r ! r0)"
    "\<exists>j<length (lon r). kept ops (clip_geoms ops geometries gcrs rc) iv (lon r ! j) (lat r ! (r1 - 1))"
    "\<exists>i<length (lat r). kept ops (clip_geoms ops geometries gcrs rc) iv (lon r ! c0) (lat r ! i)"
    "\<exists>i<length (lat r). kept ops (clip_geoms ops geometries gcrs rc) iv (lon r ! (c1 - 1)) (lat r ! i)"
    "\<forall>i<length (lat r). \<forall>j<length (lon r).
       kept ops (clip_geoms ops geometries gcrs rc) iv (lon r ! j) (lat r ! i) \<longrightarrow>
       r0 \<le> i \<and> i < r1 \<and> c0 \<le> j \<and> j < c1"
proof -
  obtain rc r0 r1 c0 c1 where rc: "crs r = Some rc" and ne: "geometries \<noteq> []"
    and w: "get_data_window (clip_mask ops (clip_geoms ops geometries gcrs rc) iv r) (length (lon r))
            = ((r0, r1), (c0, c1))"
    and r': "r' = isel_window ((r0, r1), (c0, c1))
              (r\<lparr>data := gzip (\<lambda>k v. if k then v else None)
                             (clip_mask ops (clip_geoms ops geometries gcrs rc) iv r) (data r)\<rparr>)"
    and b: "r0 < r1" "r1 \<le> length (lat r)" "c0 < c1" "c1 \<le> length (lon r)"
    using ok by (rule rio_clip_InrE)
  define f where "f i j = kept ops (clip_geoms ops geometries gcrs rc) iv (lon r ! j) (lat r ! i)" for i j
  let ?m = "length (lat r)" and ?n = "length (lon r)"
  have rs: "span (filter (\<lambda>i. \<exists>j<?n. f i j) [0..<?m]) = (r0, r1)"
   and cs: "span (filter (\<lambda>j. \<exists>i<?m. f i j) [0..<?n]) = (c0, c1)"
    using w by (simp_all add: clip_mask_def get_data_window_gen_grid f_def)
  have "\<exists>k<?m. \<exists>j<?n. f k j"
  proof (rule ccontr)
    assume "\<not> ?thesis"
    then have "span (filter (\<lambda>i. \<exists>j<?n. f i j) [0..<?m]) = (0, 0)"
      by (intro span_filter_upt_empty) blast
    with rs b show False by simp
  qed
  then obtain k l where kl: "k < ?m" "l < ?n" "f k l" by blast
  have R: "(\<exists>j<?n. f r0 j) \<and> (\<exists>j<?n. f (r1 - 1) j) \<and> (\<forall>i<?m. (\<exists>j<?n. f i j) \<longrightarrow> r0 \<le> i \<and> i < r1)"
    using span_filter_upt [OF rs, of k] kl by blast
  have C: "(\<exists>i<?m. f i c0) \<and> (\<exists>i<?m. f i (c1 - 1)) \<and> (\<forall>j<?n. (\<exists>i<?m. f i j) \<longrightarrow> c0 \<le> j \<and> j < c1)"
    using span_filter_upt [OF cs, of l] kl by blast
  show ?thesis
  proof (rule that [OF rc ne r' b])
    show "\<exists>j<?n. kept ops (clip_geoms ops geometries gcrs rc) iv (lon r ! j) (lat r ! r0)"
         "\<exists>j<?n. kept ops (clip_geoms ops geometries gcrs rc) iv (lon r ! j) (lat r ! (r1 - 1))"
         "\<exists>i<?m. kept ops (clip_geoms ops geometries gcrs rc) iv (lon r ! c0) (lat r ! i)"
         "\<exists>i<?m. kept ops (clip_geoms ops geometries gcrs rc) iv (lon r ! (c1 - 1)) (lat r ! i)"
      using R C by (simp_all add: f_def)
    show "\<forall>i<?m. \<forall>j<?n. kept ops (clip_geoms ops geometries gcrs rc) iv (lon r ! j) (lat r ! i)
            \<longrightarrow> r0 \<le> i \<and> i < r1 \<and> c0 \<le> j \<and> j < c1"
      using R C by (auto simp: f_def)
  qed
qed

section \<open>A cell kept by the mask survives the crop\<close>

lemma rio_clip_keeps_cell:
  assumes rc: "crs r = Some rc" and ne: "geometries \<noteq> []" and wf: "raster_wf r"
    and ij: "i < length (lat r)" "j < length (lon r)"
    and k: "kept ops (clip_geoms ops geometries gcrs rc) iv (lon r ! j) (lat r ! i)"
  shows "\<exists>r'. rio_clip ops geometries gcrs iv r = Inr r' \<and> raster_wf r' \<and> crs r' = crs r
           \<and> time r' = time r \<and> (\<exists>i'<length (lat r'). \<exists>j'<length (lon r').
               lat r' ! i' = lat r ! i \<and> lon r' ! j' = lon r ! j \<and> data r' ! i' ! j' = data r ! i ! j)"
proof -
  define gs where "gs = clip_geoms ops geometries gcrs rc"
  define f where "f i j = kept ops gs iv (lon r ! j) (lat r ! i)" for i j
  let ?m = "length (lat r)" and ?n = "length (lon r)"
  let ?K = "clip_mask ops gs iv r"
  obtain r0 r1 c0 c1 where w: "get_data_window ?K ?n = ((r0, r1), (c0, c1))"
    by (metis surj_pair)
  have rs: "span (filter (\<lambda>i. \<exists>j<?n. f i j) [0..<?m]) = (r0, r1)"
   and cs: "span (filter (\<lambda>j. \<exists>i<?m. f i j) [0..<?n]) = (c0, c1)"
    using w by (simp_all add: clip_mask_def get_data_window_gen_grid f_def)
  have fk: "f i j" using k by (simp add: f_def gs_def)
  have R: "r0 \<le> i \<and> i < r1 \<and> r1 \<le> ?m" using span_filter_upt [OF rs, of i] fk ij by blast
  have C: "c0 \<le> j \<and> j < c1 \<and> c1 \<le> ?n" using span_filter_upt [OF cs, of j] fk ij by blast
  let ?masked = "r\<lparr>data := gzip (\<lambda>k v. if k then v else None) ?K (data r)\<rparr>"
  let ?C = "isel_window ((r0, r1), (c0, c1)) ?masked"
  note F = clip_crop_facts [of r r0 r1 c0 c1 ops gs iv]
  have F': "length (lat ?C) = r1 - r0 \<and> length (lon ?C) = c1 - c0
         \<and> (\<forall>i < r1 - r0. lat ?C ! i = lat r ! (r0 + i)) \<and> (\<forall>j < c1 - c0. lon ?C ! j = lon r ! (c0 + j))
         \<and> crs ?C = crs r \<and> time ?C = time r \<and> raster_wf ?C
         \<and> (\<forall>i < r1 - r0. \<forall>j < c1 - c0. data ?C ! i ! j =
              (if kept ops gs iv (lon r ! (c0 + j)) (lat r ! (r0 + i))
               then data r ! (r0 + i) ! (c0 + j) else None))"
    using F wf R C by simp
  have eq: "rio_clip ops geometries gcrs iv r
            = (if length (lon ?C) < 1 \<or> length (lat ?C) < 1 then Inl NoDataInBounds else Inr ?C)"
    unfolding rio_clip_def Let_def gs_def
    by (simp only: rc ne option.case w [unfolded gs_def] prod.case if_False simp_thms)
  have ok: "rio_clip ops geometries gcrs iv r = Inr ?C" using eq F' R C by simp
  have i': "i - r0 < r1 - r0" using R by linarith
  have j': "j - c0 < c1 - c0" using C by linarith
  have "lat ?C ! (i - r0) = lat r ! i" "lon ?C ! (j - c0) = lon r ! j"
    using F' i' j' R C by simp_all
  moreover have "data ?C ! (i - r0) ! (j - c0) = data r ! i ! j"
    using F' i' j' R C k by (simp add: gs_def)
  moreover have "i - r0 < length (lat ?C)" "j - c0 < length (lon ?C)" using F' i' j' by simp_all
  ultimately show ?thesis using ok F' by blast
qed

section \<open>A second clip with the same geometries changes nothing\<close>

lemma rio_clip_twice:
  assumes ok: "rio_clip ops geometries gcrs iv r = Inr r'" and wf: "raster_wf r"
  shows "rio_clip ops geometries gcrs iv r' = Inr r'"
proof -
  obtain rc r0 r1 c0 c1 where rc: "crs r = Some rc" and ne: "geometries \<noteq> []"
    and r': "r' = isel_window ((r0, r1), (c0, c1))
              (r\<lparr>data := gzip (\<lambda>k v. if k then v else None)
                             (clip_mask ops (clip_geoms ops geometries gcrs rc) iv r) (data r)\<rparr>)"
    and b: "r0 < r1" "r1 \<le> length (lat r)" "c0 < c1" "c1 \<le> length (lon r)"
    and top: "\<exists>j<length (lon r). kept ops (clip_geoms ops geometries gcrs rc) iv (lon r ! j) (lat r ! r0)"
    and bot: "\<exists>j<length (lon r). kept ops (clip_geoms ops geometries gcrs rc) iv (lon r ! j) (lat r ! (r1 - 1))"
    and lft: "\<exists>i<length (lat r). kept ops (clip_geoms ops geometries gcrs rc) iv (lon r ! c0) (lat r ! i)"
    and rgt: "\<exists>i<length (lat r). kept ops (clip_geoms ops geometries gcrs rc) iv (lon r ! (c1 - 1)) (lat r ! i)"
    and inbox: "\<forall>i<length (lat r). \<forall>j<length (lon r).
               kept ops (clip_geoms ops geometries gcrs rc) iv (lon r ! j) (lat r ! i) \<longrightarrow>
               r0 \<le> i \<and> i < r1 \<and> c0 \<le> j \<and> j < c1"
    using ok by (rule rio_clip_window)
  define gs where "gs = clip_geoms ops geometries gcrs rc"
  define f where "f i j = kept ops gs iv (lon r ! j) (lat r ! i)" for i j
  let ?m = "r1 - r0" and ?n = "c1 - c0"
  note F = clip_crop_facts [OF wf less_imp_le [OF b(1)] b(2) less_imp_le [OF b(3)] b(4),
                            of ops gs iv, folded r' [folded gs_def]]
  have len: "length (lat r') = ?m" "length (lon r') = ?n" using F by simp_all
  have K': "clip_mask ops gs iv r' = gen_grid ?m ?n (\<lambda>i j. f (r0 + i) (c0 + j))"
    unfolding clip_mask_def len using F by (intro gen_grid_cong) (simp add: f_def)
  have rows: "span (filter (\<lambda>i. \<exists>j<?n. f (r0 + i) (c0 + j)) [0..<?m]) = (0, ?m)"
  proof (rule span_filter_upt_full)
    show "0 < ?m" using b by simp
    obtain j where j: "j < length (lon r)" "f r0 j" using top by (auto simp: f_def gs_def)
    then have "c0 \<le> j \<and> j < c1" using inbox [rule_format, of r0 j] b by (simp add: f_def gs_def)
    with j show "\<exists>j<?n. f (r0 + 0) (c0 + j)" by (intro exI [of _ "j - c0"]) auto
    obtain j' where j': "j' < length (lon r)" "f (r1 - 1) j'" using bot by (auto simp: f_def gs_def)
    then have "c0 \<le> j' \<and> j' < c1" using inbox [rule_format, of "r1 - 1" j'] b by (simp add: f_def gs_def)
    with j' b show "\<exists>j<?n. f (r0 + (?m - 1)) (c0 + j)" by (intro exI [of _ "j' - c0"]) auto
  qed
  have cols: "span (filter (\<lambda>j. \<exists>i<?m. f (r0 + i) (c0 + j)) [0..<?n]) = (0, ?n)"
  proof (rule span_filter_upt_full)
    show "0 < ?n" using b by simp
    obtain i where i: "i < length (lat r)" "f i c0" using lft by (auto simp: f_def gs_def)
    then have "r0 \<le> i \<and> i < r1" using inbox [rule_format, of i c0] b by (simp add: f_def gs_def)
    with i show "\<exists>i<?m. f (r0 + i) (c0 + 0)" by (intro exI [of _ "i - r0"]) auto
    obtain i' where i': "i' < length (lat r)" "f i' (c1 - 1)" using rgt by (auto simp: f_def gs_def)
    then have "r0 \<le> i' \<and> i' < r1" using inbox [rule_format, of i' "c1 - 1"] b by (simp add: f_def gs_def)
    with i' b show "\<exists>i<?m. f (r0 + i) (c0 + (?n - 1))" by (intro exI [of _ "i' - r0"]) auto
  qed
  have win: "get_data_window (clip_mask ops gs iv r') (length (lon r')) = ((0, ?m), (0, ?n))"
    by (simp add: K' len get_data_window_gen_grid rows cols)
  have "raster_wf r'" using F by blast
  then have d': "grid_shape ?m ?n (data r')" using len by (simp add: raster_wf_def)
  have masked: "gzip (\<lambda>k v. if k then v else None) (clip_mask ops gs iv r') (data r') = data r'"
  proof (rule grid_eqI [of ?m ?n])
    show "grid_shape ?m ?n (gzip (\<lambda>k v. if k then v else None) (clip_mask ops gs iv r') (data r'))"
      using d' by (simp add: K' gzip_shape)
    show "grid_shape ?m ?n (data r')" by (rule d')
    fix i j assume ij: "i < ?m" "j < ?n"
    then show "gzip (\<lambda>k v. if k then v else None) (clip_mask ops gs iv r') (data r') ! i ! j = data r' ! i ! j"
      using F d' by (simp add: K' gzip_cell [OF gen_grid_shape d'] f_def)
  qed
  have crop: "isel_window ((0, ?m), (0, ?n)) r' = r'"
  proof -
    have "map (py_slice 0 ?n) (data r') = data r'"
      using d' by (intro map_idI) (auto simp: grid_shape_def list_all_iff py_slice_def)
    moreover have "py_slice 0 ?m (data r') = data r'" using d' by (simp add: grid_shape_def py_slice_def)
    ultimately show ?thesis using len by (simp add: isel_window_def py_slice_def)
  qed
  have crs': "crs r' = Some rc" using F rc by simp
  have ne': "lon r' \<noteq> []" "lat r' \<noteq> []" using len b by auto
  have upd: "r'\<lparr>data := data r'\<rparr> = r'" by simp
  have nl: "\<not> (length (lon r') < 1 \<or> length (lat r') < 1)" using ne' by simp
  show ?thesis
    unfolding rio_clip_def Let_def crs' option.case gs_def [symmetric]
    by (simp only: ne if_False masked upd win crop nl)
qed

section \<open>Claims\<close>

text \<open>
  C5: an inverted clip (lines 34 and 39) leaves no value at a cell whose centre lies
  inside one of the exclusion geometries: every such cell of the result is NaN.
\<close>

theorem rio_clip_masks_inside:
  assumes ok: "rio_clip ops geometries gcrs True r = Inr r'" and wf: "raster_wf r"
    and rc: "crs r = Some rc" and ij: "i < length (lat r')" "j < length (lon r')"
    and inside: "list_ex (\<lambda>g. covers ops g (lon r' ! j) (lat r' ! i)) (clip_geoms ops geometries gcrs rc)"
  shows "data r' ! i ! j = None"
proof -
  obtain rc' r0 c0 where "crs r = Some rc'"
    and cell: "\<And>i j. i < length (lat r') \<Longrightarrow> j < length (lon r') \<Longrightarrow>
       data r' ! i ! j = (if kept ops (clip_geoms ops geometries gcrs rc') True (lon r' ! j) (lat r' ! i)
                          then data r ! (r0 + i) ! (c0 + j) else None)"
    using rio_clip_Inr [OF ok wf] by metis
  then have "rc' = rc" using rc by simp
  then show ?thesis using cell [OF ij] inside by (simp add: kept_def)
qed

theorem rio_clip_masks_inside_witness:
  "rio_clip point_ops [1] WGS84 True
     \<lparr>lat = [0], lon = [0, 1, 2], time = Some 0, crs = Some WGS84, data = [[Some 5, Some 6, Some 7]]\<rparr>
   = Inr \<lparr>lat = [0], lon = [0, 1, 2], time = Some 0, crs = Some WGS84, data = [[Some 5, None, Some 7]]\<rparr>
   \<and> raster_wf \<lparr>lat = [0::real], lon = [0, 1, 2], time = Some 0, crs = Some WGS84, data = [[Some (5::real), Some 6, Some 7]]\<rparr>
   \<and> list_ex (\<lambda>g. covers point_ops g 1 0) (clip_geoms point_ops [1] WGS84 WGS84)
   \<and> data \<lparr>lat = [0::real], lon = [0, 1, 2], time = Some 0, crs = Some WGS84, data = [[Some (5::real), None, Some 7]]\<rparr> ! 0 ! 1 = None"
proof -
  let ?r = "\<lparr>lat = [0::real], lon = [0, 1, 2], time = Some 0, crs = Some WGS84, data = [[Some (5::real), Some 6, Some 7]]\<rparr>"
  let ?r' = "\<lparr>lat = [0::real], lon = [0, 1, 2], time = Some 0, crs = Some WGS84, data = [[Some (5::real), None, Some 7]]\<rparr>"
  have ok: "rio_clip point_ops [1] WGS84 True ?r = Inr ?r'"
    by code_simp
  have wf: "raster_wf ?r" by (simp add: raster_wf_def grid_shape_def)
  have ins: "list_ex (\<lambda>g. covers point_ops g (lon ?r' ! 1) (lat ?r' ! 0)) (clip_geoms point_ops [1] WGS84 WGS84)"
    by (simp add: point_ops_def clip_geoms_def)
  have "data ?r' ! 0 ! 1 = None"
    using rio_clip_masks_inside [OF ok wf _ _ _ ins] by simp
  with ok wf ins show ?thesis by simp
qed

text \<open>
  C6: clipping is idempotent: clipping the result of a successful clip again with the
  same geometries, CRS and inversion returns it unchanged, and a failed clip stays failed.
\<close>

theorem rio_clip_idempotent:
  assumes wf: "raster_wf r"
  shows "rbind (rio_clip ops geometries gcrs iv r) (rio_clip ops geometries gcrs iv)
         = rio_clip ops geometries gcrs iv r"
proof (cases "rio_clip ops geometries gcrs iv r")
  case (Inr r')
  then show ?thesis using rio_clip_twice [OF Inr wf] by simp
qed simp

theorem rio_clip_idempotent_witness:
  "raster_wf \<lparr>lat = [0::real], lon = [0, 1, 2], time = Some 0, crs = Some WGS84, data = [[Some (5::real), Some 6, Some 7]]\<rparr>
   \<and> rbind (rio_clip point_ops [0] WGS84 False
              \<lparr>lat = [0], lon = [0, 1, 2], time = Some 0, crs = Some WGS84, data = [[Some 5, Some 6, Some 7]]\<rparr>)
            (rio_clip point_ops [0] WGS84 False)
     = Inr \<lparr>lat = [0], lon = [0], time = Some 0, crs = Some WGS84, data = [[Some 5]]\<rparr>"
proof -
  let ?r = "\<lparr>lat = [0::real], lon = [0, 1, 2], time = Some 0, crs = Some WGS84, data = [[Some (5::real), Some 6, Some 7]]\<rparr>"
  have wf: "raster_wf ?r" by (simp add: raster_wf_def grid_shape_def)
  have "rio_clip point_ops [0] WGS84 False ?r
        = Inr \<lparr>lat = [0], lon = [0], time = Some 0, crs = Some WGS84, data = [[Some 5]]\<rparr>"
    by code_simp
  then show ?thesis using rio_clip_idempotent [OF wf, of point_ops "[0]" WGS84 False] wf by simp
qed

text \<open>
  C7: an inverted clip whose geometries cover every cell centre of the raster raises
  \<open>NoDataInBounds\<close>: the program fails where the specification (section 4.4, edge
  cases) expects an all-no-data raster.
\<close>

theorem rio_clip_covering_mask_error:
  assumes rc: "crs r = Some rc" and ne: "geometries \<noteq> []"
    and cov: "\<forall>i<length (lat r). \<forall>j<length (lon r).
                list_ex (\<lambda>g. covers ops g (lon r ! j) (lat r ! i)) (clip_geoms ops geometries gcrs rc)"
  shows "rio_clip ops geometries gcrs True r = Inl NoDataInBounds"
  using cov by (intro rio_clip_nothing_kept [OF rc ne]) (simp add: kept_def)

theorem rio_clip_covering_mask_error_witness:
  "rio_clip point_ops [1, 2] WGS84 True
     \<lparr>lat = [0], lon = [1, 2], time = Some 0, crs = Some WGS84, data = [[Some 5, Some 6]]\<rparr>
   = Inl NoDataInBounds"
proof -
  let ?r = "\<lparr>lat = [0::real], lon = [1, 2], time = Some 0, crs = Some WGS84, data = [[Some (5::real), Some 6]]\<rparr>"
  have "\<forall>i<length (lat ?r). \<forall>j<length (lon ?r).
          list_ex (\<lambda>g. covers point_ops g (lon ?r ! j) (lat ?r ! i)) (clip_geoms point_ops [1, 2] WGS84 WGS84)"
    by (simp add: point_ops_def clip_geoms_def less_Suc_eq)
  then show ?thesis using rio_clip_covering_mask_error [of ?r WGS84 "[1, 2]" point_ops WGS84] by simp
qed

end
