(* ===== verification/Classify.thy ===== *)
theory Classify
  imports Raster
begin

text \<open>
  The Front Classifier, the last two statements of \<open>compute_fronts_main\<close>
  (src/fronts_module/compute_fronts_functions.py, lines 45-46):
  \<open>sobel_xr.where(sobel_xr > 0.2, other=np.nan)\<close> keeps the cells above the threshold
  and turns the others into NaN (a NaN cell compares false, so it stays NaN);
  \<open>sobel_xr.where(sobel_xr.isnull(), other=1)\<close> keeps the NaN cells and replaces every
  other cell by 1. Neither touches the coordinates, the time or the CRS.
\<close>

definition front_threshold :: real where
  "front_threshold = 1 / 5"

definition where_gt :: "real \<Rightarrow> cell raster \<Rightarrow> cell raster" where
  "where_gt t r =
     r\<lparr>data := gmap (\<lambda>v. case v of None \<Rightarrow> None | Some x \<Rightarrow> if t < x then Some x else None)
                   (data r)\<rparr>"

definition where_isnull :: "cell raster \<Rightarrow> cell raster" where
  "where_isnull r = r\<lparr>data := gmap (\<lambda>v. case v of None \<Rightarrow> None | Some _ \<Rightarrow> Some 1) (data r)\<rparr>"

definition classify_fronts :: "cell raster \<Rightarrow> cell raster" where
  "classify_fronts r = where_isnull (where_gt front_threshold r)"

text \<open>The cell-wise function the two statements compose to.\<close>

definition front_cell :: "cell \<Rightarrow> cell" where
  "front_cell v = (case v of Some x \<Rightarrow> if front_threshold < x then Some 1 else None | None \<Rightarrow> None)"

section \<open>The classifier on squared magnitudes\<close>

definition front_cell_sq :: "cell \<Rightarrow> cell" where
  "front_cell_sq v =
     (case v of Some x \<Rightarrow> if front_threshold\<^sup>2 < x then Some 1 else None | None \<Rightarrow> None)"

definition classify_fronts_sq :: "cell raster \<Rightarrow> cell raster" where
  "classify_fronts_sq r = r\<lparr>data := gmap front_cell_sq (data r)\<rparr>"

section \<open>Lemmas\<close>

lemma classify_fronts_data: "data (classify_fronts r) = gmap front_cell (data r)"
proof -
  have "(\<lambda>v. case v of None \<Rightarrow> None | Some _ \<Rightarrow> Some (1::real))
          \<circ> (\<lambda>v. case v of None \<Rightarrow> None | Some x \<Rightarrow> if front_threshold < x then Some x else None)
        = front_cell"
    by (rule ext) (simp add: front_cell_def split: option.split)
  then show ?thesis by (simp add: classify_fronts_def where_gt_def where_isnull_def)
qed

lemma classify_fronts_eq: "classify_fronts r = r\<lparr>data := gmap front_cell (data r)\<rparr>"
  by (simp add: classify_fronts_def where_gt_def where_isnull_def classify_fronts_data [symmetric])

lemma classify_fronts_frame [simp]:
  "lat (classify_fronts r) = lat r" "lon (classify_fronts r) = lon r"
  "time (classify_fronts r) = time r" "crs (classify_fronts r) = crs r"
  by (simp_all add: classify_fronts_def where_gt_def where_isnull_def)

lemma front_cell_cases: "front_cell v = Some 1 \<or> front_cell v = None"
  by (simp add: front_cell_def split: option.split)

lemma front_cell_Some_iff: "front_cell v = Some 1 \<longleftrightarrow> (\<exists>x. v = Some x \<and> front_threshold < x)"
  by (simp add: front_cell_def split: option.split)

lemma front_cell_idem [simp]: "front_cell (front_cell v) = front_cell v"
  by (simp add: front_cell_def front_threshold_def split: option.split)

section \<open>The classifier on squared magnitudes: lemmas\<close>

lemma threshold_lt_sqrt: "front_threshold < sqrt x \<longleftrightarrow> front_threshold\<^sup>2 < x"
proof -
  have "front_threshold = sqrt (front_threshold\<^sup>2)" by (simp add: front_threshold_def)
  then show ?thesis by (metis real_sqrt_less_iff)
qed

lemma classify_fronts_sqrt: "classify_fronts (map_cells sqrt r) = classify_fronts_sq r"
proof -
  have "front_cell \<circ> map_option sqrt = front_cell_sq"
    by (rule ext) (simp add: front_cell_def front_cell_sq_def threshold_lt_sqrt split: option.split)
  then show ?thesis
    by (simp add: classify_fronts_eq classify_fronts_sq_def map_cells_def)
qed

section \<open>Claims\<close>

text \<open>
  C10: after lines 45-46 a cell is 1 exactly when the masked magnitude there is a number
  greater than 0.2, and NaN otherwise (below or at the threshold, or already NaN); no
  other value occurs.
\<close>

theorem classify_fronts_cells:
  assumes "i < length (data r)" "j < length (data r ! i)"
  shows "(data (classify_fronts r) ! i ! j = Some 1 \<longleftrightarrow> (\<exists>x. data r ! i ! j = Some x \<and> 1 / 5 < x))
         \<and> (data (classify_fronts r) ! i ! j = None \<longleftrightarrow> \<not> (\<exists>x. data r ! i ! j = Some x \<and> 1 / 5 < x))"
proof -
  have c: "data (classify_fronts r) ! i ! j = front_cell (data r ! i ! j)"
    using assms by (simp add: classify_fronts_data gmap_cell)
  show ?thesis
    using front_cell_cases [of "data r ! i ! j"] front_cell_Some_iff [of "data r ! i ! j"]
    unfolding c front_threshold_def by auto
qed

theorem classify_fronts_cells_witness:
  "(0::nat) < length [[Some (3 / 10 :: real), None]] \<and> (1::nat) < length ([[Some (3 / 10 :: real), None]] ! 0)
   \<and> data (classify_fronts \<lparr>lat = [0], lon = [0, 1], time = Some 0, crs = Some WGS84,
                            data = [[Some (3 / 10), None]]\<rparr>) ! 0 ! 0 = Some 1"
proof -
  let ?r = "\<lparr>lat = [0], lon = [0, 1], time = Some 0, crs = Some WGS84, data = [[Some (3 / 10 :: real), None]]\<rparr>"
  have ex: "\<exists>x. data ?r ! 0 ! 0 = Some x \<and> 1 / 5 < x" by (intro exI [of _ "3 / 10"]) simp
  have "0 < length (data ?r)" "0 < length (data ?r ! 0)" by simp_all
  then have "data (classify_fronts ?r) ! 0 ! 0 = Some 1"
    using classify_fronts_cells [of 0 ?r 0] ex by blast
  then show ?thesis by simp
qed

end
