(* ===== verification/Searchsorted.thy ===== *)
theory Searchsorted
  imports Prelude "HOL-Library.While_Combinator"
begin

text \<open>
  numpy's \<open>searchsorted\<close> on a sorted index, through which pandas slices a monotonic
  time axis by label (\<open>.sel(time=slice(start, end))\<close>, line 39 of
  src/fronts_module/input_data_functions.py). numpy's \<open>binsearch\<close> keeps a half-open
  range \<open>[min_idx, max_idx)\<close>, starts from the whole array and, while it is not
  empty, probes its midpoint \<open>min_idx + ((max_idx - min_idx) >> 1)\<close>: when the probe
  passes, the range keeps its upper half above the midpoint, otherwise its lower half
  up to the midpoint. The loop is \<open>bisect_step\<close> under \<open>while\<close>; the probe is
  \<open>t < v\<close> for \<open>side='left'\<close> and \<open>t \<le> v\<close> for \<open>side='right'\<close> (numpy tests
  \<open>v < t\<close> there and swaps the two branches).
\<close>

definition bisect_step :: "(int \<Rightarrow> bool) \<Rightarrow> int list \<Rightarrow> nat \<times> nat \<Rightarrow> nat \<times> nat" where
  "bisect_step P ts = (\<lambda>(lo, hi).
     let mid = lo + (hi - lo) div 2 in if P (ts ! mid) then (mid + 1, hi) else (lo, mid))"

definition binsearch :: "(int \<Rightarrow> bool) \<Rightarrow> int list \<Rightarrow> nat" where
  "binsearch P ts = fst (while (\<lambda>(lo, hi). lo < hi) (bisect_step P ts) (0, length ts))"

definition searchsorted_left :: "int list \<Rightarrow> int \<Rightarrow> nat" where
  "searchsorted_left ts v = binsearch (\<lambda>t. t < v) ts"

definition searchsorted_right :: "int list \<Rightarrow> int \<Rightarrow> nat" where
  "searchsorted_right ts v = binsearch (\<lambda>t. t \<le> v) ts"

section \<open>Lemmas\<close>

text \<open>The loop invariant: the probe passes below \<open>lo\<close> and fails from \<open>hi\<close> on.\<close>

lemma bisect_step_decreases:
  "lo < hi \<Longrightarrow> bisect_step P ts (lo, hi) = (lo', hi') \<Longrightarrow> hi' - lo' < hi - lo \<and> lo' \<le> hi'"
  by (auto simp: bisect_step_def Let_def split: if_splits)

lemma bisect_step_invariant:
  assumes pre: "\<And>i j. i \<le> j \<Longrightarrow> j < length ts \<Longrightarrow> P (ts ! j) \<Longrightarrow> P (ts ! i)"
    and inv: "lo \<le> hi" "hi \<le> length ts" "\<forall>i<lo. P (ts ! i)" "\<forall>i. hi \<le> i \<and> i < length ts \<longrightarrow> \<not> P (ts ! i)"
    and lt: "lo < hi" and st: "bisect_step P ts (lo, hi) = (lo', hi')"
  shows "lo' \<le> hi' \<and> hi' \<le> length ts \<and> (\<forall>i<lo'. P (ts ! i)) \<and> (\<forall>i. hi' \<le> i \<and> i < length ts \<longrightarrow> \<not> P (ts ! i))"
proof -
  define mid where "mid = lo + (hi - lo) div 2"
  have mid: "lo \<le> mid" "mid < hi" using lt by (simp_all add: mid_def)
  show ?thesis
  proof (cases "P (ts ! mid)")
    case True
    have "bisect_step P ts (lo, hi) = (mid + 1, hi)" using True by (simp add: bisect_step_def Let_def mid_def)
    then have "lo' = mid + 1" "hi' = hi" using st by (metis prod.inject)+
    moreover have "\<forall>i<mid + 1. P (ts ! i)" using True pre mid inv(2) by (metis less_Suc_eq_le order.strict_trans2 Suc_eq_plus1)
    ultimately show ?thesis using inv mid by simp
  next
    case False
    have "bisect_step P ts (lo, hi) = (lo, mid)" using False by (simp add: bisect_step_def Let_def mid_def)
    then have "lo' = lo" "hi' = mid" using st by (metis prod.inject)+
    moreover have "\<forall>i. mid \<le> i \<and> i < length ts \<longrightarrow> \<not> P (ts ! i)" using False pre by blast
    ultimately show ?thesis using inv mid by simp
  qed
qed

lemma binsearch_correct:
  assumes pre: "\<And>i j. i \<le> j \<Longrightarrow> j < length ts \<Longrightarrow> P (ts ! j) \<Longrightarrow> P (ts ! i)"
  shows "binsearch P ts = length (takeWhile P ts)"
proof -
  let ?I = "\<lambda>(lo, hi). lo \<le> hi \<and> hi \<le> length ts \<and> (\<forall>i<lo. P (ts ! i))
                       \<and> (\<forall>i. hi \<le> i \<and> i < length ts \<longrightarrow> \<not> P (ts ! i))"
  let ?w = "while (\<lambda>(lo, hi). lo < hi) (bisect_step P ts) (0, length ts)"
  have "?I ?w \<and> \<not> (\<lambda>(lo, hi). lo < hi) ?w"
  proof (rule while_rule [where P = "\<lambda>s. ?I s" and r = "measure (\<lambda>(lo, hi). hi - lo)"])
    show "?I (0, length ts)" by auto
  next
    fix s assume a: "?I s" "(\<lambda>(lo, hi). lo < hi) s"
    obtain lo hi where s: "s = (lo, hi)" by (cases s)
    obtain lo' hi' where st: "bisect_step P ts (lo, hi) = (lo', hi')" by (cases "bisect_step P ts (lo, hi)")
    have i: "lo \<le> hi" "hi \<le> length ts" "\<forall>i<lo. P (ts ! i)"
      "\<forall>i. hi \<le> i \<and> i < length ts \<longrightarrow> \<not> P (ts ! i)" "lo < hi"
      using a unfolding s by simp_all
    have "?I (lo', hi')"
      unfolding case_prod_conv by (rule bisect_step_invariant [OF _ i st]) (fact pre)
    then show "?I (bisect_step P ts s)" unfolding s st .
  next
    fix s assume a: "?I s" "(\<lambda>(lo, hi). lo < hi) s"
    obtain lo hi where s: "s = (lo, hi)" by (cases s)
    obtain lo' hi' where st: "bisect_step P ts (lo, hi) = (lo', hi')" by (cases "bisect_step P ts (lo, hi)")
    have "lo < hi" using a(2) unfolding s by simp
    then have "hi' - lo' < hi - lo" using bisect_step_decreases [OF _ st] by simp
    then show "(bisect_step P ts s, s) \<in> measure (\<lambda>(lo, hi). hi - lo)" unfolding s st by simp
  next
    fix s assume "?I s" "\<not> (\<lambda>(lo, hi). lo < hi) s"
    then show "?I s \<and> \<not> (\<lambda>(lo, hi). lo < hi) s" ..
  next
    show "wf (measure (\<lambda>(lo, hi). hi - lo))" by simp
  qed
  then obtain lo hi where w: "?w = (lo, hi)" and inv: "?I (lo, hi)" and stop: "\<not> lo < hi"
    by (cases ?w) simp
  have le: "lo \<le> length ts" and below: "\<forall>i<lo. P (ts ! i)" and eq: "hi = lo"
    using inv stop by simp_all
  have above: "lo < length ts \<Longrightarrow> \<not> P (ts ! lo)" using inv eq by simp
  have "takeWhile P ts = take lo ts"
    by (rule takeWhile_eq_take_P_nth) (simp_all add: below above)
  then show ?thesis using le w by (simp add: binsearch_def)
qed

lemma sorted_prefix_pred:
  assumes "sorted ts" and "\<And>x y. x \<le> y \<Longrightarrow> P y \<Longrightarrow> P x"
  shows "i \<le> j \<Longrightarrow> j < length ts \<Longrightarrow> P (ts ! j) \<Longrightarrow> P (ts ! i)"
  using assms sorted_nth_mono by blast

lemma searchsorted_takeWhile:
  assumes "sorted ts"
  shows "searchsorted_left ts v = length (takeWhile (\<lambda>t. t < v) ts)"
    and "searchsorted_right ts v = length (takeWhile (\<lambda>t. t \<le> v) ts)"
  unfolding searchsorted_left_def searchsorted_right_def
  by (rule binsearch_correct, rule sorted_prefix_pred [OF assms], auto)+

lemma takeWhile_sorted_filter:
  assumes "sorted ts" and "\<And>x y. x \<le> y \<Longrightarrow> P y \<Longrightarrow> P x"
  shows "takeWhile P ts = filter P ts"
  using assms(1)
proof (induction ts)
  case (Cons x xs)
  show ?case
  proof (cases "P x")
    case False
    then have "filter P xs = []" using Cons.prems assms(2) by (auto simp: filter_empty_conv)
    then show ?thesis using False by simp
  qed (use Cons in simp)
qed simp




section \<open>Claims\<close>

text \<open>
  C21: numpy's bisection computes the reference count on a sorted array:
  \<open>searchsorted(ts, v, 'left')\<close> is the number of entries below \<open>v\<close> and
  \<open>searchsorted(ts, v, 'right')\<close> the number of entries not above \<open>v\<close>.
\<close>

theorem searchsorted_counts:
  assumes "sorted ts"
  shows "searchsorted_left ts v = length (filter (\<lambda>t. t < v) ts)
         \<and> searchsorted_right ts v = length (filter (\<lambda>t. t \<le> v) ts)"
  using searchsorted_takeWhile [OF assms]
    takeWhile_sorted_filter [OF assms, of "\<lambda>t. t < v"] takeWhile_sorted_filter [OF assms, of "\<lambda>t. t \<le> v"]
  by simp

theorem searchsorted_counts_witness:
  "sorted [1 :: int, 3, 3, 5] \<and> searchsorted_left [1, 3, 3, 5] 3 = 1 \<and> searchsorted_right [1, 3, 3, 5] 3 = 3"
  using searchsorted_counts [of "[1, 3, 3, 5]" 3] by simp



end
