(* ===== verification/Input.thy ===== *)
theory Input
  imports Clip Searchsorted
begin

text \<open>
  The input functions of src/fronts_module/input_data_functions.py that transform data.
  A dataset opened by xarray (from OPeNDAP in \<open>opendap_data\<close>, from a file in
  \<open>get_SST_data\<close>) is its shared \<open>lat\<close>/\<open>lon\<close> axes and its variable's time
  slices; a slice is the \<open>time\<close> value and the value grid, NaN as \<open>None\<close>.
  \<open>get_SST_data_pydap\<close> takes slice 0 (\<open>IndexError\<close> if there is none), converts
  Kelvin to Celsius, sets the spatial dims and the CRS, and clips to the AOI.
  \<open>opendap_data\<close>'s time selection is modelled on the opened collection; the network
  session and file reading are not. The coastline functions are in theory Vector.
\<close>

record dataset =
  ds_lat :: "real list"
  ds_lon :: "real list"
  ds_slices :: "(int \<times> cell grid) list"

text \<open>\<open>ds['analysed_sst'][0,:,:]\<close> (or \<open>ds['CHL'][0,:,:]\<close>): the first time slice as a raster without CRS.\<close>

definition first_slice :: "dataset \<Rightarrow> cell raster result" where
  "first_slice ds =
     (case ds_slices ds of
        [] \<Rightarrow> Inl IndexError
      | (t, g) # _ \<Rightarrow> Inr \<lparr>lat = ds_lat ds, lon = ds_lon ds, time = Some t, crs = None, data = g\<rparr>)"

definition kelvin_to_celsius :: "cell raster \<Rightarrow> cell raster" where
  "kelvin_to_celsius r = r\<lparr>data := gmap (map_option (\<lambda>k. k - 27315 / 100)) (data r)\<rparr>"

definition write_crs :: "crs \<Rightarrow> cell raster \<Rightarrow> cell raster" where
  "write_crs c r = r\<lparr>crs := Some c\<rparr>"

definition get_SST_data_pydap :: "'g geo_ops \<Rightarrow> 'g mask_set \<Rightarrow> dataset \<Rightarrow> cell raster result" where
  "get_SST_data_pydap ops aoi_gdf ds =
     rbind (first_slice ds) (\<lambda>data_SST.
       let data_SST = write_crs WGS84 (kelvin_to_celsius data_SST)
       in rio_clip ops (geoms aoi_gdf) (mcrs aoi_gdf) False data_SST)"

definition get_SST_data :: "'g geo_ops \<Rightarrow> dataset \<Rightarrow> 'g mask_set \<Rightarrow> cell raster result" where
  "get_SST_data ops ds aoi_gdf =
     rbind (first_slice ds) (\<lambda>data_SST.
       let data_SST = write_crs WGS84 (kelvin_to_celsius data_SST)
       in rio_clip ops (geoms aoi_gdf) (mcrs aoi_gdf) False data_SST)"

definition get_CHL_data :: "'g geo_ops \<Rightarrow> dataset \<Rightarrow> 'g mask_set \<Rightarrow> cell raster result" where
  "get_CHL_data ops ds_CHL aoi_gdf =
     rbind (first_slice ds_CHL) (\<lambda>data_CHL.
       let data_CHL = write_crs WGS84 data_CHL
       in rio_clip ops (geoms aoi_gdf) (mcrs aoi_gdf) False data_CHL)"

text \<open>\<open>polygon_to_gdf(aoi)\<close>: a one-row GeoDataFrame in WGS84.\<close>

definition polygon_to_gdf :: "'g \<Rightarrow> 'g mask_set" where
  "polygon_to_gdf aoi = \<lparr>geoms = [aoi], mcrs = WGS84\<rparr>"

text \<open>
  \<open>opendap_data(start_date, end_date)\<close>, lines 38-39, on the remote collection once it
  is opened (the CAS session and the OPeNDAP transport of lines 29-36 are not
  modelled): \<open>.sel(time=slice(start_date, end_date + timedelta(days=1)))\<close>. Times are
  seconds. pandas slices a monotonic index by binary search, \<open>searchsorted\<close> on the
  left for the start and on the right for the end (theory Searchsorted).
\<close>

definition one_day :: int where
  "one_day = 86400"

definition opendap_data :: "dataset \<Rightarrow> int \<Rightarrow> int \<Rightarrow> dataset" where
  "opendap_data remote start_date end_date =
     (let ts = map fst (ds_slices remote);
          lo = searchsorted_left ts start_date;
          hi = searchsorted_right ts (end_date + one_day)
      in remote\<lparr>ds_slices := py_slice lo hi (ds_slices remote)\<rparr>)"

section \<open>Lemmas\<close>

lemma first_slice_wf:
  "first_slice ds = Inr r \<Longrightarrow> list_all (\<lambda>(t, g). grid_shape (length (ds_lat ds)) (length (ds_lon ds)) g)
     (ds_slices ds) \<Longrightarrow> raster_wf r"
  by (auto simp: first_slice_def raster_wf_def split: list.splits)

lemma kelvin_to_celsius_wf [simp]: "raster_wf (kelvin_to_celsius r) = raster_wf r"
  by (simp add: kelvin_to_celsius_def raster_wf_def)

lemma write_crs_wf [simp]: "raster_wf (write_crs c r) = raster_wf r"
  by (simp add: write_crs_def raster_wf_def)

lemma slice_sorted_filter:
  assumes "sorted (map fst xs)"
  shows "py_slice (length (takeWhile (\<lambda>t. t < s) (map fst xs))) (length (takeWhile (\<lambda>t. t \<le> e) (map fst xs))) xs
         = filter (\<lambda>(t, _). s \<le> t \<and> t \<le> e) xs"
  using assms
proof (induction xs)
  case Nil
  then show ?case by (simp add: py_slice_def)
next
  case (Cons x xs)
  obtain t g where x: "x = (t, g)" by (cases x)
  have srt: "sorted (map fst xs)" and le: "\<forall>p\<in>set xs. t \<le> fst p" using Cons.prems x by auto
  note IH = Cons.IH [OF srt]
  show ?case
  proof (cases "t \<le> e")
    case False
    then have "filter (\<lambda>(t, _). s \<le> t \<and> t \<le> e) xs = []" using le by (force simp: filter_empty_conv)
    then show ?thesis using False x by (simp add: py_slice_def)
  next
    case True
    show ?thesis
    proof (cases "t < s")
      case True
      then show ?thesis using \<open>t \<le> e\<close> x IH by (simp add: py_slice_def)
    next
      case False
      then have "takeWhile (\<lambda>t. t < s) (map fst xs) = []" using le by (cases xs) auto
      moreover have "py_slice 0 (length (takeWhile (\<lambda>t. t \<le> e) (map fst xs))) xs
                     = filter (\<lambda>(t, _). s \<le> t \<and> t \<le> e) xs"
        using IH calculation by simp
      ultimately show ?thesis using False \<open>t \<le> e\<close> x by (simp add: py_slice_def)
    qed
  qed
qed

lemma sorted_window_head:
  assumes "sorted (map fst xs)"
  shows "(case filter (\<lambda>(t, _). s \<le> t \<and> t \<le> e) xs of [] \<Rightarrow> A | x # _ \<Rightarrow> F x)
         = (case dropWhile (\<lambda>(t, _). t < s) xs of [] \<Rightarrow> A | (t, g) # _ \<Rightarrow> if t \<le> e then F (t, g) else A)"
  using assms
proof (induction xs)
  case (Cons x xs)
  obtain t g where x: "x = (t, g)" by (cases x)
  have le: "\<forall>p\<in>set xs. t \<le> fst p" and srt: "sorted (map fst xs)" using Cons.prems x by auto
  show ?case
  proof (cases "t < s")
    case True
    then show ?thesis using Cons.IH [OF srt] x by auto
  next
    case False
    have "filter (\<lambda>(t, _). s \<le> t \<and> t \<le> e) xs = []" if "\<not> t \<le> e"
      using le that by (force simp: filter_empty_conv)
    then show ?thesis using False x by auto
  qed
qed simp

lemma opendap_data_slices:
  "sorted (map fst (ds_slices remote)) \<Longrightarrow>
   ds_slices (opendap_data remote start_date end_date)
   = filter (\<lambda>(t, _). start_date \<le> t \<and> t \<le> end_date + 86400) (ds_slices remote)"
  using slice_sorted_filter [of "ds_slices remote" start_date "end_date + 86400"]
  by (simp add: opendap_data_def searchsorted_takeWhile one_day_def Let_def)

section \<open>Claims\<close>

text \<open>
  C16: on a time axis in increasing order, \<open>opendap_data\<close>'s label slice keeps exactly
  the slices whose time lies in \<open>[start_date, end_date + 1 day]\<close>, both ends included,
  in their order.
\<close>

theorem opendap_data_selects:
  assumes "sorted (map fst (ds_slices remote))"
  shows "opendap_data remote start_date end_date
         = remote\<lparr>ds_slices := filter (\<lambda>(t, _). start_date \<le> t \<and> t \<le> end_date + 86400) (ds_slices remote)\<rparr>"
  using slice_sorted_filter [OF assms, of start_date "end_date + 86400"]
  by (simp add: opendap_data_def searchsorted_takeWhile [OF assms] one_day_def Let_def)

theorem opendap_data_selects_witness:
  "sorted (map fst [(0 :: int, [[Some (1 :: real)]]), (86400, [[Some 2]]), (172800, [[Some 3]]), (259200, [[Some 4]])])
   \<and> opendap_data \<lparr>ds_lat = [0], ds_lon = [0],
        ds_slices = [(0, [[Some 1]]), (86400, [[Some 2]]), (172800, [[Some 3]]), (259200, [[Some 4]])]\<rparr>
        86400 86400
     = \<lparr>ds_lat = [0], ds_lon = [0], ds_slices = [(86400, [[Some 2]]), (172800, [[Some 3]])]\<rparr>"
proof -
  let ?r = "\<lparr>ds_lat = [0], ds_lon = [0],
             ds_slices = [(0 :: int, [[Some (1 :: real)]]), (86400, [[Some 2]]), (172800, [[Some 3]]), (259200, [[Some 4]])]\<rparr>"
  have s: "sorted (map fst (ds_slices ?r))" by simp
  show ?thesis using opendap_data_selects [OF s, of 86400 86400] by simp
qed

text \<open>
  C15: \<open>get_SST_data_pydap\<close> returns, for a well-shaped first slice, a well-formed WGS84
  raster with that slice's time, whose axes are a window of the dataset's axes, and
  whose every cell is the Celsius value of the dataset cell at the same coordinates when
  its centre lies in the AOI, and NaN otherwise.
\<close>

theorem get_SST_data_pydap_cells:
  assumes ok: "get_SST_data_pydap ops aoi_gdf ds = Inr s"
    and sl: "ds_slices ds = (t, g) # rest" and shp: "grid_shape (length (ds_lat ds)) (length (ds_lon ds)) g"
  shows "raster_wf s \<and> crs s = Some WGS84 \<and> time s = Some t
         \<and> (\<forall>i<length (lat s). \<forall>j<length (lon s). \<exists>i0<length (ds_lat ds). \<exists>j0<length (ds_lon ds).
               lat s ! i = ds_lat ds ! i0 \<and> lon s ! j = ds_lon ds ! j0
               \<and> data s ! i ! j = (if list_ex (\<lambda>geo. covers ops geo (lon s ! j) (lat s ! i))
                                         (clip_geoms ops (geoms aoi_gdf) (mcrs aoi_gdf) WGS84)
                                    then map_option (\<lambda>k. k - 27315 / 100) (g ! i0 ! j0) else None))"
proof -
  let ?r = "write_crs WGS84 (kelvin_to_celsius \<lparr>lat = ds_lat ds, lon = ds_lon ds, time = Some t, crs = None, data = g\<rparr>)"
  have clip: "rio_clip ops (geoms aoi_gdf) (mcrs aoi_gdf) False ?r = Inr s"
    using ok by (simp add: get_SST_data_pydap_def first_slice_def sl Let_def)
  have wf: "raster_wf ?r" using shp by (simp add: raster_wf_def write_crs_def kelvin_to_celsius_def grid_shape_gmap)
  obtain rc r0 c0 where rc: "crs ?r = Some rc" and fr: "crs s = Some rc" "time s = time ?r" "raster_wf s"
    and b: "r0 + length (lat s) \<le> length (lat ?r)" "c0 + length (lon s) \<le> length (lon ?r)"
    and la: "\<And>i. i < length (lat s) \<Longrightarrow> lat s ! i = lat ?r ! (r0 + i)"
    and lo: "\<And>j. j < length (lon s) \<Longrightarrow> lon s ! j = lon ?r ! (c0 + j)"
    and cell: "\<And>i j. i < length (lat s) \<Longrightarrow> j < length (lon s) \<Longrightarrow>
       data s ! i ! j = (if kept ops (clip_geoms ops (geoms aoi_gdf) (mcrs aoi_gdf) rc) False (lon s ! j) (lat s ! i)
                         then data ?r ! (r0 + i) ! (c0 + j) else None)"
    using rio_clip_Inr [OF clip wf] by metis
  have w: "rc = WGS84" using rc by (simp add: write_crs_def)
  have "\<exists>i0<length (ds_lat ds). \<exists>j0<length (ds_lon ds).
          lat s ! i = ds_lat ds ! i0 \<and> lon s ! j = ds_lon ds ! j0
          \<and> data s ! i ! j = (if list_ex (\<lambda>geo. covers ops geo (lon s ! j) (lat s ! i))
                                   (clip_geoms ops (geoms aoi_gdf) (mcrs aoi_gdf) WGS84)
                              then map_option (\<lambda>k. k - 27315 / 100) (g ! i0 ! j0) else None)"
    if ij: "i < length (lat s)" "j < length (lon s)" for i j
  proof (intro exI conjI)
    show "r0 + i < length (ds_lat ds)" "c0 + j < length (ds_lon ds)" using b ij by (simp_all add: write_crs_def kelvin_to_celsius_def)
    show "lat s ! i = ds_lat ds ! (r0 + i)" "lon s ! j = ds_lon ds ! (c0 + j)"
      using la [OF ij(1)] lo [OF ij(2)] by (simp_all add: write_crs_def kelvin_to_celsius_def)
    have ri: "r0 + i < length (ds_lat ds)" using b ij by (simp add: write_crs_def kelvin_to_celsius_def)
    have "r0 + i < length g" "c0 + j < length (g ! (r0 + i))"
      using b ij shp grid_shape_row_length [OF shp ri]
      by (simp_all add: write_crs_def kelvin_to_celsius_def grid_shape_def)
    then show "data s ! i ! j = (if list_ex (\<lambda>geo. covers ops geo (lon s ! j) (lat s ! i))
                                   (clip_geoms ops (geoms aoi_gdf) (mcrs aoi_gdf) WGS84)
                              then map_option (\<lambda>k. k - 27315 / 100) (g ! (r0 + i) ! (c0 + j)) else None)"
      using cell [OF ij] w by (simp add: kept_def write_crs_def kelvin_to_celsius_def gmap_cell)
  qed
  then show ?thesis using fr w by (simp add: write_crs_def kelvin_to_celsius_def)
qed

theorem get_SST_data_pydap_cells_witness:
  "get_SST_data_pydap point_ops \<lparr>geoms = [1], mcrs = WGS84\<rparr>
     \<lparr>ds_lat = [0], ds_lon = [0, 1, 2], ds_slices = [(7, [[Some 280, Some 290, Some 300]])]\<rparr>
   = Inr \<lparr>lat = [0], lon = [1], time = Some 7, crs = Some WGS84, data = [[Some (1685 / 100)]]\<rparr>
   \<and> grid_shape 1 3 [[Some (280 :: real), Some 290, Some 300]]"
proof -
  have ok: "get_SST_data_pydap point_ops \<lparr>geoms = [1], mcrs = WGS84\<rparr>
     \<lparr>ds_lat = [0], ds_lon = [0, 1, 2], ds_slices = [(7, [[Some 280, Some 290, Some 300]])]\<rparr>
   = Inr \<lparr>lat = [0], lon = [1], time = Some 7, crs = Some WGS84, data = [[Some (1685 / 100)]]\<rparr>"
    by code_simp
  have "grid_shape (length [0 :: real]) (length [0 :: real, 1, 2]) [[Some (280 :: real), Some 290, Some 300]]"
    by (simp add: grid_shape_def)
  then have "raster_wf \<lparr>lat = [0 :: real], lon = [1 :: real], time = Some 7, crs = Some WGS84, data = [[Some (1685 / 100 :: real)]]\<rparr>"
    using get_SST_data_pydap_cells [OF ok] by simp
  then show ?thesis using ok by (simp add: grid_shape_def)
qed

end
