(* ===== verification/Overlay.thy ===== *)
theory Overlay
  imports Input
begin

text \<open>
  \<open>gpd.overlay(df1, df2, how='intersection')\<close>, the call of line 63 of
  src/fronts_module/input_data_functions.py, with its defaults
  (\<open>keep_geom_type=None\<close>, which geopandas treats as \<open>True\<close>). geopandas
  \<^item> raises \<open>NotImplementedError\<close> when either frame mixes geometry families
    (polygons, lines, points; collections belong to none);
  \<^item> returns an empty frame in \<open>df1\<close>'s CRS when the total bounds of the two frames
    are disjoint (the bounds of empty geometries are ignored, as \<open>np.nanmin\<close> does,
    and a frame without bounds overlaps nothing);
  \<^item> otherwise intersects every pair of rows whose geometries intersect, in the order of
    \<open>df1\<close>'s rows and then \<open>df2\<close>'s (\<open>overlay_intersection\<close>), in \<open>df1\<close>'s CRS;
  \<^item> keeps only results of the family of \<open>df1\<close>'s first geometry: a geometry
    collection in the result is first reduced to its parts of that family, and a
    first geometry that is itself a collection raises \<open>TypeError\<close>.
  The geometry library is the interface record \<open>vector_ops\<close>: shapely's
  \<open>buffer\<close>, \<open>boundary\<close> and \<open>intersection\<close> (\<open>None\<close> for an empty
  intersection), the family of a geometry (\<open>geom_type\<close>), and the parts of a
  collection of one family, dissolved into one geometry (\<open>collection_parts\<close>,
  \<open>None\<close> when there are none), and its bounding box (\<open>bounds\<close>, \<open>None\<close> for
  an empty geometry). Polygon repair (\<open>make_valid\<close>) is not modelled: the
  geometries are taken as valid.
\<close>

datatype geom_kind = PolygonKind | LineKind | PointKind | CollectionKind

record 'g vector_ops =
  buffer :: "real \<Rightarrow> 'g \<Rightarrow> 'g"
  boundary :: "'g \<Rightarrow> 'g"
  intersection :: "'g \<Rightarrow> 'g \<Rightarrow> 'g option"
  geom_type :: "'g \<Rightarrow> geom_kind"
  collection_parts :: "geom_kind \<Rightarrow> 'g \<Rightarrow> 'g option"
  bounds :: "'g \<Rightarrow> (real \<times> real \<times> real \<times> real) option"

text \<open>\<open>_overlay_intersection\<close>: the non-empty pairwise intersections.\<close>

definition overlay_intersection :: "'g vector_ops \<Rightarrow> 'g mask_set \<Rightarrow> 'g mask_set \<Rightarrow> 'g mask_set" where
  "overlay_intersection vops df1 df2 =
     \<lparr>geoms = concat (map (\<lambda>g1. List.map_filter (intersection vops g1) (geoms df2)) (geoms df1)),
      mcrs = mcrs df1\<rparr>"

text \<open>The check of both frames: more than one of the three families present.\<close>

definition mixed_types :: "'g vector_ops \<Rightarrow> 'g list \<Rightarrow> bool" where
  "mixed_types vops gs \<longleftrightarrow>
     1 < length (remdups (filter (\<lambda>k. k \<noteq> CollectionKind) (map (geom_type vops) gs)))"

text \<open>
  The \<open>keep_geom_type\<close> step for family \<open>k\<close>: collections reduced to their parts of
  family \<open>k\<close> (dropped when there are none), then the rows of family \<open>k\<close> kept.
\<close>

definition keep_geom_type :: "'g vector_ops \<Rightarrow> geom_kind \<Rightarrow> 'g list \<Rightarrow> 'g list" where
  "keep_geom_type vops k gs =
     filter (\<lambda>g. geom_type vops g = k)
       (List.map_filter (\<lambda>g. if geom_type vops g = CollectionKind then collection_parts vops k g else Some g) gs)"

text \<open>\<open>GeoDataFrame.total_bounds\<close>: \<open>(minx, miny, maxx, maxy)\<close> over the rows with bounds.\<close>

definition total_bounds :: "'g vector_ops \<Rightarrow> 'g list \<Rightarrow> (real \<times> real \<times> real \<times> real) option" where
  "total_bounds vops gs =
     (case List.map_filter (bounds vops) gs of
        [] \<Rightarrow> None
      | b # bs \<Rightarrow> Some (fold (\<lambda>(a0, b0, a1, b1) (c0, d0, c1, d1). (min a0 c0, min b0 d0, max a1 c1, max b1 d1)) bs b))"

text \<open>The test of the early return: both boxes exist and overlap in both axes.\<close>

definition bounds_overlap ::
  "(real \<times> real \<times> real \<times> real) option \<Rightarrow> (real \<times> real \<times> real \<times> real) option \<Rightarrow> bool" where
  "bounds_overlap p q =
     (case (p, q) of
        (Some (a0, b0, a1, b1), Some (c0, d0, c1, d1)) \<Rightarrow> a0 \<le> c1 \<and> c0 \<le> a1 \<and> b0 \<le> d1 \<and> d0 \<le> b1
      | _ \<Rightarrow> False)"

definition overlay :: "'g vector_ops \<Rightarrow> 'g mask_set \<Rightarrow> 'g mask_set \<Rightarrow> 'g mask_set result" where
  "overlay vops df1 df2 =
     (if mixed_types vops (geoms df1) \<or> mixed_types vops (geoms df2) then Inl NotImplementedError
      else if \<not> bounds_overlap (total_bounds vops (geoms df1)) (total_bounds vops (geoms df2))
      then Inr \<lparr>geoms = [], mcrs = mcrs df1\<rparr>
      else
        let result = overlay_intersection vops df1 df2
        in case geoms df1 of
             [] \<Rightarrow> Inr result
           | g1 # _ \<Rightarrow>
               let k = geom_type vops g1
               in if k = CollectionKind then Inl TypeError
                  else Inr (result\<lparr>geoms := keep_geom_type vops k (geoms result)\<rparr>))"

section \<open>Lemmas\<close>

lemma set_overlay_intersection:
  "set (geoms (overlay_intersection vops df1 df2))
   = {r. \<exists>g1\<in>set (geoms df1). \<exists>g2\<in>set (geoms df2). intersection vops g1 g2 = Some r}"
  by (auto simp: overlay_intersection_def set_map_filter)

lemma set_keep_geom_type:
  "c \<in> set (keep_geom_type vops k gs) \<longleftrightarrow>
     geom_type vops c = k \<and>
     (\<exists>g\<in>set gs. (geom_type vops g \<noteq> CollectionKind \<and> c = g)
                \<or> (geom_type vops g = CollectionKind \<and> collection_parts vops k g = Some c))"
  by (auto simp: keep_geom_type_def set_map_filter split: if_splits)

lemma overlay_Inr:
  assumes "overlay vops df1 df2 = Inr res"
  shows "mcrs res = mcrs df1 \<and> \<not> mixed_types vops (geoms df1) \<and> \<not> mixed_types vops (geoms df2)
         \<and> (geoms res = []
            \<or> (\<exists>g1 rest. geoms df1 = g1 # rest \<and> geom_type vops g1 \<noteq> CollectionKind
                \<and> geoms res = keep_geom_type vops (geom_type vops g1) (geoms (overlay_intersection vops df1 df2))))"
  using assms
  by (auto simp: overlay_def Let_def overlay_intersection_def split: if_splits list.splits)

section \<open>Claims\<close>

text \<open>
  C24: a successful overlay keeps \<open>df1\<close>'s CRS and only geometries of the family of
  \<open>df1\<close>'s first geometry, and keeps anything only when that geometry is not a
  collection: intersections of a lower dimension, such as the points where a coastline
  only touches the AOI, are dropped.
\<close>

theorem overlay_keeps_kind:
  assumes ok: "overlay vops df1 df2 = Inr res" and g1: "geoms df1 = g1 # rest"
  shows "mcrs res = mcrs df1 \<and> list_all (\<lambda>c. geom_type vops c = geom_type vops g1) (geoms res)
         \<and> (geoms res \<noteq> [] \<longrightarrow> geom_type vops g1 \<noteq> CollectionKind)"
proof (cases "geoms res = []")
  case False
  then have k: "geom_type vops g1 \<noteq> CollectionKind"
    and res: "geoms res = keep_geom_type vops (geom_type vops g1) (geoms (overlay_intersection vops df1 df2))"
    using overlay_Inr [OF ok] g1 by auto
  have "list_all (\<lambda>c. geom_type vops c = geom_type vops g1) (geoms res)"
    unfolding res list_all_iff by (auto simp: set_keep_geom_type)
  then show ?thesis using overlay_Inr [OF ok] k by blast
qed (use overlay_Inr [OF ok] in simp)

theorem overlay_keeps_kind_witness:
  "overlay \<lparr>buffer = (\<lambda>d g. g), boundary = (\<lambda>g. g), intersection = (\<lambda>g h. Some (if g = 1 then 5 else 50)),
            geom_type = (\<lambda>g. if g < 10 then LineKind else if g < 30 then PolygonKind else PointKind),
            collection_parts = (\<lambda>k g. None), bounds = (\<lambda>g. Some (0, 0, 1, 1))\<rparr>
     \<lparr>geoms = [1 :: real, 2], mcrs = WGS84\<rparr> \<lparr>geoms = [20], mcrs = WGS84\<rparr> = Inr \<lparr>geoms = [5], mcrs = WGS84\<rparr>
   \<and> geom_type \<lparr>buffer = (\<lambda>d g. g), boundary = (\<lambda>g. g), intersection = (\<lambda>g h. Some (if g = 1 then 5 else 50)),
            geom_type = (\<lambda>g. if g < 10 then LineKind else if g < 30 then PolygonKind else PointKind),
            collection_parts = (\<lambda>k g. None), bounds = (\<lambda>g. Some (0, 0, 1, 1))\<rparr> (5 :: real) = LineKind"
proof -
  let ?v = "\<lparr>buffer = (\<lambda>d g. g), boundary = (\<lambda>g. g), intersection = (\<lambda>g h. Some (if g = 1 then 5 else 50)),
            geom_type = (\<lambda>g. if g < 10 then LineKind else if g < 30 then PolygonKind else PointKind),
            collection_parts = (\<lambda>k g. None), bounds = (\<lambda>g. Some (0, 0, 1, 1))\<rparr> :: real vector_ops"
  have ok: "overlay ?v \<lparr>geoms = [1, 2], mcrs = WGS84\<rparr> \<lparr>geoms = [20], mcrs = WGS84\<rparr> = Inr \<lparr>geoms = [5], mcrs = WGS84\<rparr>"
    by code_simp
  show ?thesis using overlay_keeps_kind [OF ok] ok by simp
qed

end
