(* ===== verification/Vector.thy ===== *)
theory Vector
  imports Overlay
begin

text \<open>
  The vector-data functions of the program, over the GeoDataFrame model \<open>mask_set\<close>
  of theory Clip (the active geometry column and its CRS):
  \<open>GeoDataFrame.to_crs\<close>; \<open>get_coastline\<close> and \<open>get_coast_buffer\<close>
  (src/fronts_module/input_data_functions.py, lines 42-67 and 182-203); and the
  AOI-edge buffer of \<open>compute_fronts_main\<close>
  (src/fronts_module/compute_fronts_functions.py, lines 37 and 39).
  Shapely's constructive operations and geopandas' overlay are in theory Overlay.
  Reading the shapefile (\<open>gpd.read_file\<close>) is not modelled: its frame is an
  argument.
\<close>

text \<open>\<open>gdf.to_crs(c)\<close>: every geometry of the active column is transformed, the frame is relabelled.\<close>

definition to_crs :: "'g geo_ops \<Rightarrow> crs \<Rightarrow> 'g mask_set \<Rightarrow> 'g mask_set" where
  "to_crs ops c gdf = \<lparr>geoms = map (reproject ops (mcrs gdf) c) (geoms gdf), mcrs = c\<rparr>"

text \<open>
  \<open>get_coastline(aoi, coastline_directory)\<close>, lines 57-67, with the shapefile's frame
  \<open>coastline_shp\<close> as the argument.
\<close>

definition get_coastline ::
  "'g geo_ops \<Rightarrow> 'g vector_ops \<Rightarrow> 'g \<Rightarrow> 'g mask_set \<Rightarrow> 'g mask_set result" where
  "get_coastline ops vops aoi coastline_shp =
     (let polygon_gdf = \<lparr>geoms = [aoi], mcrs = WGS84\<rparr>
      in rbind (overlay vops coastline_shp polygon_gdf) (\<lambda>coastline_aoi.
           Inr (to_crs ops EPSG3035 coastline_aoi)))"

text \<open>
  \<open>get_coast_buffer(coastline, buffer_size)\<close>, lines 198-203. It changes its argument:
  \<open>to_crs(..., inplace=True)\<close> reprojects the caller's frame, so the function returns the
  caller's coastline as it is after the call together with the buffer frame. The
  \<open>'buffer'\<close> column it also adds to the caller's frame is not part of the model.
\<close>

definition get_coast_buffer ::
  "'g geo_ops \<Rightarrow> 'g vector_ops \<Rightarrow> 'g mask_set \<Rightarrow> real \<Rightarrow> 'g mask_set \<times> 'g mask_set" where
  "get_coast_buffer ops vops coastline buffer_size =
     (let coastline = to_crs ops EPSG3035 coastline;
          coastline_buffer = \<lparr>geoms = map (buffer vops (buffer_size * 1000)) (geoms coastline),
                              mcrs = EPSG3035\<rparr>
      in (coastline, to_crs ops WGS84 coastline_buffer))"

text \<open>
  Line 37, \<open>aoi_gdf.to_crs('EPSG:3035').boundary.buffer(30*1000)\<close>, followed by the
  \<open>to_crs('WGS84')\<close> of line 39.
\<close>

definition aoi_edges :: "'g geo_ops \<Rightarrow> 'g vector_ops \<Rightarrow> 'g mask_set \<Rightarrow> 'g mask_set" where
  "aoi_edges ops vops aoi_gdf =
     to_crs ops WGS84
       \<lparr>geoms = map (\<lambda>g. buffer vops (30 * 1000) (boundary vops g)) (geoms (to_crs ops EPSG3035 aoi_gdf)),
        mcrs = EPSG3035\<rparr>"

section \<open>Lemmas\<close>

lemma to_crs_fields [simp]:
  "mcrs (to_crs ops c gdf) = c" "length (geoms (to_crs ops c gdf)) = length (geoms gdf)"
  by (simp_all add: to_crs_def)

lemma to_crs_same [simp]:
  "(\<And>g. reproject ops c c g = g) \<Longrightarrow> mcrs gdf = c \<Longrightarrow> to_crs ops c gdf = gdf"
  by (simp add: to_crs_def map_idI)

lemma get_coastline_crs:
  "get_coastline ops vops aoi coastline_shp = Inr coastline \<Longrightarrow> mcrs coastline = EPSG3035"
  by (auto simp: get_coastline_def Let_def rbind_eq_Inr)

section \<open>Claims\<close>

text \<open>
  C20: in the program's flow the in-place reprojection of \<open>get_coast_buffer\<close> is
  harmless: the frame a successful \<open>get_coastline\<close> returns is already in EPSG:3035,
  so when reprojecting a CRS onto itself is the identity, the caller's coastline is
  unchanged by the call, and the buffer frame is in WGS84 and holds, row by row, the
  coastline geometries buffered by \<open>buffer_size\<close> km in EPSG:3035 and reprojected
  to WGS84.
\<close>

theorem get_coast_buffer_keeps_coastline:
  assumes "\<And>g. reproject ops EPSG3035 EPSG3035 g = g"
    and "get_coastline ops vops aoi coastline_shp = Inr coastline"
    and "get_coast_buffer ops vops coastline buffer_size = (coastline', cb)"
  shows "coastline' = coastline \<and> mcrs cb = WGS84
         \<and> geoms cb = map (\<lambda>g. reproject ops EPSG3035 WGS84 (buffer vops (buffer_size * 1000) g)) (geoms coastline)"
proof -
  have c: "to_crs ops EPSG3035 coastline = coastline"
    using assms(1) get_coastline_crs [OF assms(2)] by (rule to_crs_same)
  show ?thesis using assms(3) unfolding get_coast_buffer_def Let_def c by (auto simp: to_crs_def)
qed

theorem get_coast_buffer_keeps_coastline_witness:
  "get_coastline \<lparr>covers = (\<lambda>g x y. x = g), reproject = (\<lambda>a b g. g)\<rparr>
      \<lparr>buffer = (\<lambda>d g. g + d), boundary = (\<lambda>g. g), intersection = (\<lambda>g h. if g = h then Some g else None),
       geom_type = (\<lambda>g. LineKind), collection_parts = (\<lambda>k g. None),
       bounds = (\<lambda>g. Some (0, 0, 1, 1))\<rparr>
      1 \<lparr>geoms = [1 :: real, 2], mcrs = WGS84\<rparr> = Inr \<lparr>geoms = [1], mcrs = EPSG3035\<rparr>
   \<and> get_coast_buffer \<lparr>covers = (\<lambda>g x y. x = g), reproject = (\<lambda>a b g. g)\<rparr>
      \<lparr>buffer = (\<lambda>d g. g + d), boundary = (\<lambda>g. g), intersection = (\<lambda>g h. if g = h then Some g else None),
       geom_type = (\<lambda>g. LineKind), collection_parts = (\<lambda>k g. None),
       bounds = (\<lambda>g. Some (0, 0, 1, 1))\<rparr>
      \<lparr>geoms = [1], mcrs = EPSG3035\<rparr> 2
   = (\<lparr>geoms = [1], mcrs = EPSG3035\<rparr>, \<lparr>geoms = [2001], mcrs = WGS84\<rparr>)"
proof -
  let ?ops = "\<lparr>covers = (\<lambda>g x y. x = g), reproject = (\<lambda>a b g. g)\<rparr> :: real geo_ops"
  let ?vops = "\<lparr>buffer = (\<lambda>d g. g + d), boundary = (\<lambda>g. g),
                intersection = (\<lambda>g h. if g = h then Some g else None),
                geom_type = (\<lambda>g. LineKind), collection_parts = (\<lambda>k g. None),
       bounds = (\<lambda>g. Some (0, 0, 1, 1))\<rparr> :: real vector_ops"
  have c: "get_coastline ?ops ?vops 1 \<lparr>geoms = [1, 2], mcrs = WGS84\<rparr> = Inr \<lparr>geoms = [1], mcrs = EPSG3035\<rparr>"
    by code_simp
  have e: "get_coast_buffer ?ops ?vops \<lparr>geoms = [1], mcrs = EPSG3035\<rparr> 2
           = (\<lparr>geoms = [1], mcrs = EPSG3035\<rparr>, \<lparr>geoms = [2001], mcrs = WGS84\<rparr>)"
    by code_simp
  show ?thesis using get_coast_buffer_keeps_coastline [OF _ c e] c e by simp
qed

end
