(* ===== verification/Pipeline.thy ===== *)
theory Pipeline
  imports Gradient Clip Classify Input Vector
begin

text \<open>
  \<open>compute_fronts_main(data_collection_date, aoi_gdf, coast_buffer)\<close>
  (src/fronts_module/compute_fronts_functions.py, lines 9-49): load the first SST slice
  clipped to the AOI, take the gradient magnitude, clip away the coastline buffer and a
  buffer around the AOI's boundary (both inverted clips), and classify. The boundary
  buffer of line 37 is \<open>aoi_edges\<close> of theory Vector, in WGS84; line 39 labels its
  geometries with \<open>aoi_gdf.crs\<close>, as the model does.
\<close>

definition compute_fronts_main ::
  "'g geo_ops \<Rightarrow> 'g vector_ops \<Rightarrow> dataset \<Rightarrow> 'g mask_set \<Rightarrow> 'g mask_set
   \<Rightarrow> cell raster result" where
  "compute_fronts_main ops vops data_collection_date aoi_gdf coast_buffer =
     rbind (get_SST_data_pydap ops aoi_gdf data_collection_date) (\<lambda>SST_data.
     rbind (sobel_gradient SST_data) (\<lambda>sobel_xr.
     rbind (rio_clip ops (geoms coast_buffer) (mcrs coast_buffer) True sobel_xr) (\<lambda>sobel_xr.
     rbind (rio_clip ops (geoms (aoi_edges ops vops aoi_gdf)) (mcrs aoi_gdf) True sobel_xr) (\<lambda>sobel_xr.
     Inr (classify_fronts sobel_xr)))))"

section \<open>The executable refinement\<close>

definition compute_fronts_exec ::
  "'g geo_ops \<Rightarrow> 'g vector_ops \<Rightarrow> dataset \<Rightarrow> 'g mask_set \<Rightarrow> 'g mask_set
   \<Rightarrow> cell raster result" where
  "compute_fronts_exec ops vops ds aoi_gdf coast_buffer =
     rbind (get_SST_data_pydap ops aoi_gdf ds) (\<lambda>sst.
     rbind (sobel_gradient_sq sst) (\<lambda>s.
     rbind (rio_clip ops (geoms coast_buffer) (mcrs coast_buffer) True s) (\<lambda>s.
     rbind (rio_clip ops (geoms (aoi_edges ops vops aoi_gdf)) (mcrs aoi_gdf) True s) (\<lambda>s.
     Inr (classify_fronts_sq s)))))"

section \<open>Lemmas\<close>

lemma compute_fronts_exec_eq:
  "compute_fronts_main ops vops ds aoi_gdf coast_buffer
   = compute_fronts_exec ops vops ds aoi_gdf coast_buffer"
  by (simp add: compute_fronts_main_def compute_fronts_exec_def sobel_gradient_sq_refines
                rbind_map_sum rio_clip_map_cells comp_def classify_fronts_sqrt)

lemma compute_fronts_main_slices:
  "ds_slices ds = [] \<Longrightarrow> compute_fronts_main ops vops ds aoi_gdf coast_buffer = Inl IndexError"
  "ds_slices ds = x # rest \<Longrightarrow> compute_fronts_main ops vops ds aoi_gdf coast_buffer
     = compute_fronts_main ops vops (ds\<lparr>ds_slices := [x]\<rparr>) aoi_gdf coast_buffer"
  by (simp_all add: compute_fronts_main_def get_SST_data_pydap_def first_slice_def)

lemma compute_fronts_main_InrE:
  assumes "compute_fronts_main ops vops ds aoi_gdf coast_buffer = Inr r"
  obtains s g c1 c2 where
    "get_SST_data_pydap ops aoi_gdf ds = Inr s" "sobel_gradient s = Inr g"
    "rio_clip ops (geoms coast_buffer) (mcrs coast_buffer) True g = Inr c1"
    "rio_clip ops (geoms (aoi_edges ops vops aoi_gdf)) (mcrs aoi_gdf) True c1 = Inr c2"
    "r = classify_fronts c2"
  using assms by (auto simp: compute_fronts_main_def rbind_eq_Inr)

end
