(* ===== verification/Geometry.thy ===== *)
theory Geometry
  imports Vector
begin

text \<open>
  A concrete implementation of the two geometry interfaces (\<open>geo_ops\<close> of theory Clip,
  \<open>vector_ops\<close> of theory Vector), used to run the program on concrete inputs. It stands
  in for shapely, rasterio's rasteriser and pyproj:
  \<^item> polygons by their vertex rings, tested with the even-odd (crossing number) rule
    that GDAL's rasteriser applies to cell centres; closed boxes; rings (a polygon's
    boundary); buffers, the points within a distance of a polygon, box or ring; and
    intersections;
  \<^item> EPSG:3035 as a planar stand-in: coordinates scaled by 100000 metres per degree,
    so that the 30 km buffer of line 37 is 0.3 degrees wide in WGS84;
  \<^item> \<open>buffer\<close> is exact for polygons, boxes and rings (their outline is known) and
    adds up distances of repeated buffers; the boundary of a ring, a buffer or an
    intersection, which the program never takes, is the empty geometry.
  Geometry families and bounding boxes, which geopandas' overlay consults, are given
  for every geometry; the bounds of an intersection are the intersection of the bounds.
\<close>

datatype geometry =
    Polygon "(real \<times> real) list"
  | Box real real real real
  | Ring "(real \<times> real) list"
  | Buffered geometry real
  | Inter geometry geometry
  | Empty

definition edge_crosses :: "real \<times> real \<Rightarrow> real \<times> real \<Rightarrow> real \<Rightarrow> real \<Rightarrow> bool" where
  "edge_crosses p q x y =
     (case (p, q) of ((x1, y1), (x2, y2)) \<Rightarrow>
        (y < y1) \<noteq> (y < y2) \<and> x < x1 + (y - y1) * (x2 - x1) / (y2 - y1))"

definition point_in_polygon :: "(real \<times> real) list \<Rightarrow> real \<Rightarrow> real \<Rightarrow> bool" where
  "point_in_polygon vs x y =
     odd (length (filter (\<lambda>(p, q). edge_crosses p q x y) (zip vs (rotate1 vs))))"

text \<open>The squared distance from a point to a segment.\<close>

definition seg_sqdist :: "real \<times> real \<Rightarrow> real \<times> real \<Rightarrow> real \<times> real \<Rightarrow> real" where
  "seg_sqdist p a b =
     (case (p, a, b) of ((x, y), (ax, ay), (bx, by)) \<Rightarrow>
        let dx = bx - ax; dy = by - ay; l = dx\<^sup>2 + dy\<^sup>2;
            t = (if l = 0 then 0 else max 0 (min 1 (((x - ax) * dx + (y - ay) * dy) / l)))
        in (x - (ax + t * dx))\<^sup>2 + (y - (ay + t * dy))\<^sup>2)"

definition box_ring :: "real \<Rightarrow> real \<Rightarrow> real \<Rightarrow> real \<Rightarrow> (real \<times> real) list" where
  "box_ring x0 y0 x1 y1 = [(x0, y0), (x1, y0), (x1, y1), (x0, y1)]"

text \<open>The edges of a geometry's outline, where it has one.\<close>

fun outline :: "geometry \<Rightarrow> ((real \<times> real) \<times> (real \<times> real)) list" where
  "outline (Polygon vs) = zip vs (rotate1 vs)"
| "outline (Ring vs) = zip vs (rotate1 vs)"
| "outline (Box x0 y0 x1 y1) = zip (box_ring x0 y0 x1 y1) (rotate1 (box_ring x0 y0 x1 y1))"
| "outline _ = []"

fun geometry_covers :: "geometry \<Rightarrow> real \<Rightarrow> real \<Rightarrow> bool" where
  "geometry_covers (Polygon vs) x y = point_in_polygon vs x y"
| "geometry_covers (Box x0 y0 x1 y1) x y = (x0 \<le> x \<and> x \<le> x1 \<and> y0 \<le> y \<and> y \<le> y1)"
| "geometry_covers (Ring vs) x y = list_ex (\<lambda>(a, b). seg_sqdist (x, y) a b = 0) (outline (Ring vs))"
| "geometry_covers (Buffered g d) x y =
     (geometry_covers g x y \<or> list_ex (\<lambda>(a, b). seg_sqdist (x, y) a b \<le> d\<^sup>2) (outline g))"
| "geometry_covers (Inter g h) x y = (geometry_covers g x y \<and> geometry_covers h x y)"
| "geometry_covers Empty x y = False"

fun scale_geometry :: "real \<Rightarrow> geometry \<Rightarrow> geometry" where
  "scale_geometry k (Polygon vs) = Polygon (map (\<lambda>(x, y). (k * x, k * y)) vs)"
| "scale_geometry k (Ring vs) = Ring (map (\<lambda>(x, y). (k * x, k * y)) vs)"
| "scale_geometry k (Box x0 y0 x1 y1) = Box (k * x0) (k * y0) (k * x1) (k * y1)"
| "scale_geometry k (Buffered g d) = Buffered (scale_geometry k g) (k * d)"
| "scale_geometry k (Inter g h) = Inter (scale_geometry k g) (scale_geometry k h)"
| "scale_geometry k Empty = Empty"

definition planar_reproject :: "crs \<Rightarrow> crs \<Rightarrow> geometry \<Rightarrow> geometry" where
  "planar_reproject a b g =
     (if a = b then g else if b = EPSG3035 then scale_geometry 100000 g else scale_geometry (1 / 100000) g)"

definition geometry_ops :: "geometry geo_ops" where
  "geometry_ops = \<lparr>covers = geometry_covers, reproject = planar_reproject\<rparr>"

fun geometry_buffer :: "real \<Rightarrow> geometry \<Rightarrow> geometry" where
  "geometry_buffer d (Buffered g e) = Buffered g (e + d)"
| "geometry_buffer d Empty = Empty"
| "geometry_buffer d g = Buffered g d"

fun geometry_boundary :: "geometry \<Rightarrow> geometry" where
  "geometry_boundary (Polygon vs) = Ring vs"
| "geometry_boundary (Box x0 y0 x1 y1) = Ring (box_ring x0 y0 x1 y1)"
| "geometry_boundary _ = Empty"

fun geometry_intersection :: "geometry \<Rightarrow> geometry \<Rightarrow> geometry option" where
  "geometry_intersection (Box a0 b0 a1 b1) (Box c0 d0 c1 d1) =
     (let x0 = max a0 c0; y0 = max b0 d0; x1 = min a1 c1; y1 = min b1 d1
      in if x0 \<le> x1 \<and> y0 \<le> y1 then Some (Box x0 y0 x1 y1) else None)"
| "geometry_intersection g h = Some (Inter g h)"

text \<open>
  Geometry families (shapely's \<open>geom_type\<close> grouped as geopandas groups it): an
  intersection has the lower dimension of its arguments.
\<close>

definition meet_kind :: "geom_kind \<Rightarrow> geom_kind \<Rightarrow> geom_kind" where
  "meet_kind a b =
     (if a = CollectionKind \<or> b = CollectionKind then CollectionKind
      else if a = PointKind \<or> b = PointKind then PointKind
      else if a = LineKind \<or> b = LineKind then LineKind else PolygonKind)"

fun geometry_kind :: "geometry \<Rightarrow> geom_kind" where
  "geometry_kind (Polygon vs) = PolygonKind"
| "geometry_kind (Box x0 y0 x1 y1) = PolygonKind"
| "geometry_kind (Ring vs) = LineKind"
| "geometry_kind (Buffered g d) = PolygonKind"
| "geometry_kind (Inter g h) = meet_kind (geometry_kind g) (geometry_kind h)"
| "geometry_kind Empty = CollectionKind"

definition geometry_parts :: "geom_kind \<Rightarrow> geometry \<Rightarrow> geometry option" where
  "geometry_parts k g = (if geometry_kind g = k then Some g else None)"

definition vertex_bounds :: "(real \<times> real) list \<Rightarrow> (real \<times> real \<times> real \<times> real) option" where
  "vertex_bounds vs =
     (case vs of [] \<Rightarrow> None
      | (x, y) # _ \<Rightarrow> Some (fold min (map fst vs) x, fold min (map snd vs) y,
                          fold max (map fst vs) x, fold max (map snd vs) y))"

fun geometry_bounds :: "geometry \<Rightarrow> (real \<times> real \<times> real \<times> real) option" where
  "geometry_bounds (Polygon vs) = vertex_bounds vs"
| "geometry_bounds (Ring vs) = vertex_bounds vs"
| "geometry_bounds (Box x0 y0 x1 y1) = Some (x0, y0, x1, y1)"
| "geometry_bounds (Buffered g d) =
     map_option (\<lambda>(x0, y0, x1, y1). (x0 - d, y0 - d, x1 + d, y1 + d)) (geometry_bounds g)"
| "geometry_bounds (Inter g h) =
     (case (geometry_bounds g, geometry_bounds h) of
        (Some (a0, b0, a1, b1), Some (c0, d0, c1, d1)) \<Rightarrow> Some (max a0 c0, max b0 d0, min a1 c1, min b1 d1)
      | _ \<Rightarrow> None)"
| "geometry_bounds Empty = None"

definition shapely_ops :: "geometry vector_ops" where
  "shapely_ops = \<lparr>buffer = geometry_buffer, boundary = geometry_boundary,
                  intersection = geometry_intersection, geom_type = geometry_kind,
                  collection_parts = geometry_parts, bounds = geometry_bounds\<rparr>"

end
