(* ===== verification/Scenarios.thy ===== *)
theory Scenarios
  imports Pipeline Geometry
begin

text \<open>
  The two step scenarios of section 8 of the specification, run through
  \<open>compute_fronts_main\<close> on a 5x5 grid of one-degree cells (lat and lon 0 to 4): the
  left two columns at one temperature, the right three at another, given in Kelvin
  as the dataset stores them. The AOI is the box \<open>[0, 4] \<times> [0, 4]\<close>, which keeps
  every cell; the coastline buffer lies far away. The AOI-edge buffer (0.3 degrees in
  the planar stand-in of theory Geometry) removes the outer ring of cells, so the
  result is the 3x3 interior. Each stage is evaluated on its own: the byte stages by
  \<open>code_simp\<close>, the rescaling and the classification by \<open>simp\<close>.
\<close>

definition step_dataset :: "real \<Rightarrow> real \<Rightarrow> dataset" where
  "step_dataset a b = \<lparr>ds_lat = [0, 1, 2, 3, 4], ds_lon = [0, 1, 2, 3, 4],
     ds_slices = [(0, replicate 5 [Some a, Some a, Some b, Some b, Some b])]\<rparr>"

definition aoi_box :: "geometry mask_set" where
  "aoi_box = polygon_to_gdf (Box 0 0 4 4)"

definition far_coast :: "geometry mask_set" where
  "far_coast = \<lparr>geoms = [Box 100 100 101 101], mcrs = WGS84\<rparr>"

section \<open>Stages\<close>

lemma aoi_box_edges:
  "aoi_edges geometry_ops shapely_ops aoi_box
   = \<lparr>geoms = [Buffered (Ring [(0, 0), (4, 0), (4, 4), (0, 4)]) (3 / 10)], mcrs = WGS84\<rparr>"
  by (simp add: aoi_box_def aoi_edges_def to_crs_def polygon_to_gdf_def geometry_ops_def shapely_ops_def
                planar_reproject_def box_ring_def)

subsection \<open>Ascending step, 10 to 20 degrees\<close>

lemma asc_sst:
  "get_SST_data_pydap geometry_ops aoi_box (step_dataset (28315 / 100) (29315 / 100)) = Inr \<lparr>lat = [0, 1, 2, 3, 4], lon = [0, 1, 2, 3, 4], time = Some 0, crs = Some WGS84, data = [[Some 10, Some 10, Some 20, Some 20, Some 20], [Some 10, Some 10, Some 20, Some 20, Some 20], [Some 10, Some 10, Some 20, Some 20, Some 20], [Some 10, Some 10, Some 20, Some 20, Some 20], [Some 10, Some 10, Some 20, Some 20, Some 20]]\<rparr>"
  unfolding aoi_box_def step_dataset_def by code_simp

lemma asc_img: "astype_uint8 [[Some 10, Some 10, Some 20, Some 20, Some 20], [Some 10, Some 10, Some 20, Some 20, Some 20], [Some 10, Some 10, Some 20, Some 20, Some 20], [Some 10, Some 10, Some 20, Some 20, Some 20], [Some 10, Some 10, Some 20, Some 20, Some 20]] = [[10, 10, 20, 20, 20], [10, 10, 20, 20, 20], [10, 10, 20, 20, 20], [10, 10, 20, 20, 20], [10, 10, 20, 20, 20]]"
  by code_simp

lemma asc_dx: "sobel (gaussian_blur [[10, 10, 20, 20, 20], [10, 10, 20, 20, 20], [10, 10, 20, 20, 20], [10, 10, 20, 20, 20], [10, 10, 20, 20, 20]]) 0 = [[0, 0, 0, 0, 0], [0, 0, 0, 0, 0], [0, 0, 0, 0, 0], [0, 0, 0, 0, 0], [0, 0, 0, 0, 0]]"
  by code_simp

lemma asc_dy: "sobel (gaussian_blur [[10, 10, 20, 20, 20], [10, 10, 20, 20, 20], [10, 10, 20, 20, 20], [10, 10, 20, 20, 20], [10, 10, 20, 20, 20]]) 1 = [[12, 32, 28, 8, 0], [12, 32, 28, 8, 0], [12, 32, 28, 8, 0], [12, 32, 28, 8, 0], [12, 32, 28, 8, 0]]"
  by code_simp

lemma asc_coast:
  "rio_clip geometry_ops (geoms far_coast) (mcrs far_coast) True \<lparr>lat = [0, 1, 2, 3, 4], lon = [0, 1, 2, 3, 4], time = Some 0, crs = Some WGS84, data = [[Some (16384 / 469805625), Some (1048576 / 4228250625), Some (802816 / 4228250625), Some (65536 / 4228250625), Some 0], [Some (16384 / 469805625), Some (1048576 / 4228250625), Some (802816 / 4228250625), Some (65536 / 4228250625), Some 0], [Some (16384 / 469805625), Some (1048576 / 4228250625), Some (802816 / 4228250625), Some (65536 / 4228250625), Some 0], [Some (16384 / 469805625), Some (1048576 / 4228250625), Some (802816 / 4228250625), Some (65536 / 4228250625), Some 0], [Some (16384 / 469805625), Some (1048576 / 4228250625), Some (802816 / 4228250625), Some (65536 / 4228250625), Some 0]]\<rparr> = Inr \<lparr>lat = [0, 1, 2, 3, 4], lon = [0, 1, 2, 3, 4], time = Some 0, crs = Some WGS84, data = [[Some (16384 / 469805625), Some (1048576 / 4228250625), Some (802816 / 4228250625), Some (65536 / 4228250625), Some 0], [Some (16384 / 469805625), Some (1048576 / 4228250625), Some (802816 / 4228250625), Some (65536 / 4228250625), Some 0], [Some (16384 / 469805625), Some (1048576 / 4228250625), Some (802816 / 4228250625), Some (65536 / 4228250625), Some 0], [Some (16384 / 469805625), Some (1048576 / 4228250625), Some (802816 / 4228250625), Some (65536 / 4228250625), Some 0], [Some (16384 / 469805625), Some (1048576 / 4228250625), Some (802816 / 4228250625), Some (65536 / 4228250625), Some 0]]\<rparr>"
  unfolding far_coast_def by code_simp

lemma asc_edges:
  "rio_clip geometry_ops (geoms (aoi_edges geometry_ops shapely_ops aoi_box)) (mcrs aoi_box) True \<lparr>lat = [0, 1, 2, 3, 4], lon = [0, 1, 2, 3, 4], time = Some 0, crs = Some WGS84, data = [[Some (16384 / 469805625), Some (1048576 / 4228250625), Some (802816 / 4228250625), Some (65536 / 4228250625), Some 0], [Some (16384 / 469805625), Some (1048576 / 4228250625), Some (802816 / 4228250625), Some (65536 / 4228250625), Some 0], [Some (16384 / 469805625), Some (1048576 / 4228250625), Some (802816 / 4228250625), Some (65536 / 4228250625), Some 0], [Some (16384 / 469805625), Some (1048576 / 4228250625), Some (802816 / 4228250625), Some (65536 / 4228250625), Some 0], [Some (16384 / 469805625), Some (1048576 / 4228250625), Some (802816 / 4228250625), Some (65536 / 4228250625), Some 0]]\<rparr>
   = Inr \<lparr>lat = [1, 2, 3], lon = [1, 2, 3], time = Some 0, crs = Some WGS84, data = [[Some (1048576 / 4228250625), Some (802816 / 4228250625), Some (65536 / 4228250625)], [Some (1048576 / 4228250625), Some (802816 / 4228250625), Some (65536 / 4228250625)], [Some (1048576 / 4228250625), Some (802816 / 4228250625), Some (65536 / 4228250625)]]\<rparr>"
  unfolding aoi_box_edges unfolding aoi_box_def polygon_to_gdf_def by code_simp

text \<open>
  An example for the specification: the ascending step of section 8 (left columns 10, right columns 20 degrees)
  produces no front at all: the Sobel derivative across the step peaks at 32 of 255,
  the per-array rescaling squares that to about 0.016, far below the threshold 0.2.
  The specification expects the boundary column to be marked.
\<close>

theorem ascending_step_no_fronts:
  "compute_fronts_main geometry_ops shapely_ops (step_dataset (28315 / 100) (29315 / 100)) aoi_box far_coast
   = Inr \<lparr>lat = [1, 2, 3], lon = [1, 2, 3], time = Some 0, crs = Some WGS84,
          data = [[None, None, None], [None, None, None], [None, None, None]]\<rparr>"
proof -
  have x: "rescale (sobel (gaussian_blur [[10, 10, 20, 20, 20], [10, 10, 20, 20, 20], [10, 10, 20, 20, 20], [10, 10, 20, 20, 20], [10, 10, 20, 20, 20]]) 0) = [[0, 0, 0, 0, 0], [0, 0, 0, 0, 0], [0, 0, 0, 0, 0], [0, 0, 0, 0, 0], [0, 0, 0, 0, 0]]"
    unfolding asc_dx by (simp add: rescale_def nanmax_def gmap_def cells_def)
  have y: "rescale (sobel (gaussian_blur [[10, 10, 20, 20, 20], [10, 10, 20, 20, 20], [10, 10, 20, 20, 20], [10, 10, 20, 20, 20], [10, 10, 20, 20, 20]]) 1) = [[128 / 21675, 1024 / 65025, 896 / 65025, 256 / 65025, 0], [128 / 21675, 1024 / 65025, 896 / 65025, 256 / 65025, 0], [128 / 21675, 1024 / 65025, 896 / 65025, 256 / 65025, 0], [128 / 21675, 1024 / 65025, 896 / 65025, 256 / 65025, 0], [128 / 21675, 1024 / 65025, 896 / 65025, 256 / 65025, 0]]"
    unfolding asc_dy by (simp add: rescale_def nanmax_def gmap_def cells_def)
  have mag: "gradient_sq_magnitude [[10, 10, 20, 20, 20], [10, 10, 20, 20, 20], [10, 10, 20, 20, 20], [10, 10, 20, 20, 20], [10, 10, 20, 20, 20]] = [[16384 / 469805625, 1048576 / 4228250625, 802816 / 4228250625, 65536 / 4228250625, 0], [16384 / 469805625, 1048576 / 4228250625, 802816 / 4228250625, 65536 / 4228250625, 0], [16384 / 469805625, 1048576 / 4228250625, 802816 / 4228250625, 65536 / 4228250625, 0], [16384 / 469805625, 1048576 / 4228250625, 802816 / 4228250625, 65536 / 4228250625, 0], [16384 / 469805625, 1048576 / 4228250625, 802816 / 4228250625, 65536 / 4228250625, 0]]"
    unfolding gradient_sq_magnitude_def Let_def x y by (simp add: sq_norm_def gzip_def power_divide)
  have grad: "sobel_gradient_sq \<lparr>lat = [0, 1, 2, 3, 4], lon = [0, 1, 2, 3, 4], time = Some 0, crs = Some WGS84, data = [[Some 10, Some 10, Some 20, Some 20, Some 20], [Some 10, Some 10, Some 20, Some 20, Some 20], [Some 10, Some 10, Some 20, Some 20, Some 20], [Some 10, Some 10, Some 20, Some 20, Some 20], [Some 10, Some 10, Some 20, Some 20, Some 20]]\<rparr> = Inr \<lparr>lat = [0, 1, 2, 3, 4], lon = [0, 1, 2, 3, 4], time = Some 0, crs = Some WGS84, data = [[Some (16384 / 469805625), Some (1048576 / 4228250625), Some (802816 / 4228250625), Some (65536 / 4228250625), Some 0], [Some (16384 / 469805625), Some (1048576 / 4228250625), Some (802816 / 4228250625), Some (65536 / 4228250625), Some 0], [Some (16384 / 469805625), Some (1048576 / 4228250625), Some (802816 / 4228250625), Some (65536 / 4228250625), Some 0], [Some (16384 / 469805625), Some (1048576 / 4228250625), Some (802816 / 4228250625), Some (65536 / 4228250625), Some 0], [Some (16384 / 469805625), Some (1048576 / 4228250625), Some (802816 / 4228250625), Some (65536 / 4228250625), Some 0]]\<rparr>"
    by (simp add: sobel_gradient_sq_def Let_def asc_img mag gmap_def grid_rows_def grid_cols_def)
  show ?thesis
    unfolding compute_fronts_exec_eq compute_fronts_exec_def asc_sst rbind_Inr grad asc_coast asc_edges
    by (simp add: classify_fronts_sq_def front_cell_sq_def front_threshold_def gmap_def power_divide)
qed

subsection \<open>Descending step, 20 to 10 degrees\<close>

lemma desc_sst:
  "get_SST_data_pydap geometry_ops aoi_box (step_dataset (29315 / 100) (28315 / 100)) = Inr \<lparr>lat = [0, 1, 2, 3, 4], lon = [0, 1, 2, 3, 4], time = Some 0, crs = Some WGS84, data = [[Some 20, Some 20, Some 10, Some 10, Some 10], [Some 20, Some 20, Some 10, Some 10, Some 10], [Some 20, Some 20, Some 10, Some 10, Some 10], [Some 20, Some 20, Some 10, Some 10, Some 10], [Some 20, Some 20, Some 10, Some 10, Some 10]]\<rparr>"
  unfolding aoi_box_def step_dataset_def by code_simp

lemma desc_img: "astype_uint8 [[Some 20, Some 20, Some 10, Some 10, Some 10], [Some 20, Some 20, Some 10, Some 10, Some 10], [Some 20, Some 20, Some 10, Some 10, Some 10], [Some 20, Some 20, Some 10, Some 10, Some 10], [Some 20, Some 20, Some 10, Some 10, Some 10]] = [[20, 20, 10, 10, 10], [20, 20, 10, 10, 10], [20, 20, 10, 10, 10], [20, 20, 10, 10, 10], [20, 20, 10, 10, 10]]"
  by code_simp

lemma desc_dx: "sobel (gaussian_blur [[20, 20, 10, 10, 10], [20, 20, 10, 10, 10], [20, 20, 10, 10, 10], [20, 20, 10, 10, 10], [20, 20, 10, 10, 10]]) 0 = [[0, 0, 0, 0, 0], [0, 0, 0, 0, 0], [0, 0, 0, 0, 0], [0, 0, 0, 0, 0], [0, 0, 0, 0, 0]]"
  by code_simp

lemma desc_dy: "sobel (gaussian_blur [[20, 20, 10, 10, 10], [20, 20, 10, 10, 10], [20, 20, 10, 10, 10], [20, 20, 10, 10, 10], [20, 20, 10, 10, 10]]) 1 = [[248, 228, 224, 244, 0], [248, 228, 224, 244, 0], [248, 228, 224, 244, 0], [248, 228, 224, 244, 0], [248, 228, 224, 244, 0]]"
  by code_simp

lemma desc_coast:
  "rio_clip geometry_ops (geoms far_coast) (mcrs far_coast) True \<lparr>lat = [0, 1, 2, 3, 4], lon = [0, 1, 2, 3, 4], time = Some 0, crs = Some WGS84, data = [[Some (3782742016 / 4228250625), Some (355247104 / 469805625), Some (3086024704 / 4228250625), Some (3661702144 / 4228250625), Some 0], [Some (3782742016 / 4228250625), Some (355247104 / 469805625), Some (3086024704 / 4228250625), Some (3661702144 / 4228250625), Some 0], [Some (3782742016 / 4228250625), Some (355247104 / 469805625), Some (3086024704 / 4228250625), Some (3661702144 / 4228250625), Some 0], [Some (3782742016 / 4228250625), Some (355247104 / 469805625), Some (3086024704 / 4228250625), Some (3661702144 / 4228250625), Some 0], [Some (3782742016 / 4228250625), Some (355247104 / 469805625), Some (3086024704 / 4228250625), Some (3661702144 / 4228250625), Some 0]]\<rparr> = Inr \<lparr>lat = [0, 1, 2, 3, 4], lon = [0, 1, 2, 3, 4], time = Some 0, crs = Some WGS84, data = [[Some (3782742016 / 4228250625), Some (355247104 / 469805625), Some (3086024704 / 4228250625), Some (3661702144 / 4228250625), Some 0], [Some (3782742016 / 4228250625), Some (355247104 / 469805625), Some (3086024704 / 4228250625), Some (3661702144 / 4228250625), Some 0], [Some (3782742016 / 4228250625), Some (355247104 / 469805625), Some (3086024704 / 4228250625), Some (3661702144 / 4228250625), Some 0], [Some (3782742016 / 4228250625), Some (355247104 / 469805625), Some (3086024704 / 4228250625), Some (3661702144 / 4228250625), Some 0], [Some (3782742016 / 4228250625), Some (355247104 / 469805625), Some (3086024704 / 4228250625), Some (3661702144 / 4228250625), Some 0]]\<rparr>"
  unfolding far_coast_def by code_simp

lemma desc_edges:
  "rio_clip geometry_ops (geoms (aoi_edges geometry_ops shapely_ops aoi_box)) (mcrs aoi_box) True \<lparr>lat = [0, 1, 2, 3, 4], lon = [0, 1, 2, 3, 4], time = Some 0, crs = Some WGS84, data = [[Some (3782742016 / 4228250625), Some (355247104 / 469805625), Some (3086024704 / 4228250625), Some (3661702144 / 4228250625), Some 0], [Some (3782742016 / 4228250625), Some (355247104 / 469805625), Some (3086024704 / 4228250625), Some (3661702144 / 4228250625), Some 0], [Some (3782742016 / 4228250625), Some (355247104 / 469805625), Some (3086024704 / 4228250625), Some (3661702144 / 4228250625), Some 0], [Some (3782742016 / 4228250625), Some (355247104 / 469805625), Some (3086024704 / 4228250625), Some (3661702144 / 4228250625), Some 0], [Some (3782742016 / 4228250625), Some (355247104 / 469805625), Some (3086024704 / 4228250625), Some (3661702144 / 4228250625), Some 0]]\<rparr>
   = Inr \<lparr>lat = [1, 2, 3], lon = [1, 2, 3], time = Some 0, crs = Some WGS84, data = [[Some (355247104 / 469805625), Some (3086024704 / 4228250625), Some (3661702144 / 4228250625)], [Some (355247104 / 469805625), Some (3086024704 / 4228250625), Some (3661702144 / 4228250625)], [Some (355247104 / 469805625), Some (3086024704 / 4228250625), Some (3661702144 / 4228250625)]]\<rparr>"
  unfolding aoi_box_edges unfolding aoi_box_def polygon_to_gdf_def by code_simp

lemma desc_run:
  "compute_fronts_main geometry_ops shapely_ops (step_dataset (29315 / 100) (28315 / 100)) aoi_box far_coast
   = Inr \<lparr>lat = [1, 2, 3], lon = [1, 2, 3], time = Some 0, crs = Some WGS84,
          data = [[Some 1, Some 1, Some 1], [Some 1, Some 1, Some 1], [Some 1, Some 1, Some 1]]\<rparr>"
proof -
  have x: "rescale (sobel (gaussian_blur [[20, 20, 10, 10, 10], [20, 20, 10, 10, 10], [20, 20, 10, 10, 10], [20, 20, 10, 10, 10], [20, 20, 10, 10, 10]]) 0) = [[0, 0, 0, 0, 0], [0, 0, 0, 0, 0], [0, 0, 0, 0, 0], [0, 0, 0, 0, 0], [0, 0, 0, 0, 0]]"
    unfolding desc_dx by (simp add: rescale_def nanmax_def gmap_def cells_def)
  have y: "rescale (sobel (gaussian_blur [[20, 20, 10, 10, 10], [20, 20, 10, 10, 10], [20, 20, 10, 10, 10], [20, 20, 10, 10, 10], [20, 20, 10, 10, 10]]) 1) = [[61504 / 65025, 18848 / 21675, 55552 / 65025, 60512 / 65025, 0], [61504 / 65025, 18848 / 21675, 55552 / 65025, 60512 / 65025, 0], [61504 / 65025, 18848 / 21675, 55552 / 65025, 60512 / 65025, 0], [61504 / 65025, 18848 / 21675, 55552 / 65025, 60512 / 65025, 0], [61504 / 65025, 18848 / 21675, 55552 / 65025, 60512 / 65025, 0]]"
    unfolding desc_dy by (simp add: rescale_def nanmax_def gmap_def cells_def)
  have mag: "gradient_sq_magnitude [[20, 20, 10, 10, 10], [20, 20, 10, 10, 10], [20, 20, 10, 10, 10], [20, 20, 10, 10, 10], [20, 20, 10, 10, 10]] = [[3782742016 / 4228250625, 355247104 / 469805625, 3086024704 / 4228250625, 3661702144 / 4228250625, 0], [3782742016 / 4228250625, 355247104 / 469805625, 3086024704 / 4228250625, 3661702144 / 4228250625, 0], [3782742016 / 4228250625, 355247104 / 469805625, 3086024704 / 4228250625, 3661702144 / 4228250625, 0], [3782742016 / 4228250625, 355247104 / 469805625, 3086024704 / 4228250625, 3661702144 / 4228250625, 0], [3782742016 / 4228250625, 355247104 / 469805625, 3086024704 / 4228250625, 3661702144 / 4228250625, 0]]"
    unfolding gradient_sq_magnitude_def Let_def x y by (simp add: sq_norm_def gzip_def power_divide)
  have grad: "sobel_gradient_sq \<lparr>lat = [0, 1, 2, 3, 4], lon = [0, 1, 2, 3, 4], time = Some 0, crs = Some WGS84, data = [[Some 20, Some 20, Some 10, Some 10, Some 10], [Some 20, Some 20, Some 10, Some 10, Some 10], [Some 20, Some 20, Some 10, Some 10, Some 10], [Some 20, Some 20, Some 10, Some 10, Some 10], [Some 20, Some 20, Some 10, Some 10, Some 10]]\<rparr> = Inr \<lparr>lat = [0, 1, 2, 3, 4], lon = [0, 1, 2, 3, 4], time = Some 0, crs = Some WGS84, data = [[Some (3782742016 / 4228250625), Some (355247104 / 469805625), Some (3086024704 / 4228250625), Some (3661702144 / 4228250625), Some 0], [Some (3782742016 / 4228250625), Some (355247104 / 469805625), Some (3086024704 / 4228250625), Some (3661702144 / 4228250625), Some 0], [Some (3782742016 / 4228250625), Some (355247104 / 469805625), Some (3086024704 / 4228250625), Some (3661702144 / 4228250625), Some 0], [Some (3782742016 / 4228250625), Some (355247104 / 469805625), Some (3086024704 / 4228250625), Some (3661702144 / 4228250625), Some 0], [Some (3782742016 / 4228250625), Some (355247104 / 469805625), Some (3086024704 / 4228250625), Some (3661702144 / 4228250625), Some 0]]\<rparr>"
    by (simp add: sobel_gradient_sq_def Let_def desc_img mag gmap_def grid_rows_def grid_cols_def)
  show ?thesis
    unfolding compute_fronts_exec_eq compute_fronts_exec_def desc_sst rbind_Inr grad desc_coast desc_edges
    by (simp add: classify_fronts_sq_def front_cell_sq_def front_threshold_def gmap_def power_divide)
qed

subsection \<open>Uniform field, 15 degrees\<close>

lemma uni_sst:
  "get_SST_data_pydap geometry_ops aoi_box (step_dataset (28815 / 100) (28815 / 100)) = Inr \<lparr>lat = [0, 1, 2, 3, 4], lon = [0, 1, 2, 3, 4], time = Some 0, crs = Some WGS84, data = [[Some 15, Some 15, Some 15, Some 15, Some 15], [Some 15, Some 15, Some 15, Some 15, Some 15], [Some 15, Some 15, Some 15, Some 15, Some 15], [Some 15, Some 15, Some 15, Some 15, Some 15], [Some 15, Some 15, Some 15, Some 15, Some 15]]\<rparr>"
  unfolding aoi_box_def step_dataset_def by code_simp

lemma uni_img: "astype_uint8 [[Some 15, Some 15, Some 15, Some 15, Some 15], [Some 15, Some 15, Some 15, Some 15, Some 15], [Some 15, Some 15, Some 15, Some 15, Some 15], [Some 15, Some 15, Some 15, Some 15, Some 15], [Some 15, Some 15, Some 15, Some 15, Some 15]] = [[15, 15, 15, 15, 15], [15, 15, 15, 15, 15], [15, 15, 15, 15, 15], [15, 15, 15, 15, 15], [15, 15, 15, 15, 15]]"
  by code_simp

lemma uni_dx: "sobel (gaussian_blur [[15, 15, 15, 15, 15], [15, 15, 15, 15, 15], [15, 15, 15, 15, 15], [15, 15, 15, 15, 15], [15, 15, 15, 15, 15]]) 0 = [[0, 0, 0, 0, 0], [0, 0, 0, 0, 0], [0, 0, 0, 0, 0], [0, 0, 0, 0, 0], [0, 0, 0, 0, 0]]"
  by code_simp

lemma uni_dy: "sobel (gaussian_blur [[15, 15, 15, 15, 15], [15, 15, 15, 15, 15], [15, 15, 15, 15, 15], [15, 15, 15, 15, 15], [15, 15, 15, 15, 15]]) 1 = [[0, 0, 0, 0, 0], [0, 0, 0, 0, 0], [0, 0, 0, 0, 0], [0, 0, 0, 0, 0], [0, 0, 0, 0, 0]]"
  by code_simp

lemma uni_coast:
  "rio_clip geometry_ops (geoms far_coast) (mcrs far_coast) True \<lparr>lat = [0, 1, 2, 3, 4], lon = [0, 1, 2, 3, 4], time = Some 0, crs = Some WGS84, data = [[Some 0, Some 0, Some 0, Some 0, Some 0], [Some 0, Some 0, Some 0, Some 0, Some 0], [Some 0, Some 0, Some 0, Some 0, Some 0], [Some 0, Some 0, Some 0, Some 0, Some 0], [Some 0, Some 0, Some 0, Some 0, Some 0]]\<rparr> = Inr \<lparr>lat = [0, 1, 2, 3, 4], lon = [0, 1, 2, 3, 4], time = Some 0, crs = Some WGS84, data = [[Some 0, Some 0, Some 0, Some 0, Some 0], [Some 0, Some 0, Some 0, Some 0, Some 0], [Some 0, Some 0, Some 0, Some 0, Some 0], [Some 0, Some 0, Some 0, Some 0, Some 0], [Some 0, Some 0, Some 0, Some 0, Some 0]]\<rparr>"
  unfolding far_coast_def by code_simp

lemma uni_edges:
  "rio_clip geometry_ops (geoms (aoi_edges geometry_ops shapely_ops aoi_box)) (mcrs aoi_box) True \<lparr>lat = [0, 1, 2, 3, 4], lon = [0, 1, 2, 3, 4], time = Some 0, crs = Some WGS84, data = [[Some 0, Some 0, Some 0, Some 0, Some 0], [Some 0, Some 0, Some 0, Some 0, Some 0], [Some 0, Some 0, Some 0, Some 0, Some 0], [Some 0, Some 0, Some 0, Some 0, Some 0], [Some 0, Some 0, Some 0, Some 0, Some 0]]\<rparr>
   = Inr \<lparr>lat = [1, 2, 3], lon = [1, 2, 3], time = Some 0, crs = Some WGS84, data = [[Some 0, Some 0, Some 0], [Some 0, Some 0, Some 0], [Some 0, Some 0, Some 0]]\<rparr>"
  unfolding aoi_box_edges unfolding aoi_box_def polygon_to_gdf_def by code_simp

lemma uni_run:
  "compute_fronts_main geometry_ops shapely_ops (step_dataset (28815 / 100) (28815 / 100)) aoi_box far_coast
   = Inr \<lparr>lat = [1, 2, 3], lon = [1, 2, 3], time = Some 0, crs = Some WGS84,
          data = [[None, None, None], [None, None, None], [None, None, None]]\<rparr>"
proof -
  have x: "rescale (sobel (gaussian_blur [[15, 15, 15, 15, 15], [15, 15, 15, 15, 15], [15, 15, 15, 15, 15], [15, 15, 15, 15, 15], [15, 15, 15, 15, 15]]) 0) = [[0, 0, 0, 0, 0], [0, 0, 0, 0, 0], [0, 0, 0, 0, 0], [0, 0, 0, 0, 0], [0, 0, 0, 0, 0]]"
    unfolding uni_dx by (simp add: rescale_def nanmax_def gmap_def cells_def)
  have y: "rescale (sobel (gaussian_blur [[15, 15, 15, 15, 15], [15, 15, 15, 15, 15], [15, 15, 15, 15, 15], [15, 15, 15, 15, 15], [15, 15, 15, 15, 15]]) 1) = [[0, 0, 0, 0, 0], [0, 0, 0, 0, 0], [0, 0, 0, 0, 0], [0, 0, 0, 0, 0], [0, 0, 0, 0, 0]]"
    unfolding uni_dy by (simp add: rescale_def nanmax_def gmap_def cells_def)
  have mag: "gradient_sq_magnitude [[15, 15, 15, 15, 15], [15, 15, 15, 15, 15], [15, 15, 15, 15, 15], [15, 15, 15, 15, 15], [15, 15, 15, 15, 15]] = [[0, 0, 0, 0, 0], [0, 0, 0, 0, 0], [0, 0, 0, 0, 0], [0, 0, 0, 0, 0], [0, 0, 0, 0, 0]]"
    unfolding gradient_sq_magnitude_def Let_def x y by (simp add: sq_norm_def gzip_def power_divide)
  have grad: "sobel_gradient_sq \<lparr>lat = [0, 1, 2, 3, 4], lon = [0, 1, 2, 3, 4], time = Some 0, crs = Some WGS84, data = [[Some 15, Some 15, Some 15, Some 15, Some 15], [Some 15, Some 15, Some 15, Some 15, Some 15], [Some 15, Some 15, Some 15, Some 15, Some 15], [Some 15, Some 15, Some 15, Some 15, Some 15], [Some 15, Some 15, Some 15, Some 15, Some 15]]\<rparr> = Inr \<lparr>lat = [0, 1, 2, 3, 4], lon = [0, 1, 2, 3, 4], time = Some 0, crs = Some WGS84, data = [[Some 0, Some 0, Some 0, Some 0, Some 0], [Some 0, Some 0, Some 0, Some 0, Some 0], [Some 0, Some 0, Some 0, Some 0, Some 0], [Some 0, Some 0, Some 0, Some 0, Some 0], [Some 0, Some 0, Some 0, Some 0, Some 0]]\<rparr>"
    by (simp add: sobel_gradient_sq_def Let_def uni_img mag gmap_def grid_rows_def grid_cols_def)
  show ?thesis
    unfolding compute_fronts_exec_eq compute_fronts_exec_def uni_sst rbind_Inr grad uni_coast uni_edges
    by (simp add: classify_fronts_sq_def front_cell_sq_def front_threshold_def gmap_def power_divide)
qed

end
