(* ===== verification/Spec2Isabelle.thy ===== *)
theory Spec2Isabelle
  imports Scenarios
begin

text \<open>
  \<^bold>\<open>A verification model of the SST front detector\<close>
  (src/fronts_module/compute_fronts_functions.py and
  src/fronts_module/input_data_functions.py).

  \<^bold>\<open>The program.\<close> \<open>compute_fronts_main\<close> loads the first time slice of a sea
  surface temperature dataset clipped to an area of interest (\<open>get_SST_data_pydap\<close>),
  computes a gradient magnitude with \<open>sobel_gradient\<close> (cast to \<open>uint8\<close>,
  \<open>cv.GaussianBlur\<close>, two \<open>ndimage.sobel\<close> derivatives, a rescaling of each by
  \<open>/255\<close> and its own \<open>np.nanmax\<close>, \<open>np.hypot\<close>), removes the cells inside a
  coastline buffer and inside a 30 km buffer around the AOI boundary with two inverted
  \<open>rio.clip\<close> calls, and marks the cells above 0.2 with 1 and all others NaN. The
  input functions select the time range of the remote collection (\<open>opendap_data\<close>),
  cut the coastline to the AOI (\<open>get_coastline\<close>) and buffer it
  (\<open>get_coast_buffer\<close>, which reprojects its argument in place). The stages are pure
  functions of their inputs apart from that in-place update, which the model returns
  as the argument's new state.

  \<^bold>\<open>The theories.\<close>
  \<^item> Prelude: grids (\<open>'a grid\<close>, a list of rows, for 2-D numpy arrays), bytes
    (\<open>u8 = 8 word\<close> for \<open>np.uint8\<close>), the error type of the library exceptions
    and the error monad \<open>rbind\<close>, shared lemmas on grids and bytes.
  \<^item> Raster: the \<open>DataArray\<close> as a record (\<open>lat\<close>, \<open>lon\<close>, \<open>time\<close>,
    \<open>crs\<close>, \<open>data\<close>) and its shape invariant \<open>raster_wf\<close>.
  \<^item> Quantize: \<open>astype(np.uint8)\<close> (line 74), truncation toward zero with the
    x86-64 wrap-around, NaN to 0; an offset whose fractional part causes no carry
    shifts every byte by its whole part.
  \<^item> Blur: \<open>cv.GaussianBlur(img, (3,3), 0)\<close> (line 75) as OpenCV's separable
    fixed-point filter with \<open>BORDER_REFLECT_101\<close>; it is the rounded 2-D kernel, never
    overflows a byte, and commutes with adding a constant that does not overflow.
  \<^item> Sobel: \<open>ndimage.sobel\<close> (lines 76-77) as two \<open>correlate1d\<close> passes in
    \<open>uint8\<close> with mode \<open>'reflect'\<close>; it computes the Sobel response modulo 256,
    is zero on constant images and invariant under adding a constant.
  \<^item> Gradient: \<open>sobel_gradient\<close> (lines 55-93) with its three error exits, the
    rescaling and the magnitude; the specification's magnitude (signed derivatives)
    that it refines when no derivative wraps; invariance under offsets without a
    fractional carry; a square-root-free executable variant.
  \<^item> Clip: rioxarray's \<open>clip\<close> with \<open>drop=True\<close>, over an interface record
    \<open>geo_ops\<close> for the geometry library (point coverage of cell centres and
    reprojection): masking, the data window crop, the three error exits;
    characterisation of a successful clip, idempotence, value-blindness.
  \<^item> Classify: the two \<open>where\<close> statements (lines 45-46).
  \<^item> Searchsorted: numpy's \<open>searchsorted\<close>, through which the label slice of
    line 39 of input_data_functions.py finds its bounds, as its bisection loop
    (\<open>bisect_step\<close> under \<open>while\<close>): it ends after at most \<open>log2 n + 1\<close>
    probes on every input, computes the length of the prefix passing a prefix-closed
    probe, and on a sorted index the counts of entries below and not above a bound.
  \<^item> Input: the dataset loaders of input_data_functions.py and the time selection of
    \<open>opendap_data\<close> (binary search on the time axis, equal to a range filter).
  \<^item> Overlay: \<open>gpd.overlay(..., how='intersection')\<close> of \<open>get_coastline\<close>,
    over a second interface \<open>vector_ops\<close> for shapely (buffer, boundary,
    intersection, geometry family, parts of a collection, bounding box): the
    mixed-family check (\<open>NotImplementedError\<close>), the empty result for frames with
    disjoint total bounds, the pairwise intersections, and the default
    \<open>keep_geom_type\<close> filter (\<open>TypeError\<close> for a collection); the family of
    its results.
  \<^item> Vector: \<open>to_crs\<close>, \<open>get_coastline\<close> (which fails when the overlay does),
    \<open>get_coast_buffer\<close> (its in-place reprojection and the buffer frame it
    returns) and the AOI-edge buffer of line 37.
  \<^item> Pipeline: \<open>compute_fronts_main\<close>, its executable refinement, and the
    decomposition of a successful run into its stages.
  \<^item> Geometry: a concrete implementation of both interfaces (polygons, boxes, rings,
    buffers, their families and bounding boxes, a planar scaling stand-in for
    EPSG:3035) for running the model.
  \<^item> Scenarios: the scenarios of section 8 of the specification run through
    \<open>compute_fronts_main\<close> on 5x5 grids, as examples behind the findings.
  \<^item> This theory: properties of the whole pipeline: where front cells can be,
    uniform fields, the type of the result, the conditions under which the pipeline
    returns a raster (a cell in the AOI and outside both exclusion buffers suffices,
    and it is in the result), the day processed after \<open>opendap_data\<close>'s time
    selection (the first slice at or after the start date), and two inputs on which it
    raises.

  \<^bold>\<open>Modelling choices.\<close> Float values that the code computes in float64 after the
  \<open>uint8\<close> stages (rescaling, \<open>hypot\<close>, the threshold) are reals; the
  \<open>uint8\<close> stages, where the program's behaviour depends on the width, are exact
  8-bit words. NaN is \<open>None\<close>. Times are integer seconds. The geometry libraries
  (shapely, rasterio's rasterisation, pyproj) are the interface records \<open>geo_ops\<close>
  and \<open>vector_ops\<close>; every lemma outside theories Geometry and Scenarios holds for
  any implementation of them. Every loop of the program is structural recursion or a
  fold over a finite list, except numpy's bisection in \<open>searchsorted\<close>: it is a
  \<open>while\<close> loop, and theory Searchsorted proves with the measure \<open>hi - lo\<close> that
  \<open>while_option\<close> returns on it, so no fuel is needed anywhere.

  \<^bold>\<open>Not modelled.\<close> The CAS login and OPeNDAP transport of \<open>opendap_data\<close>,
  \<open>xr.open_dataset\<close> and \<open>gpd.read_file\<close> (their results are arguments),
  floating-point rounding of the real-valued stages, pyproj's actual LAEA projection
  (the planar stand-in only serves the concrete runs), the repair of invalid polygons
  (\<open>make_valid\<close>) in geopandas' overlay, the \<open>'buffer'\<close> column \<open>get_coast_buffer\<close> adds to
  its argument, and rioxarray's transform computation for rasters with a single row or
  column: it cannot derive a resolution from one coordinate and tests the geometries
  against pixel indices instead of coordinates. The model of \<open>rio.clip\<close>, and with
  it the statements about clipped rasters such as \<open>compute_fronts_main_succeeds\<close>,
  is faithful for rasters of at least two rows and two columns.
\<close>

section \<open>Properties of the whole pipeline\<close>

text \<open>
  C2: every front cell (value 1) of \<open>compute_fronts_main\<close>'s result has its centre
  outside every coastline-buffer geometry and outside every AOI-edge geometry, each
  taken in WGS84, the CRS \<open>sobel_gradient\<close> gives the gradient raster.
\<close>

theorem front_cells_outside_masks:
  assumes ok: "compute_fronts_main ops vops ds aoi_gdf coast_buffer = Inr r"
    and ij: "i < length (lat r)" "j < length (lon r)" and front: "data r ! i ! j = Some 1"
  shows "\<not> list_ex (\<lambda>g. covers ops g (lon r ! j) (lat r ! i))
             (clip_geoms ops (geoms coast_buffer) (mcrs coast_buffer) WGS84)
         \<and> \<not> list_ex (\<lambda>g. covers ops g (lon r ! j) (lat r ! i))
             (clip_geoms ops (geoms (aoi_edges ops vops aoi_gdf)) (mcrs aoi_gdf) WGS84)"
proof -
  obtain s g c1 c2 where sg: "sobel_gradient s = Inr g"
    and k1: "rio_clip ops (geoms coast_buffer) (mcrs coast_buffer) True g = Inr c1"
    and k2: "rio_clip ops (geoms (aoi_edges ops vops aoi_gdf)) (mcrs aoi_gdf) True c1 = Inr c2"
    and r: "r = classify_fronts c2"
    using ok by (rule compute_fronts_main_InrE)
  have g: "raster_wf g" "crs g = Some WGS84" using sobel_gradient_Inr_wf [OF sg] by simp_all
  obtain rc r0 c0 where rc: "crs g = Some rc" and c1: "crs c1 = Some rc" "raster_wf c1"
    and bl1: "r0 + length (lat c1) \<le> length (lat g)" "c0 + length (lon c1) \<le> length (lon g)"
    and cell1: "\<And>i j. i < length (lat c1) \<Longrightarrow> j < length (lon c1) \<Longrightarrow>
       data c1 ! i ! j = (if kept ops (clip_geoms ops (geoms coast_buffer) (mcrs coast_buffer) rc) True
                                   (lon c1 ! j) (lat c1 ! i) then data g ! (r0 + i) ! (c0 + j) else None)"
    using rio_clip_Inr [OF k1 g(1)] by metis
  have rc1: "rc = WGS84" using rc g(2) by simp
  obtain rc' r0' c0' where rc': "crs c1 = Some rc'" and wf2: "raster_wf c2"
    and bl2: "r0' + length (lat c2) \<le> length (lat c1)" "c0' + length (lon c2) \<le> length (lon c1)"
    and lat2: "\<And>i. i < length (lat c2) \<Longrightarrow> lat c2 ! i = lat c1 ! (r0' + i)"
    and lon2: "\<And>j. j < length (lon c2) \<Longrightarrow> lon c2 ! j = lon c1 ! (c0' + j)"
    and cell2: "\<And>i j. i < length (lat c2) \<Longrightarrow> j < length (lon c2) \<Longrightarrow>
       data c2 ! i ! j = (if kept ops (clip_geoms ops (geoms (aoi_edges ops vops aoi_gdf)) (mcrs aoi_gdf) rc') True
                                   (lon c2 ! j) (lat c2 ! i) then data c1 ! (r0' + i) ! (c0' + j) else None)"
    using rio_clip_Inr [OF k2 c1(2)] by metis
  have rc2: "rc' = WGS84" using rc' c1(1) rc1 by simp
  have ij2: "i < length (lat c2)" "j < length (lon c2)" using ij r by simp_all
  have "data c2 ! i ! j \<noteq> None"
    using front r ij2 wf2
    by (auto simp: classify_fronts_data front_cell_def gmap_cell raster_wf_rows raster_wf_row_length
             split: option.splits)
  then have e: "kept ops (clip_geoms ops (geoms (aoi_edges ops vops aoi_gdf)) (mcrs aoi_gdf) WGS84) True
                  (lon c2 ! j) (lat c2 ! i)"
    and v: "data c1 ! (r0' + i) ! (c0' + j) \<noteq> None"
    using cell2 [OF ij2] rc2 by (auto split: if_splits)
  have ij1: "r0' + i < length (lat c1)" "c0' + j < length (lon c1)" using ij2 bl2 by simp_all
  have "kept ops (clip_geoms ops (geoms coast_buffer) (mcrs coast_buffer) WGS84) True
          (lon c1 ! (c0' + j)) (lat c1 ! (r0' + i))"
    using cell1 [OF ij1] v rc1 by (auto split: if_splits)
  then show ?thesis using e r lat2 [OF ij2(1)] lon2 [OF ij2(2)] by (simp add: kept_def)
qed

theorem front_cells_outside_masks_witness:
  "compute_fronts_main geometry_ops shapely_ops (step_dataset (29315 / 100) (28315 / 100)) aoi_box far_coast
   = Inr \<lparr>lat = [1, 2, 3], lon = [1, 2, 3], time = Some 0, crs = Some WGS84,
          data = [[Some 1, Some 1, Some 1], [Some 1, Some 1, Some 1], [Some 1, Some 1, Some 1]]\<rparr>
   \<and> \<not> list_ex (\<lambda>g. covers geometry_ops g 2 2)
         (clip_geoms geometry_ops (geoms (aoi_edges geometry_ops shapely_ops aoi_box)) (mcrs aoi_box) WGS84)"
proof -
  let ?r = "\<lparr>lat = [1, 2, 3], lon = [1, 2, 3], time = Some 0, crs = Some WGS84,
             data = [[Some 1, Some 1, Some 1], [Some 1, Some 1, Some 1], [Some (1::real), Some 1, Some 1]]\<rparr>"
  have "\<not> list_ex (\<lambda>g. covers geometry_ops g (lon ?r ! 1) (lat ?r ! 1))
            (clip_geoms geometry_ops (geoms far_coast) (mcrs far_coast) WGS84)
        \<and> \<not> list_ex (\<lambda>g. covers geometry_ops g (lon ?r ! 1) (lat ?r ! 1))
            (clip_geoms geometry_ops (geoms (aoi_edges geometry_ops shapely_ops aoi_box)) (mcrs aoi_box) WGS84)"
    by (rule front_cells_outside_masks [OF desc_run]) simp_all
  then show ?thesis using desc_run by simp
qed

text \<open>
  C8: a uniform temperature field yields no fronts: when the clipped SST raster has the
  same value in every cell, the gradient raster is zero everywhere and every cell of
  \<open>compute_fronts_main\<close>'s result is NaN.
\<close>

theorem uniform_field_no_fronts:
  assumes sst: "get_SST_data_pydap ops aoi_gdf ds = Inr s" and wf: "raster_wf s"
    and c: "\<forall>i<length (lat s). \<forall>j<length (lon s). data s ! i ! j = Some c"
    and ok: "compute_fronts_main ops vops ds aoi_gdf coast_buffer = Inr r"
  shows "\<forall>i<length (lat r). \<forall>j<length (lon r). data r ! i ! j = None"
proof -
  obtain s' g c1 c2 where s': "get_SST_data_pydap ops aoi_gdf ds = Inr s'" and sg: "sobel_gradient s' = Inr g"
    and k1: "rio_clip ops (geoms coast_buffer) (mcrs coast_buffer) True g = Inr c1"
    and k2: "rio_clip ops (geoms (aoi_edges ops vops aoi_gdf)) (mcrs aoi_gdf) True c1 = Inr c2"
    and r: "r = classify_fronts c2"
    using ok by (rule compute_fronts_main_InrE)
  have ss: "s' = s" using s' sst by simp
  have ne: "lat s \<noteq> []" "lon s \<noteq> []" "time s \<noteq> None"
    using sg ss wf by (auto simp: sobel_gradient_wf split: if_splits)
  have g: "g = \<lparr>lat = lat s, lon = lon s, time = time s, crs = Some WGS84,
                 data = gmap Some (gen_grid (length (lat s)) (length (lon s)) (\<lambda>_ _. 0))\<rparr>"
    using sg ss wf ne by (simp add: sobel_gradient_wf gradient_magnitude_uniform [OF wf c])
  have gwf: "raster_wf g" using sobel_gradient_Inr_wf [OF sg] by simp
  have "\<forall>i<length (lat g). \<forall>j<length (lon g). front_cell (data g ! i ! j) = None"
    by (simp add: g front_cell_def front_threshold_def gmap_def)
  then have a1: "\<forall>i<length (lat c1). \<forall>j<length (lon c1). front_cell (data c1 ! i ! j) = None"
    by (rule rio_clip_cells [OF k1 gwf, of "\<lambda>v. front_cell v = None"]) (simp add: front_cell_def)
  have wf1: "raster_wf c1" using rio_clip_Inr [OF k1 gwf] by metis
  have "\<forall>i<length (lat c2). \<forall>j<length (lon c2). front_cell (data c2 ! i ! j) = None"
    by (rule rio_clip_cells [where P = "\<lambda>v. front_cell v = None", OF k2 wf1 a1]) (simp add: front_cell_def)
  moreover have "raster_wf c2" using rio_clip_Inr [OF k2 wf1] by metis
  ultimately show ?thesis
    using r by (simp add: classify_fronts_data gmap_cell raster_wf_rows raster_wf_row_length)
qed

theorem uniform_field_no_fronts_witness:
  "get_SST_data_pydap geometry_ops aoi_box (step_dataset (28815 / 100) (28815 / 100))
   = Inr \<lparr>lat = [0, 1, 2, 3, 4], lon = [0, 1, 2, 3, 4], time = Some 0, crs = Some WGS84,
          data = replicate 5 (replicate 5 (Some 15))\<rparr>
   \<and> compute_fronts_main geometry_ops shapely_ops (step_dataset (28815 / 100) (28815 / 100)) aoi_box far_coast
     = Inr \<lparr>lat = [1, 2, 3], lon = [1, 2, 3], time = Some 0, crs = Some WGS84,
            data = replicate 3 (replicate 3 None)\<rparr>
   \<and> data \<lparr>lat = [1 :: real, 2, 3], lon = [1 :: real, 2, 3], time = Some 0, crs = Some WGS84,
            data = replicate 3 (replicate 3 (None :: real option))\<rparr> ! 1 ! 1 = None"
proof -
  let ?s = "\<lparr>lat = [0, 1, 2, 3, 4], lon = [0, 1, 2, 3, 4], time = Some 0, crs = Some WGS84,
             data = replicate 5 (replicate 5 (Some (15::real)))\<rparr>"
  have sst: "get_SST_data_pydap geometry_ops aoi_box (step_dataset (28815 / 100) (28815 / 100)) = Inr ?s"
    using uni_sst by (simp add: numeral_eq_Suc)
  have run: "compute_fronts_main geometry_ops shapely_ops (step_dataset (28815 / 100) (28815 / 100)) aoi_box far_coast
             = Inr \<lparr>lat = [1, 2, 3], lon = [1, 2, 3], time = Some 0, crs = Some WGS84,
                    data = replicate 3 (replicate 3 None)\<rparr>"
    using uni_run by (simp add: numeral_eq_Suc)
  have wf: "raster_wf ?s" by (simp add: raster_wf_def grid_shape_def list_all_iff)
  have c: "\<forall>i<length (lat ?s). \<forall>j<length (lon ?s). data ?s ! i ! j = Some 15" by simp
  have "\<forall>i<3. \<forall>j<3. data \<lparr>lat = [1 :: real, 2, 3], lon = [1 :: real, 2, 3], time = Some 0, crs = Some WGS84,
                         data = replicate 3 (replicate 3 (None :: real option))\<rparr> ! i ! j = None"
    using uniform_field_no_fronts [OF sst wf c run] by simp
  then show ?thesis using sst run by simp
qed

text \<open>
  C17: the result of \<open>compute_fronts_main\<close> is a Front Raster: well-formed, in WGS84,
  with only the values 1 and NaN.
\<close>

theorem front_raster_type:
  assumes ok: "compute_fronts_main ops vops ds aoi_gdf coast_buffer = Inr r"
  shows "raster_wf r \<and> crs r = Some WGS84 \<and> set (cells (data r)) \<subseteq> {Some 1, None}"
proof -
  obtain s g c1 c2 where sg: "sobel_gradient s = Inr g"
    and k1: "rio_clip ops (geoms coast_buffer) (mcrs coast_buffer) True g = Inr c1"
    and k2: "rio_clip ops (geoms (aoi_edges ops vops aoi_gdf)) (mcrs aoi_gdf) True c1 = Inr c2"
    and r: "r = classify_fronts c2"
    using ok by (rule compute_fronts_main_InrE)
  have g: "raster_wf g" "crs g = Some WGS84" using sobel_gradient_Inr_wf [OF sg] by simp_all
  have c1: "raster_wf c1" "crs c1 = Some WGS84" using rio_clip_Inr [OF k1 g(1)] g(2) by metis+
  have c2: "raster_wf c2" "crs c2 = Some WGS84" using rio_clip_Inr [OF k2 c1(1)] c1(2) by metis+
  have "set (cells (data r)) \<subseteq> {Some 1, None}"
    using front_cell_cases by (auto simp: r classify_fronts_data set_cells_gmap)
  then show ?thesis using c2 by (simp add: r raster_wf_def classify_fronts_data)
qed

theorem front_raster_type_witness:
  "compute_fronts_main geometry_ops shapely_ops (step_dataset (29315 / 100) (28315 / 100)) aoi_box far_coast
   = Inr \<lparr>lat = [1, 2, 3], lon = [1, 2, 3], time = Some 0, crs = Some WGS84,
          data = [[Some 1, Some 1, Some 1], [Some 1, Some 1, Some 1], [Some 1, Some 1, Some 1]]\<rparr>
   \<and> raster_wf \<lparr>lat = [1 :: real, 2, 3], lon = [1 :: real, 2, 3], time = Some 0, crs = Some WGS84,
          data = [[Some 1, Some 1, Some 1], [Some 1, Some 1, Some 1], [Some (1 :: real), Some 1, Some 1]]\<rparr>"
  using front_raster_type [OF desc_run] desc_run by simp

text \<open>
  C3: \<open>compute_fronts_main\<close> returns a Front Raster rather than raising whenever the
  first slice is well-shaped, the AOI and the coastline buffer frames are not empty,
  and some cell centre of the dataset lies in the AOI, outside the coastline buffer
  and outside the 30 km buffer of the AOI's boundary; that cell is in the result.
\<close>

theorem compute_fronts_main_succeeds:
  assumes sl: "ds_slices ds = (t, g) # rest"
    and shp: "grid_shape (length (ds_lat ds)) (length (ds_lon ds)) g"
    and ne: "geoms aoi_gdf \<noteq> []" "geoms coast_buffer \<noteq> []"
    and ij: "i < length (ds_lat ds)" "j < length (ds_lon ds)"
    and inside: "list_ex (\<lambda>geo. covers ops geo (ds_lon ds ! j) (ds_lat ds ! i))
                   (clip_geoms ops (geoms aoi_gdf) (mcrs aoi_gdf) WGS84)"
    and offcoast: "\<not> list_ex (\<lambda>geo. covers ops geo (ds_lon ds ! j) (ds_lat ds ! i))
                   (clip_geoms ops (geoms coast_buffer) (mcrs coast_buffer) WGS84)"
    and offedge: "\<not> list_ex (\<lambda>geo. covers ops geo (ds_lon ds ! j) (ds_lat ds ! i))
                   (clip_geoms ops (geoms (aoi_edges ops vops aoi_gdf)) (mcrs aoi_gdf) WGS84)"
  shows "\<exists>r. compute_fronts_main ops vops ds aoi_gdf coast_buffer = Inr r
             \<and> (\<exists>i'<length (lat r). \<exists>j'<length (lon r). lat r ! i' = ds_lat ds ! i \<and> lon r ! j' = ds_lon ds ! j)"
proof -
  let ?x = "ds_lon ds ! j" and ?y = "ds_lat ds ! i"
  define fs where "fs = \<lparr>lat = ds_lat ds, lon = ds_lon ds, time = Some t, crs = None, data = g\<rparr>"
  define r0 where "r0 = write_crs WGS84 (kelvin_to_celsius fs)"
  have f: "first_slice ds = Inr fs" using sl by (simp add: first_slice_def fs_def)
  have r0: "raster_wf r0" "crs r0 = Some WGS84" "lat r0 = ds_lat ds" "lon r0 = ds_lon ds" "time r0 = Some t"
    using shp by (simp_all add: r0_def fs_def write_crs_def kelvin_to_celsius_def raster_wf_def)
  obtain s where s: "rio_clip ops (geoms aoi_gdf) (mcrs aoi_gdf) False r0 = Inr s" and wfs: "raster_wf s"
    and st: "crs s = Some WGS84" "time s = Some t"
    and cs: "\<exists>i'<length (lat s). \<exists>j'<length (lon s). lat s ! i' = ?y \<and> lon s ! j' = ?x"
    using rio_clip_keeps_cell [where ops = ops and gcrs = "mcrs aoi_gdf" and iv = False and i = i and j = j, OF r0(2) ne(1) r0(1)] ij inside r0 by (auto simp: kept_def)
  have sst: "get_SST_data_pydap ops aoi_gdf ds = Inr s"
    using s by (simp add: get_SST_data_pydap_def f r0_def [symmetric])
  obtain i1 j1 where ij1: "i1 < length (lat s)" "j1 < length (lon s)" "lat s ! i1 = ?y" "lon s ! j1 = ?x"
    using cs by blast
  define G where "G = \<lparr>lat = lat s, lon = lon s, time = time s, crs = Some WGS84,
                       data = gmap Some (gradient_magnitude (astype_uint8 (data s)))\<rparr>"
  have sob: "sobel_gradient s = Inr G"
    using sobel_gradient_wf [OF wfs] ij1 st by (auto simp: G_def)
  have G: "raster_wf G" "crs G = Some WGS84" using sobel_gradient_Inr_wf [OF sob] by simp_all
  obtain c1 where c1: "rio_clip ops (geoms coast_buffer) (mcrs coast_buffer) True G = Inr c1"
    and wf1: "raster_wf c1" and st1: "crs c1 = Some WGS84"
    and cs1: "\<exists>i'<length (lat c1). \<exists>j'<length (lon c1). lat c1 ! i' = ?y \<and> lon c1 ! j' = ?x"
    using rio_clip_keeps_cell [where ops = ops and gcrs = "mcrs coast_buffer" and iv = True and i = i1 and j = j1, OF G(2) ne(2) G(1)] ij1 offcoast G by (auto simp: kept_def G_def)
  obtain i2 j2 where ij2: "i2 < length (lat c1)" "j2 < length (lon c1)" "lat c1 ! i2 = ?y" "lon c1 ! j2 = ?x"
    using cs1 by blast
  have ne3: "geoms (aoi_edges ops vops aoi_gdf) \<noteq> []" using ne(1) by (simp add: aoi_edges_def to_crs_def)
  obtain c2 where c2: "rio_clip ops (geoms (aoi_edges ops vops aoi_gdf)) (mcrs aoi_gdf) True c1 = Inr c2"
    and cs2: "\<exists>i'<length (lat c2). \<exists>j'<length (lon c2). lat c2 ! i' = ?y \<and> lon c2 ! j' = ?x"
    using rio_clip_keeps_cell [where ops = ops and gcrs = "mcrs aoi_gdf" and iv = True and i = i2 and j = j2, OF st1 ne3 wf1] ij2 offedge st1 by (auto simp: kept_def)
  have "compute_fronts_main ops vops ds aoi_gdf coast_buffer = Inr (classify_fronts c2)"
    by (simp add: compute_fronts_main_def sst sob c1 c2)
  then show ?thesis using cs2 by auto
qed

theorem compute_fronts_main_succeeds_witness:
  "\<exists>r. compute_fronts_main geometry_ops shapely_ops (step_dataset 290 280) aoi_box far_coast = Inr r
       \<and> (\<exists>i'<length (lat r). \<exists>j'<length (lon r). lat r ! i' = 2 \<and> lon r ! j' = 2)"
proof -
  let ?ds = "step_dataset 290 280"
  have sl: "ds_slices ?ds = (0, replicate 5 [Some 290, Some 290, Some 280, Some 280, Some 280]) # []"
    by (simp add: step_dataset_def)
  have shp: "grid_shape (length (ds_lat ?ds)) (length (ds_lon ?ds)) (replicate 5 [Some (290 :: real), Some 290, Some 280, Some 280, Some 280])"
    unfolding step_dataset_def by code_simp
  have ne: "geoms aoi_box \<noteq> []" "geoms far_coast \<noteq> []" by (simp_all add: aoi_box_def polygon_to_gdf_def far_coast_def)
  have ij: "2 < length (ds_lat ?ds)" "2 < length (ds_lon ?ds)" by (simp_all add: step_dataset_def)
  have ins: "list_ex (\<lambda>geo. covers geometry_ops geo (ds_lon ?ds ! 2) (ds_lat ?ds ! 2))
               (clip_geoms geometry_ops (geoms aoi_box) (mcrs aoi_box) WGS84)"
    by (simp add: step_dataset_def aoi_box_def polygon_to_gdf_def clip_geoms_def geometry_ops_def)
  have off: "\<not> list_ex (\<lambda>geo. covers geometry_ops geo (ds_lon ?ds ! 2) (ds_lat ?ds ! 2))
               (clip_geoms geometry_ops (geoms far_coast) (mcrs far_coast) WGS84)"
    by (simp add: step_dataset_def far_coast_def clip_geoms_def geometry_ops_def)
  have edge: "\<not> list_ex (\<lambda>geo. covers geometry_ops geo (ds_lon ?ds ! 2) (ds_lat ?ds ! 2))
               (clip_geoms geometry_ops (geoms (aoi_edges geometry_ops shapely_ops aoi_box)) (mcrs aoi_box) WGS84)"
    unfolding aoi_box_edges by (simp add: step_dataset_def aoi_box_def polygon_to_gdf_def clip_geoms_def
        geometry_ops_def seg_sqdist_def Let_def power2_eq_square)
  show ?thesis
    using compute_fronts_main_succeeds [OF sl shp ne ij ins off edge] by (simp add: step_dataset_def)
qed

text \<open>
  C23: the day the program processes: on an increasing time axis,
  \<open>compute_fronts_main\<close> applied to the collection selected by \<open>opendap_data\<close>
  computes the fronts of the first slice at or after \<open>start_date\<close> alone, provided
  it is no later than \<open>end_date\<close> plus one day, and raises \<open>IndexError\<close> otherwise.
\<close>

theorem opendap_first_day:
  assumes "sorted (map fst (ds_slices remote))"
  shows "compute_fronts_main ops vops (opendap_data remote start_date end_date) aoi_gdf coast_buffer
         = (case dropWhile (\<lambda>(t, _). t < start_date) (ds_slices remote) of
              [] \<Rightarrow> Inl IndexError
            | (t, g) # _ \<Rightarrow> if t \<le> end_date + 86400
                             then compute_fronts_main ops vops (remote\<lparr>ds_slices := [(t, g)]\<rparr>) aoi_gdf coast_buffer
                             else Inl IndexError)"
proof -
  let ?D = "opendap_data remote start_date end_date"
  have rec: "?D = remote\<lparr>ds_slices := ds_slices ?D\<rparr>" by (simp add: opendap_data_def Let_def)
  have "compute_fronts_main ops vops ?D aoi_gdf coast_buffer
        = (case ds_slices ?D of [] \<Rightarrow> Inl IndexError
           | x # _ \<Rightarrow> compute_fronts_main ops vops (remote\<lparr>ds_slices := [x]\<rparr>) aoi_gdf coast_buffer)"
  proof (cases "ds_slices ?D")
    case (Cons x rest)
    then show ?thesis using compute_fronts_main_slices(2) [OF Cons] rec by (metis list.simps(5) ext_inject
        dataset.surjective dataset.update_convs(3))
  qed (simp add: compute_fronts_main_slices(1))
  then show ?thesis using sorted_window_head [OF assms] by (simp add: opendap_data_slices [OF assms])
qed

theorem opendap_first_day_witness:
  "sorted (map fst [(0 :: int, [[Some (290 :: real)]]), (86400, [[Some 291]]), (172800, [[Some 292]])])
   \<and> compute_fronts_main geometry_ops shapely_ops
       (opendap_data \<lparr>ds_lat = [0], ds_lon = [0], ds_slices = [(0, [[Some 290]]), (86400, [[Some 291]]), (172800, [[Some 292]])]\<rparr> 1 0)
       aoi_box far_coast
     = compute_fronts_main geometry_ops shapely_ops
         \<lparr>ds_lat = [0], ds_lon = [0], ds_slices = [(86400, [[Some 291]])]\<rparr> aoi_box far_coast"
  using opendap_first_day [of "\<lparr>ds_lat = [0], ds_lon = [0], ds_slices = [(0, [[Some 290]]), (86400, [[Some 291]]), (172800, [[Some 292]])]\<rparr>"
      geometry_ops shapely_ops 1 0 aoi_box far_coast]
  by simp

section \<open>Failures of the whole pipeline\<close>

text \<open>
  C18: an AOI without coastline, whose coastline buffer frame is empty, makes
  \<open>compute_fronts_main\<close> fail with the \<open>ValueError\<close> of an empty geometry list
  at line 34 whenever the SST slice loads: the specification says a clip against an
  empty geometry set yields an all-no-data raster and is not an error.
\<close>

theorem empty_coast_buffer_fails:
  assumes sst: "get_SST_data_pydap ops aoi_gdf ds = Inr s" and wf: "raster_wf s"
    and ne: "lat s \<noteq> []" "lon s \<noteq> []" "time s \<noteq> None"
  shows "compute_fronts_main ops vops ds aoi_gdf \<lparr>geoms = [], mcrs = c\<rparr> = Inl EmptyGeometries"
  using ne by (simp add: compute_fronts_main_def sst sobel_gradient_wf [OF wf] rio_clip_first_errors)

theorem empty_coast_buffer_fails_witness:
  "get_SST_data_pydap geometry_ops aoi_box (step_dataset (28815 / 100) (28815 / 100))
   = Inr \<lparr>lat = [0, 1, 2, 3, 4], lon = [0, 1, 2, 3, 4], time = Some 0, crs = Some WGS84,
          data = replicate 5 (replicate 5 (Some 15))\<rparr>
   \<and> compute_fronts_main geometry_ops shapely_ops (step_dataset (28815 / 100) (28815 / 100)) aoi_box
       \<lparr>geoms = [], mcrs = WGS84\<rparr> = Inl EmptyGeometries"
proof -
  let ?s = "\<lparr>lat = [0, 1, 2, 3, 4], lon = [0, 1, 2, 3, 4], time = Some 0, crs = Some WGS84,
             data = replicate 5 (replicate 5 (Some (15::real)))\<rparr>"
  have sst: "get_SST_data_pydap geometry_ops aoi_box (step_dataset (28815 / 100) (28815 / 100)) = Inr ?s"
    using uni_sst by (simp add: numeral_eq_Suc)
  have wf: "raster_wf ?s" by (simp add: raster_wf_def grid_shape_def list_all_iff)
  show ?thesis using empty_coast_buffer_fails [OF sst wf, of shapely_ops WGS84] sst by simp
qed

text \<open>
  C19: an AOI that covers no cell centre of the dataset makes \<open>compute_fronts_main\<close>
  fail with \<open>NoDataInBounds\<close> already in \<open>get_SST_data_pydap\<close> (line 149 of
  input_data_functions.py); the specification says a non-overlapping clip yields an
  all-no-data raster and is not an error.
\<close>

theorem aoi_outside_data_fails:
  assumes fs: "first_slice ds = Inr r0" and ne: "geoms aoi_gdf \<noteq> []"
    and out: "\<forall>i<length (lat r0). \<forall>j<length (lon r0).
                \<not> list_ex (\<lambda>g. covers ops g (lon r0 ! j) (lat r0 ! i)) (clip_geoms ops (geoms aoi_gdf) (mcrs aoi_gdf) WGS84)"
  shows "compute_fronts_main ops vops ds aoi_gdf coast_buffer = Inl NoDataInBounds"
proof -
  let ?r = "write_crs WGS84 (kelvin_to_celsius r0)"
  have "rio_clip ops (geoms aoi_gdf) (mcrs aoi_gdf) False ?r = Inl NoDataInBounds"
    using out by (intro rio_clip_nothing_kept [OF _ ne]) (simp_all add: write_crs_def kelvin_to_celsius_def kept_def)
  then show ?thesis by (simp add: compute_fronts_main_def get_SST_data_pydap_def fs Let_def)
qed

theorem aoi_outside_data_fails_witness:
  "first_slice (step_dataset (28815 / 100) (28815 / 100))
     = Inr \<lparr>lat = [0, 1, 2, 3, 4], lon = [0, 1, 2, 3, 4], time = Some 0, crs = None,
            data = replicate 5 (replicate 5 (Some (28815 / 100)))\<rparr>
   \<and> compute_fronts_main geometry_ops shapely_ops (step_dataset (28815 / 100) (28815 / 100))
       (polygon_to_gdf (Box 10 10 11 11)) far_coast = Inl NoDataInBounds"
proof -
  let ?r0 = "\<lparr>lat = [0, 1, 2, 3, 4], lon = [0, 1, 2, 3, 4], time = Some 0, crs = None,
              data = replicate 5 (replicate 5 (Some (28815 / 100 :: real)))\<rparr>"
  have fs: "first_slice (step_dataset (28815 / 100) (28815 / 100)) = Inr ?r0"
    by (simp add: first_slice_def step_dataset_def numeral_eq_Suc)
  have out: "\<forall>i<length (lat ?r0). \<forall>j<length (lon ?r0).
     \<not> list_ex (\<lambda>g. covers geometry_ops g (lon ?r0 ! j) (lat ?r0 ! i))
        (clip_geoms geometry_ops (geoms (polygon_to_gdf (Box 10 10 11 11))) (mcrs (polygon_to_gdf (Box 10 10 11 11))) WGS84)"
    by (auto simp: polygon_to_gdf_def clip_geoms_def geometry_ops_def less_Suc_eq)
  show ?thesis
    using aoi_outside_data_fails [OF fs _ out, of shapely_ops far_coast] fs by (simp add: polygon_to_gdf_def)
qed

end
